theory Spec2Isabelle
  imports Main "HOL-Library.Sublist"
begin

section \<open>Strings\<close>

text \<open>
  A JavaScript string is a sequence of UTF-16 code units. The model uses \<^typ>\<open>string\<close>,
  reading each \<^typ>\<open>char\<close> as one code unit in the range 0..255 (Latin-1), so it covers
  the strings all of whose code units are below 256. None of the regular expressions of
  the source carries the \<open>u\<close> flag, so they too work on code units.
\<close>

definition backslash :: char where
  "backslash = CHR 0x5C"

definition newline :: char where
  "newline = CHR 0x0A"

text \<open>\<open>String.prototype.toLowerCase\<close> on code units below 256: A-Z and the Latin-1
  capitals (0xC0-0xDE without the multiplication sign 0xD7) move up by 32.\<close>

definition toLowerChar :: "char \<Rightarrow> char" where
  "toLowerChar c =
     (let n = (of_char c :: nat)
      in if (65 \<le> n \<and> n \<le> 90) \<or> (192 \<le> n \<and> n \<le> 222 \<and> n \<noteq> 215)
         then char_of (n + 32) else c)"

definition toLowerCase :: "string \<Rightarrow> string" where
  "toLowerCase s = map toLowerChar s"

text \<open>\<open>s.includes(pat)\<close> (\<open>includes\<close> is a keyword of Isabelle): \<open>pat\<close> occurs in \<open>s\<close> as a contiguous substring.\<close>

fun includes_str :: "string \<Rightarrow> string \<Rightarrow> bool" where
  "includes_str [] pat = (pat = [])"
| "includes_str (c # cs) pat = (prefix pat (c # cs) \<or> includes_str cs pat)"

text \<open>\<open>s.split(sep)\<close> for a one-character separator: the result is never empty, and the
  empty string splits into the list holding the empty string.\<close>

fun split_on :: "char \<Rightarrow> string \<Rightarrow> string list" where
  "split_on sep [] = [[]]"
| "split_on sep (c # cs) =
     (if c = sep then [] # split_on sep cs
      else (case split_on sep cs of [] \<Rightarrow> [[c]] | seg # segs \<Rightarrow> (c # seg) # segs))"

text \<open>\<open>parts.join(sep)\<close>.\<close>

fun join :: "string \<Rightarrow> string list \<Rightarrow> string" where
  "join sep [] = []"
| "join sep [x] = x"
| "join sep (x # y # ys) = x @ sep @ join sep (y # ys)"

definition is_space :: "char \<Rightarrow> bool" where
  "is_space c = (c \<in> set [CHR 0x09, CHR 0x0A, CHR 0x0B, CHR 0x0C, CHR 0x0D, CHR 0x20, CHR 0xA0])"

definition is_digit :: "char \<Rightarrow> bool" where
  "is_digit c = (c \<in> set ''0123456789'')"

definition is_word :: "char \<Rightarrow> bool" where
  "is_word c = (c \<in> set ''abcdefghijklmnopqrstuvwxyzABCDEFGHIJKLMNOPQRSTUVWXYZ0123456789_'')"

definition is_line_terminator :: "char \<Rightarrow> bool" where
  "is_line_terminator c = (c = CHR 0x0A \<or> c = CHR 0x0D)"

text \<open>\<open>s.trim()\<close> removes white space and line terminators (the characters of \<open>\s\<close>)
  at both ends.\<close>

definition trim :: "string \<Rightarrow> string" where
  "trim s = rev (dropWhile is_space (rev (dropWhile is_space s)))"

text \<open>
  A JavaScript number is a double. The numbers of this program are line and column numbers
  and the ids of work items. The numbers the parser makes are values of \<open>parseInt\<close> on digit
  strings: naturals rounded to the nearest double (ties to even), \<open>Infinity\<close> beyond the
  largest double, and \<open>NaN\<close> when the text has no leading digit. \<open>toDouble\<close> is that
  rounding: a natural below \<open>2^53\<close> is exact; a larger one keeps its 53 leading bits.
\<close>

datatype jsnum = Fin nat | Infinity | NaN

function excessBits :: "nat \<Rightarrow> nat" where
  "excessBits n = (if n < 2 ^ 53 then 0 else Suc (excessBits (n div 2)))"
  by pat_completeness auto
termination
  by (relation "measure (\<lambda>n. n)") auto

declare excessBits.simps [simp del]

definition toDouble :: "nat \<Rightarrow> jsnum" where
  "toDouble n =
     (if n < 2 ^ 53 then Fin n
      else (let e = excessBits n; q = n div 2 ^ e; r = n mod 2 ^ e;
                q' = (if 2 ^ e < 2 * r \<or> (2 * r = 2 ^ e \<and> odd q) then q + 1 else q)
            in if 2 ^ 1024 \<le> q' * 2 ^ e then Infinity else Fin (q' * 2 ^ e)))"

text \<open>\<open>parseInt(s, 10)\<close> on the text of a \<open>\d+\<close> group: the value of the leading decimal
  digits, as a double. (\<open>parseInt\<close> also skips leading white space and reads a sign; every
  call of the source passes a non-empty digit string. Beyond 20 significant digits ECMAScript
  lets an implementation round the digits first; the model rounds the exact value, as V8 does.)\<close>

definition digit_val :: "char \<Rightarrow> nat" where
  "digit_val c = of_char c - 48"

definition parseInt10 :: "string \<Rightarrow> jsnum" where
  "parseInt10 s =
     (let ds = takeWhile is_digit s
      in if ds = [] then NaN else toDouble (foldl (\<lambda>n c. 10 * n + digit_val c) 0 ds))"

text \<open>The decimal text of a natural.\<close>

fun digits_of :: "nat \<Rightarrow> string" where
  "digits_of n =
     (if n < 10 then [char_of (48 + n)] else digits_of (n div 10) @ [char_of (48 + n mod 10)])"

text \<open>
  \<open>Number::toString\<close>, as a template literal renders a number. A natural below \<open>2^53\<close> is
  its decimal digits. Above, the text is made of the shortest digit string \<open>s\<close> (of \<open>k\<close>
  digits) with \<open>s * 10^(n - k)\<close> rounding to the number: \<open>s\<close> followed by \<open>n - k\<close> zeros when
  \<open>n \<le> 21\<close>, and \<open>d.ddde+(n-1)\<close> beyond. Of two candidates of the same length the one
  nearer to the number is taken, and the even one when both are as near.
\<close>

definition expCandidates :: "nat \<Rightarrow> nat \<Rightarrow> nat \<Rightarrow> (nat \<times> nat) list" where
  "expCandidates v n0 k =
     (let lo = v div 10 ^ (n0 - k);
          hi = (if lo + 1 = 10 ^ k then (10 ^ (k - 1), Suc n0) else (lo + 1, n0))
      in filter (\<lambda>(s, n). toDouble (s * 10 ^ (n - k)) = Fin v) [(lo, n0), hi])"

definition nearer :: "nat \<Rightarrow> nat \<Rightarrow> (nat \<times> nat) \<Rightarrow> (nat \<times> nat) \<Rightarrow> (nat \<times> nat)" where
  "nearer v k a b =
     (let da = (if fst a * 10 ^ (snd a - k) < v then v - fst a * 10 ^ (snd a - k)
                else fst a * 10 ^ (snd a - k) - v);
          db = (if fst b * 10 ^ (snd b - k) < v then v - fst b * 10 ^ (snd b - k)
                else fst b * 10 ^ (snd b - k) - v)
      in if da < db then a else if db < da then b else if even (fst a) then a else b)"

fun shortestFrom :: "nat \<Rightarrow> nat \<Rightarrow> nat list \<Rightarrow> (nat \<times> nat \<times> nat) option" where
  "shortestFrom v n0 [] = None"
| "shortestFrom v n0 (k # ks) =
     (case expCandidates v n0 k of
        [] \<Rightarrow> shortestFrom v n0 ks
      | [a] \<Rightarrow> Some (fst a, k, snd a)
      | a # b # more \<Rightarrow> (let c = nearer v k a b in Some (fst c, k, snd c)))"

definition shortestText :: "nat \<Rightarrow> string" where
  "shortestText v =
     (case shortestFrom v (length (digits_of v)) [1 ..< 18] of
        None \<Rightarrow> digits_of v
      | Some (s, k, n) \<Rightarrow>
          if n \<le> 21 then digits_of s @ replicate (n - k) (CHR ''0'')
          else (case digits_of s of
                  [] \<Rightarrow> []
                | d # ds \<Rightarrow>
                    d # (if ds = [] then [] else CHR ''.'' # ds) @ ''e+'' @ digits_of (n - 1)))"

fun numberText :: "jsnum \<Rightarrow> string" where
  "numberText (Fin v) = (if v < 2 ^ 53 then digits_of v else shortestText v)"
| "numberText Infinity = ''Infinity''"
| "numberText NaN = ''NaN''"

section \<open>Regular expressions\<close>

text \<open>
  The regular expressions of the source are written as terms of \<open>regex\<close> and run by a
  backtracking matcher that follows the ECMAScript semantics: \<open>ms r st\<close> lists, in the
  order in which backtracking tries them, the states that matching \<open>r\<close> from \<open>st\<close> can end
  in. A state is the input that is left and the capture groups set so far; the head of
  the list is the match JavaScript reports. Quantifiers are greedy, as all of the source's
  are. No expression of the source has the \<open>m\<close>, \<open>i\<close> or \<open>s\<close> flag, a back reference or a
  look-around, and none has a capture group under a quantifier other than \<open>?\<close>.
\<close>

datatype cls =
    Lit char  \<comment> \<open>the character itself\<close>
  | Dot       \<comment> \<open>\<open>.\<close>: any character but a line terminator\<close>
  | Space     \<comment> \<open>\<open>\s\<close>\<close>
  | Word      \<comment> \<open>\<open>\w\<close>\<close>
  | Digit     \<comment> \<open>\<open>\d\<close>\<close>

fun cls_has :: "cls \<Rightarrow> char \<Rightarrow> bool" where
  "cls_has (Lit d) c = (c = d)"
| "cls_has Dot c = (\<not> is_line_terminator c)"
| "cls_has Space c = is_space c"
| "cls_has Word c = is_word c"
| "cls_has Digit c = is_digit c"

datatype regex =
    Is cls              \<comment> \<open>one character of the class\<close>
  | AnyOf "cls list"    \<comment> \<open>\<open>[...]\<close>\<close>
  | NoneOf "cls list"   \<comment> \<open>\<open>[^...]\<close>\<close>
  | Str string          \<comment> \<open>literal text\<close>
  | Seq regex regex
  | Alt regex regex     \<comment> \<open>\<open>a|b\<close>\<close>
  | Star regex          \<comment> \<open>\<open>r*\<close>\<close>
  | Plus regex          \<comment> \<open>\<open>r+\<close>\<close>
  | Opt regex           \<comment> \<open>\<open>r?\<close>\<close>
  | Group nat regex     \<comment> \<open>the capture group of that number\<close>
  | Eol                 \<comment> \<open>\<open>$\<close>: the end of the input\<close>

type_synonym caps = "(nat \<times> string) list"
type_synonym mstate = "string \<times> caps"

fun step_char :: "(char \<Rightarrow> bool) \<Rightarrow> mstate \<Rightarrow> mstate list" where
  "step_char p ([], cs) = []"
| "step_char p (c # s, cs) = (if p c then [(s, cs)] else [])"

fun strip_prefix :: "string \<Rightarrow> string \<Rightarrow> string option" where
  "strip_prefix [] s = Some s"
| "strip_prefix (p # ps) [] = None"
| "strip_prefix (p # ps) (c # s) = (if p = c then strip_prefix ps s else None)"

text \<open>Greedy iteration: one more round of the body first, stopping last. A round that
  consumes nothing is dropped, as ECMAScript does, so no more rounds than characters
  left can follow one another: the counter, started at that number, never cuts a match.\<close>

fun star :: "nat \<Rightarrow> (mstate \<Rightarrow> mstate list) \<Rightarrow> mstate \<Rightarrow> mstate list" where
  "star 0 f st = [st]"
| "star (Suc n) f st =
     concat (map (star n f) (filter (\<lambda>st'. length (fst st') < length (fst st)) (f st))) @ [st]"

primrec ms :: "regex \<Rightarrow> mstate \<Rightarrow> mstate list" where
  "ms (Is c) = step_char (cls_has c)"
| "ms (AnyOf cs) = step_char (\<lambda>x. \<exists>c\<in>set cs. cls_has c x)"
| "ms (NoneOf cs) = step_char (\<lambda>x. \<forall>c\<in>set cs. \<not> cls_has c x)"
| "ms (Str p) = (\<lambda>st. case strip_prefix p (fst st) of None \<Rightarrow> [] | Some s \<Rightarrow> [(s, snd st)])"
| "ms (Seq a b) = (\<lambda>st. concat (map (ms b) (ms a st)))"
| "ms (Alt a b) = (\<lambda>st. ms a st @ ms b st)"
| "ms (Star r) = (\<lambda>st. star (length (fst st)) (ms r) st)"
| "ms (Plus r) = (\<lambda>st. concat (map (\<lambda>st'. star (length (fst st')) (ms r) st') (ms r st)))"
| "ms (Opt r) = (\<lambda>st. ms r st @ [st])"
| "ms (Group i r) =
     (\<lambda>st. map (\<lambda>st'. (fst st', (i, take (length (fst st) - length (fst st')) (fst st)) # snd st'))
              (ms r st))"
| "ms Eol = (\<lambda>st. if fst st = [] then [st] else [])"

text \<open>A sequence and an alternation of several parts.\<close>

fun seqs :: "regex list \<Rightarrow> regex" where
  "seqs [] = Str []"
| "seqs [r] = r"
| "seqs (r # rs) = Seq r (seqs rs)"

fun alts :: "regex list \<Rightarrow> regex" where
  "alts [] = AnyOf []"
| "alts [r] = r"
| "alts (r # rs) = Alt r (alts rs)"

text \<open>\<open>search r s i\<close> is \<open>RegExp.prototype.exec\<close> on the input whose part from index \<open>i\<close>
  on is \<open>s\<close>: the leftmost start that matches, with the index of the start, the input
  left after the match and the groups. \<open>match_start\<close> is the same for an expression that
  begins with \<open>^\<close>, which can match at index 0 only.\<close>

fun search :: "regex \<Rightarrow> string \<Rightarrow> nat \<Rightarrow> (nat \<times> mstate) option" where
  "search r [] i = (case ms r ([], []) of [] \<Rightarrow> None | m # _ \<Rightarrow> Some (i, m))"
| "search r (c # s) i =
     (case ms r (c # s, []) of [] \<Rightarrow> search r s (Suc i) | m # _ \<Rightarrow> Some (i, m))"

definition exec :: "regex \<Rightarrow> string \<Rightarrow> (nat \<times> mstate) option" where
  "exec r s = search r s 0"

definition match_start :: "regex \<Rightarrow> string \<Rightarrow> mstate option" where
  "match_start r s = (case ms r (s, []) of [] \<Rightarrow> None | m # _ \<Rightarrow> Some m)"

definition test :: "regex \<Rightarrow> string \<Rightarrow> bool" where
  "test r s = (exec r s \<noteq> None)"

text \<open>The text of a capture group of a match; \<open>None\<close> is \<open>undefined\<close>.\<close>

definition group :: "mstate \<Rightarrow> nat \<Rightarrow> string option" where
  "group m i = map_of (snd m) i"

definition dquote :: char where
  "dquote = CHR 0x22"

definition squote :: char where
  "squote = CHR 0x27"

definition backtick :: char where
  "backtick = CHR 0x60"

section \<open>Stack traces (models/StackTrace.ts)\<close>

datatype ProgrammingLanguage =
  TypeScript | JavaScript | Python | Go | Java | CSharp | Ruby | Rust | Unknown

record StackFrame =
  filePath :: string
  lineNumber :: "jsnum option"
  columnNumber :: "jsnum option"
  functionName :: "string option"
  className :: "string option"
  isUserCode :: bool
  frame_repository :: "string option"

record StackTrace =
  raw :: string
  frames :: "StackFrame list"
  language :: "ProgrammingLanguage option"
  errorMessage :: string
  errorType :: "string option"

section \<open>Stack trace parsing (services/StackTraceParserService.ts)\<close>

subsection \<open>The expressions of the source\<close>

text \<open>\<open>/at\s+.*\s+\(.*\.(?:ts|js|tsx|jsx):\d+:\d+\)/\<close>\<close>

definition jsDetectPattern :: regex where
  "jsDetectPattern =
     seqs [Str ''at'', Plus (Is Space), Star (Is Dot), Plus (Is Space), Str ''('', Star (Is Dot),
           Str ''.'', alts [Str ''ts'', Str ''js'', Str ''tsx'', Str ''jsx''],
           Str '':'', Plus (Is Digit), Str '':'', Plus (Is Digit), Str '')'']"

text \<open>\<open>/File ".*\.py", line \d+/\<close>\<close>

definition pyDetectPattern :: regex where
  "pyDetectPattern =
     seqs [Str (''File '' @ [dquote]), Star (Is Dot), Str (''.py'' @ [dquote] @ '', line ''),
           Plus (Is Digit)]"

text \<open>\<open>/\.go:\d+/\<close> and \<open>/goroutine/\<close>\<close>

definition goDetectPattern :: regex where
  "goDetectPattern = seqs [Str ''.go:'', Plus (Is Digit)]"

definition goroutinePattern :: regex where
  "goroutinePattern = Str ''goroutine''"

text \<open>\<open>/at\s+[\w.]+\([\w.]+\.java:\d+\)/\<close>\<close>

definition javaDetectPattern :: regex where
  "javaDetectPattern =
     seqs [Str ''at'', Plus (Is Space), Plus (AnyOf [Word, Lit CHR ''.'']), Str ''('',
           Plus (AnyOf [Word, Lit CHR ''.'']), Str ''.java:'', Plus (Is Digit), Str '')'']"

text \<open>\<open>/at\s+[\w.]+\s+in\s+.*\.cs:line\s+\d+/\<close>\<close>

definition csDetectPattern :: regex where
  "csDetectPattern =
     seqs [Str ''at'', Plus (Is Space), Plus (AnyOf [Word, Lit CHR ''.'']), Plus (Is Space),
           Str ''in'', Plus (Is Space), Star (Is Dot), Str ''.cs:line'', Plus (Is Space),
           Plus (Is Digit)]"

text \<open>\<open>/\.rb:\d+:in `/\<close>\<close>

definition rubyDetectPattern :: regex where
  "rubyDetectPattern = seqs [Str ''.rb:'', Plus (Is Digit), Str ('':in '' @ [backtick])]"

text \<open>\<open>/\.rs:\d+:\d+/\<close> and \<open>/thread '.*' panicked/\<close>\<close>

definition rustDetectPattern :: regex where
  "rustDetectPattern = seqs [Str ''.rs:'', Plus (Is Digit), Str '':'', Plus (Is Digit)]"

definition panickedPattern :: regex where
  "panickedPattern =
     seqs [Str (''thread '' @ [squote]), Star (Is Dot), Str ([squote] @ '' panicked'')]"

text \<open>\<open>/at\s+(?:(?:(\w+(?:\.\w+)*)\.)?(\w+)\s+)?\(?([^():]+\.(?:ts|js|tsx|jsx|mjs|cjs)):(\d+):(\d+)\)?/\<close>\<close>

definition jsFramePattern :: regex where
  "jsFramePattern =
     seqs [Str ''at'', Plus (Is Space),
           Opt (seqs [Opt (seqs [Group 1 (seqs [Plus (Is Word),
                                                 Star (seqs [Str ''.'', Plus (Is Word)])]),
                                 Str ''.'']),
                      Group 2 (Plus (Is Word)), Plus (Is Space)]),
           Opt (Str ''(''),
           Group 3 (seqs [Plus (NoneOf [Lit CHR ''('', Lit CHR '')'', Lit CHR '':'']), Str ''.'',
                          alts [Str ''ts'', Str ''js'', Str ''tsx'', Str ''jsx'', Str ''mjs'',
                                Str ''cjs'']]),
           Str '':'', Group 4 (Plus (Is Digit)), Str '':'', Group 5 (Plus (Is Digit)),
           Opt (Str '')'')]"

text \<open>\<open>/File "([^"]+\.py)", line (\d+)(?:, in (\w+))?/\<close>\<close>

definition pyFramePattern :: regex where
  "pyFramePattern =
     seqs [Str (''File '' @ [dquote]),
           Group 1 (seqs [Plus (NoneOf [Lit dquote]), Str ''.py'']),
           Str ([dquote] @ '', line ''), Group 2 (Plus (Is Digit)),
           Opt (seqs [Str '', in '', Group 3 (Plus (Is Word))])]"

text \<open>\<open>/([^\s]+\.go):(\d+)/\<close> and \<open>/^(\w+(?:\.\w+)*)\(.*\)$/\<close> (the latter is run
  by \<open>match_start\<close>)\<close>

definition goFramePattern :: regex where
  "goFramePattern =
     seqs [Group 1 (seqs [Plus (NoneOf [Space]), Str ''.go'']), Str '':'',
           Group 2 (Plus (Is Digit))]"

definition goFuncPattern :: regex where
  "goFuncPattern =
     seqs [Group 1 (seqs [Plus (Is Word), Star (seqs [Str ''.'', Plus (Is Word)])]),
           Str ''('', Star (Is Dot), Str '')'', Eol]"

text \<open>\<open>/at\s+([\w.$]+)\.([\w$<>]+)\(([\w.]+):(\d+)\)/\<close>\<close>

definition javaFramePattern :: regex where
  "javaFramePattern =
     seqs [Str ''at'', Plus (Is Space),
           Group 1 (Plus (AnyOf [Word, Lit CHR ''.'', Lit CHR ''$''])), Str ''.'',
           Group 2 (Plus (AnyOf [Word, Lit CHR ''$'', Lit CHR ''<'', Lit CHR ''>''])), Str ''('',
           Group 3 (Plus (AnyOf [Word, Lit CHR ''.''])), Str '':'', Group 4 (Plus (Is Digit)),
           Str '')'']"

text \<open>\<open>/([^\s:()]+\.\w+):(\d+)/g\<close>\<close>

definition fileLinePattern :: regex where
  "fileLinePattern =
     seqs [Group 1 (seqs [Plus (NoneOf [Space, Lit CHR '':'', Lit CHR ''('', Lit CHR '')'']),
                          Str ''.'', Plus (Is Word)]),
           Str '':'', Group 2 (Plus (Is Digit))]"

text \<open>\<open>/^(\w+Error):\s*(.+)$/\<close> and \<open>/^([\w.]+Error|[\w.]+Exception):\s*(.+)$/\<close> (both run
  by \<open>match_start\<close>)\<close>

definition jsErrorPattern :: regex where
  "jsErrorPattern =
     seqs [Group 1 (seqs [Plus (Is Word), Str ''Error'']), Str '':'', Star (Is Space),
           Group 2 (Plus (Is Dot)), Eol]"

definition pyErrorPattern :: regex where
  "pyErrorPattern =
     seqs [Group 1 (alts [seqs [Plus (AnyOf [Word, Lit CHR ''.'']), Str ''Error''],
                          seqs [Plus (AnyOf [Word, Lit CHR ''.'']), Str ''Exception'']]),
           Str '':'', Star (Is Space), Group 2 (Plus (Is Dot)), Eol]"

subsection \<open>detectLanguage\<close>

definition detectLanguage :: "string \<Rightarrow> ProgrammingLanguage" where
  "detectLanguage stackTrace =
     (if test jsDetectPattern stackTrace
        then (if includes_str stackTrace ''.ts'' then TypeScript else JavaScript)
      else if test pyDetectPattern stackTrace then Python
      else if test goDetectPattern stackTrace \<and> test goroutinePattern stackTrace then Go
      else if test javaDetectPattern stackTrace then Java
      else if test csDetectPattern stackTrace then CSharp
      else if test rubyDetectPattern stackTrace then Ruby
      else if test rustDetectPattern stackTrace \<and> test panickedPattern stackTrace then Rust
      else Unknown)"

subsection \<open>isUserCode\<close>

text \<open>The eight library expressions are literal texts (\<open>/node_modules/\<close>, \<open>/\.gem/\<close>,
  \<open>/internal\//\<close>, ...). The method is named \<open>isUserCodePath\<close> here, the frame's field
  keeps the name \<open>isUserCode\<close>.\<close>

definition libraryPatterns :: "regex list" where
  "libraryPatterns =
     [Str ''node_modules'', Str ''site-packages'', Str ''vendor'', Str ''.gem'',
      Str ''dist-packages'', Str ''internal/'', Str ''<anonymous>'', Str ''native'']"

definition isUserCodePath :: "string \<Rightarrow> bool" where
  "isUserCodePath path = (\<not> (\<exists>pattern\<in>set libraryPatterns. test pattern path))"

subsection \<open>Frame extraction\<close>

text \<open>\<open>g ?? ''\<close> and \<open>g ? parseInt(g, 10) : undefined\<close> on a capture group.\<close>

definition orEmpty :: "string option \<Rightarrow> string" where
  "orEmpty g = (case g of None \<Rightarrow> [] | Some s \<Rightarrow> s)"

definition numberOf :: "string option \<Rightarrow> jsnum option" where
  "numberOf g = (case g of None \<Rightarrow> None | Some d \<Rightarrow> if d = [] then None else Some (parseInt10 d))"

definition jsFrameOfLine :: "string \<Rightarrow> StackFrame option" where
  "jsFrameOfLine line =
     (case exec jsFramePattern line of
        None \<Rightarrow> None
      | Some (i, m) \<Rightarrow>
          Some \<lparr>filePath = orEmpty (group m 3), lineNumber = numberOf (group m 4),
                columnNumber = numberOf (group m 5), functionName = group m 2,
                className = group m 1, isUserCode = isUserCodePath (orEmpty (group m 3)),
                frame_repository = None\<rparr>)"

definition parseJavaScriptFrames :: "string \<Rightarrow> StackFrame list" where
  "parseJavaScriptFrames stackTrace = List.map_filter jsFrameOfLine (split_on newline stackTrace)"

definition pyFrameOfLine :: "string \<Rightarrow> StackFrame option" where
  "pyFrameOfLine line =
     (case exec pyFramePattern line of
        None \<Rightarrow> None
      | Some (i, m) \<Rightarrow>
          Some \<lparr>filePath = orEmpty (group m 1), lineNumber = numberOf (group m 2),
                columnNumber = None, functionName = group m 3, className = None,
                isUserCode = isUserCodePath (orEmpty (group m 1)), frame_repository = None\<rparr>)"

definition parsePythonFrames :: "string \<Rightarrow> StackFrame list" where
  "parsePythonFrames stackTrace = List.map_filter pyFrameOfLine (split_on newline stackTrace)"

text \<open>The loop of \<open>parseGoFrames\<close>, with its variable \<open>currentFunction\<close>.\<close>

fun goLoop :: "string list \<Rightarrow> string option \<Rightarrow> StackFrame list \<Rightarrow> StackFrame list" where
  "goLoop [] currentFunction fs = fs"
| "goLoop (line # lines) currentFunction fs =
     (case match_start goFuncPattern (trim line) of
        Some funcMatch \<Rightarrow> goLoop lines (group funcMatch 1) fs
      | None \<Rightarrow>
          (case exec goFramePattern line of
             None \<Rightarrow> goLoop lines currentFunction fs
           | Some (i, m) \<Rightarrow>
               (let parts = (case currentFunction of None \<Rightarrow> [] | Some f \<Rightarrow> split_on CHR ''.'' f)
                in goLoop lines None
                     (fs @ [\<lparr>filePath = orEmpty (group m 1), lineNumber = numberOf (group m 2),
                              columnNumber = None,
                              functionName = (if parts = [] then None else Some (last parts)),
                              className = Some (join ''.'' (butlast parts)),
                              isUserCode = isUserCodePath (orEmpty (group m 1)),
                              frame_repository = None\<rparr>]))))"

definition parseGoFrames :: "string \<Rightarrow> StackFrame list" where
  "parseGoFrames stackTrace = goLoop (split_on newline stackTrace) None []"

definition javaFrameOfLine :: "string \<Rightarrow> StackFrame option" where
  "javaFrameOfLine line =
     (case exec javaFramePattern line of
        None \<Rightarrow> None
      | Some (i, m) \<Rightarrow>
          Some \<lparr>filePath = orEmpty (group m 3), lineNumber = numberOf (group m 4),
                columnNumber = None, functionName = group m 2, className = group m 1,
                isUserCode = isUserCodePath (orEmpty (group m 1)), frame_repository = None\<rparr>)"

definition parseJavaFrames :: "string \<Rightarrow> StackFrame list" where
  "parseJavaFrames stackTrace = List.map_filter javaFrameOfLine (split_on newline stackTrace)"

text \<open>The \<open>while ((match = fileLinePattern.exec(line)) !== null)\<close> loop on one line:
  \<open>s\<close> is the line from \<open>lastIndex\<close> on. A match of the expression is never empty
  (lemma \<open>fileLinePattern_consumes\<close> below), so the test that the input got shorter
  always holds.\<close>

function genericLine :: "string \<Rightarrow> StackFrame list \<Rightarrow> StackFrame list" where
  "genericLine s fs =
     (case exec fileLinePattern s of
        None \<Rightarrow> fs
      | Some (i, m) \<Rightarrow>
          if length (fst m) < length s
          then genericLine (fst m)
                 (case group m 1 of
                    None \<Rightarrow> fs
                  | Some path \<Rightarrow>
                      if path \<noteq> [] \<and> \<not> (\<exists>f\<in>set fs. filePath f = path)
                      then fs @ [\<lparr>filePath = path, lineNumber = numberOf (group m 2),
                                   columnNumber = None, functionName = None, className = None,
                                   isUserCode = isUserCodePath path, frame_repository = None\<rparr>]
                      else fs)
          else fs)"
  by pat_completeness auto
termination
  by (relation "measure (\<lambda>(s, fs). length s)") auto

definition parseGenericFrames :: "string \<Rightarrow> StackFrame list" where
  "parseGenericFrames stackTrace =
     foldl (\<lambda>fs line. genericLine line fs) [] (split_on newline stackTrace)"

fun parseFrames :: "string \<Rightarrow> ProgrammingLanguage \<Rightarrow> StackFrame list" where
  "parseFrames stackTrace TypeScript = parseJavaScriptFrames stackTrace"
| "parseFrames stackTrace JavaScript = parseJavaScriptFrames stackTrace"
| "parseFrames stackTrace Python = parsePythonFrames stackTrace"
| "parseFrames stackTrace Go = parseGoFrames stackTrace"
| "parseFrames stackTrace Java = parseJavaFrames stackTrace"
| "parseFrames stackTrace other = parseGenericFrames stackTrace"

subsection \<open>extractErrorInfo and parse\<close>

record ErrorInfo =
  info_message :: string
  info_type :: "string option"

definition firstLineOf :: "string \<Rightarrow> string" where
  "firstLineOf stackTrace = (case split_on newline stackTrace of [] \<Rightarrow> [] | l # ls \<Rightarrow> trim l)"

definition extractErrorInfo :: "string \<Rightarrow> string option \<Rightarrow> ErrorInfo" where
  "extractErrorInfo stackTrace providedMessage =
     (let firstLine = firstLineOf stackTrace
      in case match_start jsErrorPattern firstLine of
           Some jsMatch \<Rightarrow>
             \<lparr>info_message = (case group jsMatch 2 of Some t \<Rightarrow> t | None \<Rightarrow> orEmpty providedMessage),
              info_type = group jsMatch 1\<rparr>
         | None \<Rightarrow>
             (case match_start pyErrorPattern firstLine of
                Some pyMatch \<Rightarrow>
                  \<lparr>info_message = (case group pyMatch 2 of Some t \<Rightarrow> t | None \<Rightarrow> orEmpty providedMessage),
                   info_type = group pyMatch 1\<rparr>
              | None \<Rightarrow>
                  \<lparr>info_message = (case providedMessage of Some p \<Rightarrow> p | None \<Rightarrow> firstLine),
                   info_type = None\<rparr>))"

text \<open>\<open>parse\<close> has no \<open>throw\<close> and reads no property of a possibly missing value
  without a guard (\<open>if (match)\<close>, \<open>?.\<close>, \<open>??\<close>), so it is a total function with no error
  result.\<close>

definition parse :: "string \<Rightarrow> string option \<Rightarrow> StackTrace" where
  "parse rawStackTrace providedMessage =
     (let lang = detectLanguage rawStackTrace;
          fs = parseFrames rawStackTrace lang;
          info = extractErrorInfo rawStackTrace providedMessage
      in \<lparr>raw = rawStackTrace, frames = fs, language = Some lang,
          errorMessage = info_message info, errorType = info_type info\<rparr>)"

section \<open>Error records and severities (models/AuditLogError.ts)\<close>

text \<open>
  \<open>ErrorSeverity\<close> is declared as the union of the texts \<open>critical\<close>, \<open>error\<close>, \<open>warning\<close>
  and \<open>info\<close>. The declaration is not checked when the program runs (the store adapter
  casts what it reads, \<open>item['severity'] as ErrorSeverity\<close>), so the value of the field is
  any text, or \<open>undefined\<close> (\<open>None\<close>).
\<close>

type_synonym ErrorSeverity = "string option"

record AuditLogError =
  id_err :: string
  timestamp :: string
  message :: string
  stackTrace :: string
  severity :: ErrorSeverity
  source :: string
  environment :: string
  commitSha :: "string option"
  repository :: "string option"
  processed :: bool

section \<open>Severity mappings (models/BugWorkItem.ts)\<close>

text \<open>Both functions are a \<open>switch\<close> over the four texts with a \<open>default\<close> branch.\<close>

definition mapErrorSeverityToBugPriority :: "ErrorSeverity \<Rightarrow> nat" where
  "mapErrorSeverityToBugPriority sev =
     (if sev = Some ''critical'' then 1
      else if sev = Some ''error'' then 2
      else if sev = Some ''warning'' then 3
      else if sev = Some ''info'' then 4
      else 2)"

definition mapErrorSeverityToBugSeverity :: "ErrorSeverity \<Rightarrow> string" where
  "mapErrorSeverityToBugSeverity sev =
     (if sev = Some ''critical'' then ''1 - Critical''
      else if sev = Some ''error'' then ''2 - High''
      else if sev = Some ''warning'' then ''3 - Medium''
      else if sev = Some ''info'' then ''4 - Low''
      else ''2 - High'')"

section \<open>Repository descriptors (services/RepositoryFinderService.ts)\<close>

record RepositoryInfo =
  owner :: string
  name :: string
  fullName :: string
  url :: string
  defaultBranch :: string

section \<open>Collaborators and effects\<close>

text \<open>
  A thrown value. The code casts what it catches (\<open>err as Error\<close>) and reads the message
  only, but a promise may reject with any value: \<open>JsError m\<close> is an object whose \<open>message\<close>
  is the text \<open>m\<close> (an \<open>Error\<close>), \<open>ThrownOther\<close> a value without a \<open>message\<close>
  property (a string, a number, a plain object), \<open>ThrownUndefined\<close> and \<open>ThrownNull\<close> the two
  values of which no property can be read. \<open>readMessage\<close> is the expression \<open>err.message\<close>:
  the text, \<open>undefined\<close>, or a \<open>TypeError\<close> raised where the expression stands.

  An \<open>async\<close> method is a function from the state to an outcome (\<open>Inl\<close>: the promise
  rejects, \<open>Inr\<close>: it resolves) and the new state; \<open>await\<close> is sequencing.
\<close>

datatype js_error = JsError string | ThrownOther | ThrownUndefined | ThrownNull

fun readMessage :: "js_error \<Rightarrow> js_error + string option" where
  "readMessage (JsError m) = Inr (Some m)"
| "readMessage ThrownOther = Inr None"
| "readMessage ThrownUndefined =
     Inl (JsError ''Cannot read properties of undefined (reading 'message')'')"
| "readMessage ThrownNull =
     Inl (JsError ''Cannot read properties of null (reading 'message')'')"

type_synonym ('s, 'a) prog = "'s \<Rightarrow> (js_error + 'a) \<times> 's"

definition returnP :: "'a \<Rightarrow> ('s, 'a) prog" where
  "returnP x = (\<lambda>s. (Inr x, s))"

definition throwP :: "js_error \<Rightarrow> ('s, 'a) prog" where
  "throwP e = (\<lambda>s. (Inl e, s))"

definition bindP :: "('s, 'a) prog \<Rightarrow> ('a \<Rightarrow> ('s, 'b) prog) \<Rightarrow> ('s, 'b) prog" where
  "bindP m f = (\<lambda>s. case m s of (Inl e, s') \<Rightarrow> (Inl e, s') | (Inr x, s') \<Rightarrow> f x s')"

definition catchP :: "('s, 'a) prog \<Rightarrow> (js_error \<Rightarrow> ('s, 'a) prog) \<Rightarrow> ('s, 'a) prog" where
  "catchP m h = (\<lambda>s. case m s of (Inl e, s') \<Rightarrow> h e s' | (Inr x, s') \<Rightarrow> (Inr x, s'))"

subsection \<open>The source-control host (adapters/interfaces/IGitHubAdapter.ts)\<close>

record RepoData =
  rd_defaultBranch :: string
  rd_fullName :: string
  rd_url :: string

record SearchResult =
  sr_owner :: string
  sr_name :: string
  sr_fullName :: string
  sr_url :: string

record PullRequestParams =
  pr_owner :: string
  pr_repo :: string
  pr_title :: string
  pr_body :: string
  pr_head :: string
  pr_base :: string
  pr_draft :: "bool option"

record PullRequest =
  pr_url :: string
  pr_number :: nat

text \<open>The methods the core calls; \<open>'w\<close> is the state of the world outside.\<close>

record 'w IGitHubAdapter =
  createBranch :: "string \<Rightarrow> string \<Rightarrow> string \<Rightarrow> string \<Rightarrow> 'w \<Rightarrow> (js_error + unit) \<times> 'w"
  createPullRequest :: "PullRequestParams \<Rightarrow> 'w \<Rightarrow> (js_error + PullRequest) \<times> 'w"
  getRepository :: "string \<Rightarrow> string \<Rightarrow> 'w \<Rightarrow> (js_error + RepoData option) \<times> 'w"
  searchRepositories :: "string \<Rightarrow> 'w \<Rightarrow> (js_error + SearchResult list) \<times> 'w"

subsection \<open>The issue tracker (adapters/interfaces/IDevOpsAdapter.ts, models/BugWorkItem.ts)\<close>

record CreateBugInput =
  bug_title :: string
  bug_description :: string
  bug_reproSteps :: "string option"
  bug_systemInfo :: "string option"
  bug_priority :: "nat option"
  bug_severity :: "string option"
  bug_tags :: "string list option"
  bug_assignedTo :: "string option"
  bug_areaPath :: "string option"
  bug_iterationPath :: "string option"
  bug_relatedErrorId :: string

record BugWorkItem =
  wi_id :: "jsnum option"
  wi_title :: string
  wi_description :: string
  wi_reproSteps :: "string option"
  wi_systemInfo :: "string option"
  wi_priority :: nat
  wi_severity :: string
  wi_tags :: "string list option"
  wi_assignedTo :: "string option"
  wi_areaPath :: "string option"
  wi_iterationPath :: "string option"
  wi_relatedErrorId :: string
  wi_bugBranch :: "string option"
  wi_pullRequestUrl :: "string option"

record 'w IDevOpsAdapter =
  createBug :: "CreateBugInput \<Rightarrow> 'w \<Rightarrow> (js_error + BugWorkItem) \<times> 'w"
  addComment :: "jsnum option \<Rightarrow> string \<Rightarrow> 'w \<Rightarrow> (js_error + unit) \<times> 'w"
  linkPullRequest :: "jsnum option \<Rightarrow> string \<Rightarrow> 'w \<Rightarrow> (js_error + unit) \<times> 'w"

subsection \<open>The fix agent (adapters/interfaces/IOzAdapter.ts)\<close>

record FixBugParams =
  oz_errorMessage :: string
  oz_stackTrace :: StackTrace
  oz_repository :: string
  oz_branch :: string
  oz_context :: "string option"
  oz_environmentId :: "string option"

record OzFixResult =
  runId :: string
  oz_success :: bool
  summary :: string
  filesModified :: "string list"
  oz_commitSha :: "string option"
  oz_error :: "string option"
  durationMs :: nat

record 'w IOzAdapter =
  fixBug :: "FixBugParams \<Rightarrow> 'w \<Rightarrow> (js_error + OzFixResult) \<times> 'w"

subsection \<open>The chat notifier (ITeamsAdapter)\<close>

record PRNotification =
  prn_teamId :: string
  prn_channelId :: string
  prn_prUrl :: string
  prn_prTitle :: string
  prn_repository :: string
  prn_bugTitle :: string
  prn_workItemId :: "jsnum option"
  prn_fixSummary :: string

record ErrorNotification =
  en_teamId :: string
  en_channelId :: string
  en_errorMessage :: "string option"
  en_errorId :: string
  en_stage :: string

record 'w ITeamsAdapter =
  sendPRNotification :: "PRNotification \<Rightarrow> 'w \<Rightarrow> (js_error + unit) \<times> 'w"
  sendErrorNotification :: "ErrorNotification \<Rightarrow> 'w \<Rightarrow> (js_error + unit) \<times> 'w"

subsection \<open>The audit store (IDynamoDBAdapter)\<close>

record AuditLogErrorFilter =
  f_processed :: "bool option"
  f_severity :: "ErrorSeverity list option"
  f_source :: "string option"
  f_since :: "string option"
  f_limit :: "nat option"

record ProcessedMetadata =
  md_workItemId :: "jsnum option"
  md_pullRequestUrl :: string
  md_branch :: string
  md_ozRunId :: string

record FixInfo =
  fi_workItemId :: "jsnum option"
  fi_pullRequestUrl :: "string option"
  fi_branch :: "string option"
  fi_fixedAt :: "string option"

record 'w IDynamoDBAdapter =
  getUnprocessedErrors :: "AuditLogErrorFilter \<Rightarrow> 'w \<Rightarrow> (js_error + AuditLogError list) \<times> 'w"
  markAsProcessed :: "string \<Rightarrow> ProcessedMetadata \<Rightarrow> 'w \<Rightarrow> (js_error + unit) \<times> 'w"
  updateErrorWithFixInfo :: "string \<Rightarrow> FixInfo \<Rightarrow> 'w \<Rightarrow> (js_error + unit) \<times> 'w"

subsection \<open>Workflow stages and results (models/FixResult.ts)\<close>

datatype FixWorkflowStage =
    Initializing | ParsingError | FindingRepository | CreatingWorkItem | CreatingBranch
  | RunningOzAgent | CreatingPullRequest | NotifyingTeam | Completed | Failed

fun stage_name :: "FixWorkflowStage \<Rightarrow> string" where
  "stage_name Initializing = ''initializing''"
| "stage_name ParsingError = ''parsing_error''"
| "stage_name FindingRepository = ''finding_repository''"
| "stage_name CreatingWorkItem = ''creating_work_item''"
| "stage_name CreatingBranch = ''creating_branch''"
| "stage_name RunningOzAgent = ''running_oz_agent''"
| "stage_name CreatingPullRequest = ''creating_pull_request''"
| "stage_name NotifyingTeam = ''notifying_team''"
| "stage_name Completed = ''completed''"
| "stage_name Failed = ''failed''"

record FixWorkflowStatus =
  stage :: FixWorkflowStage
  progress :: nat
  status_message :: string
  startTime :: string
  endTime :: "string option"
  status_error :: "string option"

datatype ChangeType = Added | Modified | Deleted

record ModifiedFile =
  path :: string
  changeType :: ChangeType
  linesAdded :: nat
  linesRemoved :: nat

record FixResult =
  success :: bool
  errorId :: string
  fr_repository :: string
  fr_branch :: string
  modifiedFiles :: "ModifiedFile list"
  pullRequestUrl :: "string option"
  pullRequestNumber :: "nat option"
  workItemId :: "jsnum option"
  fixSummary :: string
  ozRunId :: "string option"
  fr_errorMessage :: "string option"
  fr_timestamp :: string

subsection \<open>The record of calls\<close>

text \<open>
  The state a run threads: the world outside, and the collaborator calls made so far, oldest
  first. A lookup and a search are recorded with their outcome. \<open>LoggerDebug\<close> is the line
  that \<open>updateStatus\<close> writes for each stage it sets, \<open>LoggerError\<close> the line that the
  \<open>catch\<close> block of \<open>processError\<close> writes: the error's id, the value caught and the stage
  the status has. (The other lines of the log carry no stage and are not recorded.)
\<close>

datatype call =
    GetRepository string string "js_error + RepoData option"
  | SearchRepositories string "js_error + SearchResult list"
  | CreateBranch string string string string
  | CreatePullRequestCall PullRequestParams
  | CreateBug CreateBugInput
  | LinkPullRequest "jsnum option" string
  | AddComment "jsnum option" string
  | FixBug FixBugParams
  | SendPRNotification PRNotification
  | SendErrorNotification ErrorNotification
  | GetUnprocessedErrors AuditLogErrorFilter
  | MarkAsProcessed string ProcessedMetadata
  | UpdateErrorWithFixInfo string FixInfo
  | LoggerDebug FixWorkflowStage nat string
  | LoggerError string js_error FixWorkflowStage

record 'w wstate =
  world :: 'w
  calls :: "call list"

text \<open>Calling a collaborator: run it on the world, record the call.\<close>

definition invoke ::
  "('w \<Rightarrow> (js_error + 'a) \<times> 'w) \<Rightarrow> ((js_error + 'a) \<Rightarrow> call) \<Rightarrow> ('w wstate, 'a) prog" where
  "invoke f ev = (\<lambda>s. case f (world s) of
                        (out, w') \<Rightarrow> (out, \<lparr>world = w', calls = calls s @ [ev out]\<rparr>))"

section \<open>Repository resolution (services/RepositoryFinderService.ts)\<close>

text \<open>\<open>/github\.com\/([^/]+)\/([^/]+)/\<close> and \<open>/\.[^.]+$/\<close>\<close>

definition githubPathPattern :: regex where
  "githubPathPattern =
     seqs [Str ''github.com/'', Group 1 (Plus (NoneOf [Lit CHR ''/''])), Str ''/'',
           Group 2 (Plus (NoneOf [Lit CHR ''/'']))]"

definition extensionPattern :: regex where
  "extensionPattern = seqs [Str ''.'', Plus (NoneOf [Lit CHR ''.'']), Eol]"

text \<open>\<open>const [owner, repo] = fullName.split('/')\<close>: a missing or empty segment is no
  match, and no lookup is made.\<close>

definition getRepositoryInfo ::
  "'w IGitHubAdapter \<Rightarrow> string \<Rightarrow> ('w wstate, RepositoryInfo option) prog" where
  "getRepositoryInfo githubAdapter full =
     (case split_on CHR ''/'' full of
        ow # repo # segments \<Rightarrow>
          if ow = [] \<or> repo = [] then returnP None
          else bindP (invoke (getRepository githubAdapter ow repo) (GetRepository ow repo))
                 (\<lambda>repoData. case repoData of
                    None \<Rightarrow> returnP None
                  | Some rd \<Rightarrow>
                      returnP (Some \<lparr>owner = ow, name = repo, fullName = rd_fullName rd,
                                     url = rd_url rd, defaultBranch = rd_defaultBranch rd\<rparr>))
      | short \<Rightarrow> returnP None)"

text \<open>The loop of \<open>findRepositoryFromStackTrace\<close> over the frames of user code.\<close>

definition repoFromPath ::
  "'w IGitHubAdapter \<Rightarrow> StackFrame \<Rightarrow> ('w wstate, RepositoryInfo option) prog" where
  "repoFromPath githubAdapter frame =
     (case exec githubPathPattern (filePath frame) of
        None \<Rightarrow> returnP None
      | Some (i, githubMatch) \<Rightarrow>
          (case (group githubMatch 1, group githubMatch 2) of
             (Some ow, Some repo) \<Rightarrow>
               if ow \<noteq> [] \<and> repo \<noteq> []
               then getRepositoryInfo githubAdapter (ow @ ''/'' @ repo) else returnP None
           | other \<Rightarrow> returnP None))"

definition repoFromMetadata ::
  "'w IGitHubAdapter \<Rightarrow> StackFrame \<Rightarrow> ('w wstate, RepositoryInfo option) prog" where
  "repoFromMetadata githubAdapter frame =
     (case frame_repository frame of
        None \<Rightarrow> returnP None
      | Some r \<Rightarrow> if r = [] then returnP None else getRepositoryInfo githubAdapter r)"

fun stackLoop ::
  "'w IGitHubAdapter \<Rightarrow> StackFrame list \<Rightarrow> ('w wstate, RepositoryInfo option) prog" where
  "stackLoop githubAdapter [] = returnP None"
| "stackLoop githubAdapter (frame # rest) =
     bindP (repoFromPath githubAdapter frame)
       (\<lambda>fromPath. case fromPath of
          Some repoInfo \<Rightarrow> returnP (Some repoInfo)
        | None \<Rightarrow>
            bindP (repoFromMetadata githubAdapter frame)
              (\<lambda>fromMetadata. case fromMetadata of
                 Some repoInfo \<Rightarrow> returnP (Some repoInfo)
               | None \<Rightarrow> stackLoop githubAdapter rest))"

definition findRepositoryFromStackTrace ::
  "'w IGitHubAdapter \<Rightarrow> StackTrace \<Rightarrow> ('w wstate, RepositoryInfo option) prog" where
  "findRepositoryFromStackTrace githubAdapter st =
     stackLoop githubAdapter (filter isUserCode (frames st))"

text \<open>\<open>frame.filePath.split('/').pop()?.replace(/\.[^.]+$/, '')\<close>\<close>

definition fileBaseName :: "string \<Rightarrow> string option" where
  "fileBaseName p =
     (case rev (split_on CHR ''/'' p) of
        [] \<Rightarrow> None
      | seg # segs \<Rightarrow>
          (case exec extensionPattern seg of
             None \<Rightarrow> Some seg
           | Some (i, m) \<Rightarrow> Some (take i seg @ fst m)))"

definition searchTerms :: "AuditLogError \<Rightarrow> StackTrace \<Rightarrow> string list" where
  "searchTerms error st =
     foldl (\<lambda>terms frame.
              case fileBaseName (filePath frame) of
                None \<Rightarrow> terms
              | Some fileName \<Rightarrow>
                  if fileName \<noteq> [] \<and> fileName \<notin> set terms then terms @ [fileName] else terms)
       (if source error \<noteq> [] then [source error] else [])
       (take 3 (filter isUserCode (frames st)))"

definition searchForRepository ::
  "'w IGitHubAdapter \<Rightarrow> AuditLogError \<Rightarrow> StackTrace \<Rightarrow> ('w wstate, RepositoryInfo option) prog" where
  "searchForRepository githubAdapter error st =
     (let terms = searchTerms error st
      in if terms = [] then returnP None
         else catchP
                (bindP (invoke (searchRepositories githubAdapter (join '' '' terms))
                          (SearchRepositories (join '' '' terms)))
                   (\<lambda>results. case results of
                      [] \<Rightarrow> returnP None
                    | firstResult # others \<Rightarrow>
                        returnP (Some \<lparr>owner = sr_owner firstResult, name = sr_name firstResult,
                                       fullName = sr_fullName firstResult, url = sr_url firstResult,
                                       defaultBranch = ''main''\<rparr>)))
                (\<lambda>e. returnP None))"

text \<open>The four steps of \<open>findRepository\<close>. \<open>repositoryMappings\<close> is the optional
  constructor argument.\<close>

definition hintLookup ::
  "'w IGitHubAdapter \<Rightarrow> AuditLogError \<Rightarrow> ('w wstate, RepositoryInfo option) prog" where
  "hintLookup githubAdapter error =
     (case repository error of
        None \<Rightarrow> returnP None
      | Some r \<Rightarrow> if r = [] then returnP None else getRepositoryInfo githubAdapter r)"

definition mappingLookup ::
  "'w IGitHubAdapter \<Rightarrow> (string \<rightharpoonup> string) option \<Rightarrow> AuditLogError \<Rightarrow>
   ('w wstate, RepositoryInfo option) prog" where
  "mappingLookup githubAdapter repositoryMappings error =
     (case repositoryMappings of
        None \<Rightarrow> returnP None
      | Some mappings \<Rightarrow>
          (case mappings (source error) of
             None \<Rightarrow> returnP None
           | Some mappedRepo \<Rightarrow> getRepositoryInfo githubAdapter mappedRepo))"

definition findRepository ::
  "'w IGitHubAdapter \<Rightarrow> (string \<rightharpoonup> string) option \<Rightarrow> AuditLogError \<Rightarrow> StackTrace \<Rightarrow>
   ('w wstate, RepositoryInfo option) prog" where
  "findRepository githubAdapter repositoryMappings error st =
     bindP (hintLookup githubAdapter error)
       (\<lambda>fromHint. case fromHint of
          Some repoInfo \<Rightarrow> returnP (Some repoInfo)
        | None \<Rightarrow>
     bindP (mappingLookup githubAdapter repositoryMappings error)
       (\<lambda>fromMapping. case fromMapping of
          Some repoInfo \<Rightarrow> returnP (Some repoInfo)
        | None \<Rightarrow>
     bindP (findRepositoryFromStackTrace githubAdapter st)
       (\<lambda>repoFromStack. case repoFromStack of
          Some repoInfo \<Rightarrow> returnP (Some repoInfo)
        | None \<Rightarrow>
     bindP (searchForRepository githubAdapter error st)
       (\<lambda>searchResults. case searchResults of
          Some repoInfo \<Rightarrow> returnP (Some repoInfo)
        | None \<Rightarrow> returnP None))))"

section \<open>Area paths (BugFixOrchestratorService.determineAreaPath)\<close>

record OrchestratorConfig =
  teamsTeamId :: string
  teamsChannelId :: string
  devOpsProject :: "string option"
  ozEnvironmentId :: "string option"

text \<open>The keyword table, in the order of the object literal (the order in which
  \<open>Object.entries\<close> enumerates string keys).\<close>

definition sourceToArea :: "(string \<times> string) list" where
  "sourceToArea =
     [(''user-service'', ''User Management''),
      (''auth-service'', ''Authentication''),
      (''api-gateway'', ''API''),
      (''report-service'', ''Reporting''),
      (''notification-service'', ''Notifications''),
      (''payment-service'', ''Payments''),
      (''order-service'', ''Orders''),
      (''inventory-service'', ''Inventory''),
      (''frontend'', ''Frontend''),
      (''web'', ''Frontend''),
      (''mobile'', ''Mobile''),
      (''backend'', ''Backend''),
      (''infrastructure'', ''Infrastructure''),
      (''devops'', ''DevOps'')]"

text \<open>One \<open>for (const [pattern, area] of Object.entries(sourceToArea))\<close> loop: the area
  of the first keyword that the lower-cased text includes.\<close>

fun firstArea :: "(string \<times> string) list \<Rightarrow> string \<Rightarrow> string option" where
  "firstArea [] lower = None"
| "firstArea ((pattern, area) # rest) lower =
     (if includes_str lower pattern then Some area else firstArea rest lower)"

definition determineAreaPath ::
  "OrchestratorConfig \<Rightarrow> AuditLogError \<Rightarrow> RepositoryInfo \<Rightarrow> string option" where
  "determineAreaPath config error repoInfo =
     (case devOpsProject config of
        None \<Rightarrow> None
      | Some project \<Rightarrow>
          if project = [] then None
          else (case firstArea sourceToArea (toLowerCase (source error)) of
                  Some area \<Rightarrow> Some (project @ [backslash] @ area)
                | None \<Rightarrow>
                    (case firstArea sourceToArea (toLowerCase (name repoInfo)) of
                       Some area \<Rightarrow> Some (project @ [backslash] @ area)
                     | None \<Rightarrow> Some project)))"

section \<open>The workflow (BugFixOrchestratorService)\<close>

text \<open>The fields of the class. \<open>now\<close> stands for \<open>new Date().toISOString()\<close>, which reads the
  clock of the world. The constructor builds the repository finder from the source-control
  adapter alone, so the finder has no mapping table.\<close>

record 'w Orchestrator =
  dynamoAdapter :: "'w IDynamoDBAdapter"
  devOpsAdapter :: "'w IDevOpsAdapter"
  githubAdapter :: "'w IGitHubAdapter"
  teamsAdapter :: "'w ITeamsAdapter"
  ozAdapter :: "'w IOzAdapter"
  config :: OrchestratorConfig
  now :: "'w \<Rightarrow> string \<times> 'w"

definition readClock :: "'w Orchestrator \<Rightarrow> ('w wstate, string) prog" where
  "readClock orch = (\<lambda>s. case now orch (world s) of (t, w') \<Rightarrow> (Inr t, s\<lparr>world := w'\<rparr>))"

subsection \<open>Texts\<close>

fun language_name :: "ProgrammingLanguage \<Rightarrow> string" where
  "language_name TypeScript = ''typescript''"
| "language_name JavaScript = ''javascript''"
| "language_name Python = ''python''"
| "language_name Go = ''go''"
| "language_name Java = ''java''"
| "language_name CSharp = ''csharp''"
| "language_name Ruby = ''ruby''"
| "language_name Rust = ''rust''"
| "language_name Unknown = ''unknown''"

text \<open>\<open>${x ?? 'Unknown'}\<close> for a text and for a number, and \<open>${x}\<close> for an optional
  value, which renders \<open>undefined\<close> by its name.\<close>

definition orUnknown :: "string option \<Rightarrow> string" where
  "orUnknown x = (case x of None \<Rightarrow> ''Unknown'' | Some t \<Rightarrow> t)"

definition orUndefined :: "string option \<Rightarrow> string" where
  "orUndefined x = (case x of None \<Rightarrow> ''undefined'' | Some t \<Rightarrow> t)"

definition fence :: string where
  "fence = [backtick, backtick, backtick]"

definition primaryFrame :: "StackTrace \<Rightarrow> StackFrame option" where
  "primaryFrame st = List.find isUserCode (frames st)"

definition formatBugDescription :: "AuditLogError \<Rightarrow> StackTrace \<Rightarrow> RepositoryInfo \<Rightarrow> string" where
  "formatBugDescription error st repoInfo =
     trim (join [newline]
       ['''',
        ''## Error Details'',
        ''**Message:** '' @ message error,
        ''**Severity:** '' @ orUndefined (severity error),
        ''**Source:** '' @ source error,
        ''**Environment:** '' @ environment error,
        ''**Timestamp:** '' @ timestamp error,
        '''',
        ''## Location'',
        ''**Repository:** '' @ fullName repoInfo,
        ''**File:** '' @ orUnknown (map_option filePath (primaryFrame st)),
        ''**Line:** '' @ orUnknown (map_option numberText (Option.bind (primaryFrame st) lineNumber)),
        ''**Function:** '' @ orUnknown (Option.bind (primaryFrame st) functionName),
        '''',
        ''## Stack Trace'',
        fence,
        stackTrace error,
        fence,
        '''',
        ''---'',
        ''_This bug was automatically detected and reported by the error monitoring system._'',
        ''    ''])"

definition formatPRDescription ::
  "AuditLogError \<Rightarrow> StackTrace \<Rightarrow> jsnum option \<Rightarrow> string \<Rightarrow> string" where
  "formatPRDescription error st wid fixText =
     trim (join [newline]
       ['''',
        ''## Bug Fix'',
        '''',
        ''### Error'',
        message error,
        '''',
        ''### Location'',
        ''- **File:** '' @ orUnknown (map_option filePath (primaryFrame st)),
        ''- **Line:** '' @ orUnknown (map_option numberText (Option.bind (primaryFrame st) lineNumber)),
        ''- **Function:** '' @ orUnknown (Option.bind (primaryFrame st) functionName),
        '''',
        ''### Fix Summary'',
        fixText,
        '''',
        ''### Related'',
        (case wid of
           None \<Rightarrow> ''''
         | Some n \<Rightarrow> if n = Fin 0 \<or> n = NaN then '''' else ''- Work Item: #'' @ numberText n),
        ''- Error ID: '' @ id_err error,
        '''',
        ''---'',
        ''_This PR was automatically generated by Warp Oz agent._'',
        '''',
        ''Co-Authored-By: Warp <agent@warp.dev>'',
        ''    ''])"

text \<open>The tags of the ticket: \<open>[...].filter((tag) => Boolean(tag))\<close> drops \<open>undefined\<close>
  and the empty text.\<close>

definition bugTags :: "AuditLogError \<Rightarrow> StackTrace \<Rightarrow> RepositoryInfo \<Rightarrow> string list" where
  "bugTags error st repoInfo =
     filter (\<lambda>tag. tag \<noteq> [])
       ([''auto-fix'', ''oz-agent'', source error, environment error, name repoInfo] @
        (case language st of
           None \<Rightarrow> []
         | Some l \<Rightarrow> if l \<noteq> Unknown then [language_name l] else []))"

definition bugInput :: "OrchestratorConfig \<Rightarrow> AuditLogError \<Rightarrow> StackTrace \<Rightarrow> RepositoryInfo \<Rightarrow> string option \<Rightarrow> CreateBugInput" where
  "bugInput cfg error st repoInfo areaPath =
     \<lparr>bug_title = ''[Auto-Fix] '' @ take 100 (message error),
      bug_description = formatBugDescription error st repoInfo,
      bug_reproSteps =
        Some (''Stack trace:'' @ [newline] @ fence @ [newline] @ stackTrace error @ [newline] @ fence),
      bug_systemInfo =
        Some (''Environment: '' @ environment error @ [newline] @ ''Source: '' @ source error @
              [newline] @ ''Repository: '' @ fullName repoInfo),
      bug_priority = Some (mapErrorSeverityToBugPriority (severity error)),
      bug_severity = Some (mapErrorSeverityToBugSeverity (severity error)),
      bug_tags = Some (bugTags error st repoInfo),
      bug_assignedTo = None,
      bug_areaPath = areaPath,
      bug_iterationPath =
        (case devOpsProject cfg of
           None \<Rightarrow> None
         | Some project \<Rightarrow> if project = [] then None else Some (project @ [backslash] @ ''Backlog'')),
      bug_relatedErrorId = id_err error\<rparr>"

subsection \<open>Status and notifications\<close>

text \<open>\<open>updateStatus\<close> writes its debug line and returns the status with the new stage,
  progress and message.\<close>

definition updateStatus ::
  "FixWorkflowStatus \<Rightarrow> FixWorkflowStage \<Rightarrow> nat \<Rightarrow> string \<Rightarrow> ('w wstate, FixWorkflowStatus) prog" where
  "updateStatus current stg prog msg =
     (\<lambda>s. (Inr (current\<lparr>stage := stg, progress := prog, status_message := msg\<rparr>),
            s\<lparr>calls := calls s @ [LoggerDebug stg prog msg]\<rparr>))"

text \<open>\<open>handleWorkflowError\<close>: the notification is built and sent inside a \<open>try\<close>, and
  whatever fails there (reading the message, or the send) is caught and dropped.\<close>

definition errorNotification ::
  "'w Orchestrator \<Rightarrow> AuditLogError \<Rightarrow> string \<Rightarrow> string option \<Rightarrow> ErrorNotification" where
  "errorNotification orch error stg msg =
     \<lparr>en_teamId = teamsTeamId (config orch), en_channelId = teamsChannelId (config orch),
      en_errorMessage = msg, en_errorId = id_err error, en_stage = stg\<rparr>"

definition handleWorkflowError ::
  "'w Orchestrator \<Rightarrow> AuditLogError \<Rightarrow> string \<Rightarrow> js_error \<Rightarrow> ('w wstate, unit) prog" where
  "handleWorkflowError orch error stg err =
     catchP (case readMessage err of
               Inl typeError \<Rightarrow> throwP typeError
             | Inr msg \<Rightarrow>
                 invoke (sendErrorNotification (teamsAdapter orch)
                           (errorNotification orch error stg msg))
                   (\<lambda>out. SendErrorNotification (errorNotification orch error stg msg)))
       (\<lambda>notifyErr. returnP ())"

subsection \<open>processError\<close>

text \<open>
  The \<open>try\<close> block threads the local variable \<open>status\<close> beside the state: \<open>setStatus\<close> is
  \<open>status = this.updateStatus(status, ...)\<close>, and \<open>step\<close> runs a collaborator call that
  leaves \<open>status\<close> as it is, so that the \<open>catch\<close> block finds the stage set last.
\<close>

definition setStatus ::
  "FixWorkflowStage \<Rightarrow> nat \<Rightarrow> string \<Rightarrow> (FixWorkflowStatus \<times> 'w wstate, unit) prog" where
  "setStatus stg prog msg =
     (\<lambda>(status, s). case updateStatus status stg prog msg s of
                       (Inl e, s') \<Rightarrow> (Inl e, (status, s'))
                     | (Inr status', s') \<Rightarrow> (Inr (), (status', s')))"

definition step :: "('w wstate, 'a) prog \<Rightarrow> (FixWorkflowStatus \<times> 'w wstate, 'a) prog" where
  "step m = (\<lambda>(status, s). case m s of (out, s') \<Rightarrow> (out, (status, s')))"

definition tryBlock ::
  "'w Orchestrator \<Rightarrow> AuditLogError \<Rightarrow> (FixWorkflowStatus \<times> 'w wstate, FixResult) prog" where
  "tryBlock orch error =
     bindP (setStatus ParsingError 10 ''Parsing stack trace'') (\<lambda>u1.
     let st = parse (stackTrace error) (Some (message error)) in
     bindP (step (findRepository (githubAdapter orch) None error st)) (\<lambda>found.
     case found of
       None \<Rightarrow> throwP (JsError (''Could not identify repository for error '' @ id_err error))
     | Some repoInfo \<Rightarrow>
     bindP (setStatus CreatingWorkItem 20 ''Creating bug work item'') (\<lambda>u2.
     let areaPath = determineAreaPath (config orch) error repoInfo;
         input = bugInput (config orch) error st repoInfo areaPath in
     bindP (step (invoke (createBug (devOpsAdapter orch) input) (\<lambda>out. CreateBug input))) (\<lambda>bugWorkItem.
     bindP (setStatus CreatingBranch 40 ''Creating bug branch'') (\<lambda>u3.
     let branchName = ''bug/auto-fix-'' @ id_err error in
     bindP (step (invoke (createBranch (githubAdapter orch) (owner repoInfo) (name repoInfo)
                            branchName (defaultBranch repoInfo))
                    (\<lambda>out. CreateBranch (owner repoInfo) (name repoInfo) branchName
                              (defaultBranch repoInfo)))) (\<lambda>u4.
     bindP (setStatus RunningOzAgent 50 ''Running Oz agent to fix bug'') (\<lambda>u5.
     let params = \<lparr>oz_errorMessage = message error, oz_stackTrace = st,
                    oz_repository = fullName repoInfo, oz_branch = branchName,
                    oz_context = Some (''DevOps Work Item: '' @
                                       orUndefined (map_option numberText (wi_id bugWorkItem))),
                    oz_environmentId = ozEnvironmentId (config orch)\<rparr> in
     bindP (step (invoke (fixBug (ozAdapter orch) params) (\<lambda>out. FixBug params))) (\<lambda>ozResult.
     if \<not> oz_success ozResult
     then throwP (JsError (''Oz agent failed to fix bug: '' @ orUndefined (oz_error ozResult)))
     else
     bindP (setStatus CreatingPullRequest 80 ''Creating draft pull request'') (\<lambda>u6.
     let prParams = \<lparr>pr_owner = owner repoInfo, pr_repo = name repoInfo,
                      pr_title = ''[Auto-Fix] '' @ take 80 (message error),
                      pr_body = formatPRDescription error st (wi_id bugWorkItem) (summary ozResult),
                      pr_head = branchName, pr_base = defaultBranch repoInfo,
                      pr_draft = Some True\<rparr> in
     bindP (step (invoke (createPullRequest (githubAdapter orch) prParams)
                    (\<lambda>out. CreatePullRequestCall prParams))) (\<lambda>pr.
     bindP (step (invoke (linkPullRequest (devOpsAdapter orch) (wi_id bugWorkItem) (pr_url pr))
                    (\<lambda>out. LinkPullRequest (wi_id bugWorkItem) (pr_url pr)))) (\<lambda>u7.
     let comment = ''Automated fix PR created: '' @ pr_url pr @ [newline, newline] @
                   ''Fix summary: '' @ summary ozResult in
     bindP (step (invoke (addComment (devOpsAdapter orch) (wi_id bugWorkItem) comment)
                    (\<lambda>out. AddComment (wi_id bugWorkItem) comment))) (\<lambda>u8.
     bindP (setStatus NotifyingTeam 90 ''Notifying team'') (\<lambda>u9.
     let note = \<lparr>prn_teamId = teamsTeamId (config orch), prn_channelId = teamsChannelId (config orch),
                  prn_prUrl = pr_url pr, prn_prTitle = pr_url pr,
                  prn_repository = fullName repoInfo, prn_bugTitle = message error,
                  prn_workItemId = wi_id bugWorkItem, prn_fixSummary = summary ozResult\<rparr> in
     bindP (step (invoke (sendPRNotification (teamsAdapter orch) note)
                    (\<lambda>out. SendPRNotification note))) (\<lambda>u10.
     bindP (setStatus Completed 100 ''Completed'') (\<lambda>u11.
     let metadata = \<lparr>md_workItemId = wi_id bugWorkItem, md_pullRequestUrl = pr_url pr,
                      md_branch = branchName, md_ozRunId = runId ozResult\<rparr> in
     bindP (step (invoke (markAsProcessed (dynamoAdapter orch) (id_err error) metadata)
                    (\<lambda>out. MarkAsProcessed (id_err error) metadata))) (\<lambda>u12.
     bindP (step (readClock orch)) (\<lambda>fixedAt.
     let fixInfo = \<lparr>fi_workItemId = wi_id bugWorkItem, fi_pullRequestUrl = Some (pr_url pr),
                     fi_branch = Some branchName, fi_fixedAt = Some fixedAt\<rparr> in
     bindP (step (invoke (updateErrorWithFixInfo (dynamoAdapter orch) (id_err error) fixInfo)
                    (\<lambda>out. UpdateErrorWithFixInfo (id_err error) fixInfo))) (\<lambda>u13.
     bindP (step (readClock orch)) (\<lambda>finished.
     returnP
       \<lparr>success = True, errorId = id_err error, fr_repository = fullName repoInfo,
        fr_branch = branchName,
        modifiedFiles = map (\<lambda>f. \<lparr>path = f, changeType = Modified, linesAdded = 0,
                                   linesRemoved = 0\<rparr>) (filesModified ozResult),
        pullRequestUrl = Some (pr_url pr), pullRequestNumber = Some (pr_number pr),
        workItemId = wi_id bugWorkItem, fixSummary = summary ozResult,
        ozRunId = Some (runId ozResult), fr_errorMessage = None,
        fr_timestamp = finished\<rparr>)))))))))))))))))))"

text \<open>
  The \<open>catch\<close> block: the log line with the stage of the status, the notification, and
  the failed result, whose \<open>errorMessage\<close> is read from the value caught. Reading it raises
  for \<open>undefined\<close> and \<open>null\<close>, and then \<open>processError\<close> itself rejects (before the clock is
  read: \<open>errorMessage\<close> comes before \<open>timestamp\<close> in the object).
\<close>

definition failedResult :: "AuditLogError \<Rightarrow> string option \<Rightarrow> string \<Rightarrow> FixResult" where
  "failedResult error msg finished =
     \<lparr>success = False, errorId = id_err error, fr_repository = '''', fr_branch = '''',
      modifiedFiles = [], pullRequestUrl = None, pullRequestNumber = None, workItemId = None,
      fixSummary = '''', ozRunId = None, fr_errorMessage = msg,
      fr_timestamp = finished\<rparr>"

definition processError :: "'w Orchestrator \<Rightarrow> AuditLogError \<Rightarrow> ('w wstate, FixResult) prog" where
  "processError orch error =
     bindP (readClock orch) (\<lambda>started.
     let status0 = \<lparr>stage = Initializing, progress = 0,
                     status_message = ''Starting error processing'', startTime = started,
                     endTime = None, status_error = None\<rparr>
     in (\<lambda>s. case tryBlock orch error (status0, s) of
                (Inr result, (status, s')) \<Rightarrow> (Inr result, s')
              | (Inl err, (status, s')) \<Rightarrow>
                  bindP (handleWorkflowError orch error (stage_name (stage status)) err) (\<lambda>u.
                  case readMessage err of
                    Inl typeError \<Rightarrow> throwP typeError
                  | Inr msg \<Rightarrow>
                      bindP (readClock orch) (\<lambda>finished.
                      returnP (failedResult error msg finished)))
                    (s'\<lparr>calls := calls s' @ [LoggerError (id_err error) err (stage status)]\<rparr>)))"

subsection \<open>processUnprocessedErrors\<close>

text \<open>The loop over the batch: a result is pushed when \<open>processError\<close> returns; when it
  rejects, the loop notifies with the stage \<open>processing\<close> and goes on.\<close>

fun processLoop ::
  "'w Orchestrator \<Rightarrow> AuditLogError list \<Rightarrow> FixResult list \<Rightarrow> ('w wstate, FixResult list) prog" where
  "processLoop orch [] results = returnP results"
| "processLoop orch (error # errors) results =
     (\<lambda>s. case processError orch error s of
             (Inr result, s') \<Rightarrow> processLoop orch errors (results @ [result]) s'
           | (Inl err, s') \<Rightarrow>
               bindP (handleWorkflowError orch error ''processing'' err)
                 (\<lambda>u. processLoop orch errors results) s')"

definition batchFilter :: AuditLogErrorFilter where
  "batchFilter =
     \<lparr>f_processed = None, f_severity = Some [Some ''critical'', Some ''error''], f_source = None, f_since = None,
      f_limit = Some 10\<rparr>"

definition processUnprocessedErrors :: "'w Orchestrator \<Rightarrow> ('w wstate, FixResult list) prog" where
  "processUnprocessedErrors orch =
     bindP (invoke (getUnprocessedErrors (dynamoAdapter orch) batchFilter)
              (\<lambda>out. GetUnprocessedErrors batchFilter))
       (\<lambda>errors. processLoop orch errors [])"

section \<open>Vocabulary of the properties\<close>

text \<open>Resolution as the specification words it: attempts run in order, the first one
  that yields a descriptor wins.\<close>

fun firstSuccess :: "('s, 'a option) prog list \<Rightarrow> ('s, 'a option) prog" where
  "firstSuccess [] = returnP None"
| "firstSuccess (attempt # rest) =
     bindP attempt (\<lambda>r. case r of Some x \<Rightarrow> returnP (Some x) | None \<Rightarrow> firstSuccess rest)"

text \<open>
  The full names that resolution looks up, in the order of the specification: the
  repository hint of the error record, when it has one; the name the mapping table gives for
  the error's source; then, for each first-party frame in the order of the trace, the
  \<open>owner/repo\<close> that follows \<open>github.com/\<close> in its file path and the repository the frame
  carries.
\<close>

definition hintTargets :: "AuditLogError \<Rightarrow> string list" where
  "hintTargets error = (case repository error of None \<Rightarrow> [] | Some r \<Rightarrow> if r = [] then [] else [r])"

definition mappingTargets :: "(string \<rightharpoonup> string) option \<Rightarrow> AuditLogError \<Rightarrow> string list" where
  "mappingTargets repositoryMappings error =
     (case repositoryMappings of
        None \<Rightarrow> []
      | Some mappings \<Rightarrow> (case mappings (source error) of None \<Rightarrow> [] | Some mappedRepo \<Rightarrow> [mappedRepo]))"

definition frameTargets :: "StackFrame \<Rightarrow> string list" where
  "frameTargets frame =
     (case exec githubPathPattern (filePath frame) of
        None \<Rightarrow> []
      | Some (i, githubMatch) \<Rightarrow>
          (case (group githubMatch 1, group githubMatch 2) of
             (Some ow, Some repo) \<Rightarrow> if ow \<noteq> [] \<and> repo \<noteq> [] then [ow @ ''/'' @ repo] else []
           | other \<Rightarrow> [])) @
     (case frame_repository frame of None \<Rightarrow> [] | Some r \<Rightarrow> if r = [] then [] else [r])"

definition stackTargets :: "StackTrace \<Rightarrow> string list" where
  "stackTargets st = concat (map frameTargets (filter isUserCode (frames st)))"

definition lookupTargets ::
  "(string \<rightharpoonup> string) option \<Rightarrow> AuditLogError \<Rightarrow> StackTrace \<Rightarrow> string list" where
  "lookupTargets repositoryMappings error st =
     hintTargets error @ mappingTargets repositoryMappings error @ stackTargets st"

text \<open>A lookup that returned; a call of the resolver.\<close>

fun quietLookup :: "call \<Rightarrow> bool" where
  "quietLookup (GetRepository ow repo (Inr v)) = True"
| "quietLookup c = False"

fun resolverCall :: "call \<Rightarrow> bool" where
  "resolverCall (GetRepository ow repo out) = True"
| "resolverCall (SearchRepositories q out) = True"
| "resolverCall c = False"

text \<open>What a run of lookups leaves in the record of calls: lookups that returned, and
  then, when the run fails, the lookup that raised the failure.\<close>

definition lookupTrace :: "(js_error + 'a) \<Rightarrow> call list \<Rightarrow> bool" where
  "lookupTrace res cs =
     (case res of
        Inl e \<Rightarrow> (\<exists>pre ow repo. cs = pre @ [GetRepository ow repo (Inl e)] \<and>
                                 list_all quietLookup pre)
      | Inr v \<Rightarrow> list_all quietLookup cs)"

definition lookupsOnly :: "('w wstate, 'a) prog \<Rightarrow> bool" where
  "lookupsOnly m =
     (\<forall>s res s'. m s = (res, s') \<longrightarrow> (\<exists>cs. calls s' = calls s @ cs \<and> lookupTrace res cs))"

text \<open>
  What a run tells of its stage: the stages it sets (the debug line of \<open>updateStatus\<close>),
  the stage it logs when it fails, and the stage it names in an error notification.
  \<open>workflowStages\<close> is the order in which \<open>processError\<close> sets the stages.
  \<open>atStage base k\<close> holds of the status and state of a run that started with the calls
  \<open>base\<close>, has set the first \<open>k\<close> stages and has not failed; \<open>endsAtStage base m k lo\<close> says
  that \<open>m\<close>, started there, ends with at least \<open>lo\<close> stages set. \<open>resolutionStart\<close> is the
  state in which \<open>processError\<close> calls the resolver: the clock read, the first stage logged.
\<close>

datatype stageEvent =
    StageSet FixWorkflowStage
  | StageLogged FixWorkflowStage
  | StageNotified string

fun stageEvents :: "call list \<Rightarrow> stageEvent list" where
  "stageEvents [] = []"
| "stageEvents (LoggerDebug stg p m # cs) = StageSet stg # stageEvents cs"
| "stageEvents (LoggerError i e stg # cs) = StageLogged stg # stageEvents cs"
| "stageEvents (SendErrorNotification notice # cs) = StageNotified (en_stage notice) # stageEvents cs"
| "stageEvents (c # cs) = stageEvents cs"

definition workflowStages :: "FixWorkflowStage list" where
  "workflowStages =
     [ParsingError, CreatingWorkItem, CreatingBranch, RunningOzAgent, CreatingPullRequest,
      NotifyingTeam, Completed]"

definition atStage :: "call list \<Rightarrow> nat \<Rightarrow> FixWorkflowStatus \<times> 'w wstate \<Rightarrow> bool" where
  "atStage base k =
     (\<lambda>(status, s). \<exists>cs. calls s = base @ cs \<and>
                       stageEvents cs = map StageSet (take k workflowStages) \<and>
                       stage status = (Initializing # workflowStages) ! k)"

definition endsAtStage ::
  "call list \<Rightarrow> (FixWorkflowStatus \<times> 'w wstate, 'a) prog \<Rightarrow> nat \<Rightarrow> nat \<Rightarrow> bool" where
  "endsAtStage base m k lo =
     (\<forall>st out st'. atStage base k st \<longrightarrow> m st = (out, st') \<longrightarrow>
        (\<exists>j. lo \<le> j \<and> j \<le> 7 \<and> atStage base j st'))"

definition noStageCalls :: "('w wstate, 'a) prog \<Rightarrow> bool" where
  "noStageCalls m =
     (\<forall>s out s'. m s = (out, s') \<longrightarrow> (\<exists>cs. calls s' = calls s @ cs \<and> stageEvents cs = []))"

definition resolutionStart :: "'w Orchestrator \<Rightarrow> 'w wstate \<Rightarrow> 'w wstate" where
  "resolutionStart orch s =
     \<lparr>world = snd (now orch (world s)),
      calls = calls s @ [LoggerDebug ParsingError 10 ''Parsing stack trace'']\<rparr>"

text \<open>
  Collaborators that keep to the declared type of a failure: whatever they reject with is
  an \<open>Error\<close> object. The search and the error notification are left out: the code
  swallows their failures.
\<close>

fun isErrorObject :: "js_error \<Rightarrow> bool" where
  "isErrorObject (JsError m) = True"
| "isErrorObject e = False"

definition rejectsWithErrors :: "('s \<Rightarrow> (js_error + 'a) \<times> 's) \<Rightarrow> bool" where
  "rejectsWithErrors f = (\<forall>s e s'. f s = (Inl e, s') \<longrightarrow> isErrorObject e)"

definition errorRejections :: "'w Orchestrator \<Rightarrow> bool" where
  "errorRejections orch =
     ((\<forall>ow repo. rejectsWithErrors (getRepository (githubAdapter orch) ow repo)) \<and>
      (\<forall>input. rejectsWithErrors (createBug (devOpsAdapter orch) input)) \<and>
      (\<forall>ow repo branchName fromBranch.
         rejectsWithErrors (createBranch (githubAdapter orch) ow repo branchName fromBranch)) \<and>
      (\<forall>params. rejectsWithErrors (fixBug (ozAdapter orch) params)) \<and>
      (\<forall>prParams. rejectsWithErrors (createPullRequest (githubAdapter orch) prParams)) \<and>
      (\<forall>wid prUrl. rejectsWithErrors (linkPullRequest (devOpsAdapter orch) wid prUrl)) \<and>
      (\<forall>wid comment. rejectsWithErrors (addComment (devOpsAdapter orch) wid comment)) \<and>
      (\<forall>notice. rejectsWithErrors (sendPRNotification (teamsAdapter orch) notice)) \<and>
      (\<forall>i metadata. rejectsWithErrors (markAsProcessed (dynamoAdapter orch) i metadata)) \<and>
      (\<forall>i fixInfo. rejectsWithErrors (updateErrorWithFixInfo (dynamoAdapter orch) i fixInfo)))"

section \<open>Sample data\<close>

text \<open>An error record in the shape of the mock store's seed data, and a configuration
  with an optional project.\<close>

definition sampleError :: "string \<Rightarrow> string \<Rightarrow> string \<Rightarrow> string option \<Rightarrow> AuditLogError" where
  "sampleError i src stack hint =
     \<lparr>id_err = i, timestamp = ''2024-01-01T00:00:00.000Z'', message = ''Database connection timeout'',
      stackTrace = stack, severity = Some ''error'', source = src, environment = ''production'',
      commitSha = None, repository = hint, processed = False\<rparr>"

definition sampleConfig :: "string option \<Rightarrow> OrchestratorConfig" where
  "sampleConfig project =
     \<lparr>teamsTeamId = ''team'', teamsChannelId = ''channel'', devOpsProject = project,
      ozEnvironmentId = None\<rparr>"

definition sampleRepo :: "string \<Rightarrow> string \<Rightarrow> RepositoryInfo" where
  "sampleRepo org short =
     \<lparr>owner = org, name = short, fullName = org @ ''/'' @ short,
      url = ''https://github.com/'' @ org @ ''/'' @ short,
      defaultBranch = ''main''\<rparr>"

text \<open>Collaborators in the manner of the mock adapters. The world is the number of calls
  served so far. The source-control host knows the repositories of a list and answers a
  lookup of any other with \<open>null\<close>, but for those of a second list, whose lookup fails;
  its search finds nothing, or fails when told to. The fix
  agent succeeds or reports failure as told.\<close>

definition sampleGitHub :: "string list \<Rightarrow> string list \<Rightarrow> bool \<Rightarrow> nat IGitHubAdapter" where
  "sampleGitHub known broken searchFails =
     \<lparr>createBranch = (\<lambda>ow repo branchName fromBranch w. (Inr (), Suc w)),
      createPullRequest =
        (\<lambda>p w. (Inr \<lparr>pr_url = ''https://github.com/'' @ pr_owner p @ ''/'' @ pr_repo p @ ''/pull/1'',
                        pr_number = 1\<rparr>, Suc w)),
      getRepository =
        (\<lambda>ow repo w.
           (if ow @ ''/'' @ repo \<in> set broken then Inl (JsError ''Service Unavailable'')
            else if ow @ ''/'' @ repo \<in> set known
            then Inr (Some \<lparr>rd_defaultBranch = ''main'', rd_fullName = ow @ ''/'' @ repo,
                            rd_url = ''https://github.com/'' @ ow @ ''/'' @ repo\<rparr>)
            else Inr None, Suc w)),
      searchRepositories =
        (\<lambda>query w. (if searchFails then Inl (JsError ''search failed'') else Inr [], Suc w))\<rparr>"

text \<open>A host whose search returns the given results, and a trace with one first-party
  frame under \<open>github.com/acme/shop\<close>.\<close>

definition searchingGitHub :: "string list \<Rightarrow> SearchResult list \<Rightarrow> nat IGitHubAdapter" where
  "searchingGitHub known found =
     (sampleGitHub known [] False)\<lparr>searchRepositories := (\<lambda>query w. (Inr found, Suc w))\<rparr>"

definition scanTrace :: StackTrace where
  "scanTrace =
     \<lparr>raw = ''Error: boom'' @ [newline] @ ''    at run (/srv/github.com/acme/shop/src/a.js:1:2)'',
      frames = [\<lparr>filePath = ''/srv/github.com/acme/shop/src/a.js'', lineNumber = Some (Fin 1),
                 columnNumber = Some (Fin 2), functionName = Some ''run'', className = None,
                 isUserCode = True, frame_repository = None\<rparr>],
      language = Some JavaScript, errorMessage = ''boom'', errorType = Some ''Error''\<rparr>"

definition sampleWorkItem :: "CreateBugInput \<Rightarrow> BugWorkItem" where
  "sampleWorkItem input =
     \<lparr>wi_id = Some (Fin 1001), wi_title = bug_title input, wi_description = bug_description input,
      wi_reproSteps = bug_reproSteps input, wi_systemInfo = bug_systemInfo input,
      wi_priority = (case bug_priority input of None \<Rightarrow> 2 | Some p \<Rightarrow> p),
      wi_severity = (case bug_severity input of None \<Rightarrow> ''2 - High'' | Some l \<Rightarrow> l),
      wi_tags = bug_tags input, wi_assignedTo = bug_assignedTo input,
      wi_areaPath = bug_areaPath input, wi_iterationPath = bug_iterationPath input,
      wi_relatedErrorId = bug_relatedErrorId input, wi_bugBranch = None,
      wi_pullRequestUrl = None\<rparr>"

definition sampleDevOps :: "nat IDevOpsAdapter" where
  "sampleDevOps =
     \<lparr>createBug = (\<lambda>input w. (Inr (sampleWorkItem input), Suc w)),
      addComment = (\<lambda>wid comment w. (Inr (), Suc w)),
      linkPullRequest = (\<lambda>wid prUrl w. (Inr (), Suc w))\<rparr>"

definition sampleTeams :: "nat ITeamsAdapter" where
  "sampleTeams =
     \<lparr>sendPRNotification = (\<lambda>note w. (Inr (), Suc w)),
      sendErrorNotification = (\<lambda>note w. (Inr (), Suc w))\<rparr>"

definition sampleOz :: "bool \<Rightarrow> nat IOzAdapter" where
  "sampleOz ok =
     \<lparr>fixBug =
        (\<lambda>params w.
           (Inr \<lparr>runId = ''run-1'', oz_success = ok,
                 summary = (if ok then ''Added a null check'' else []),
                 filesModified = (if ok then [''src/db/connection.ts''] else []),
                 oz_commitSha = None,
                 oz_error = (if ok then None else Some ''no fix found''), durationMs = 1500\<rparr>,
            Suc w))\<rparr>"

definition sampleDynamo :: "AuditLogError list \<Rightarrow> nat IDynamoDBAdapter" where
  "sampleDynamo stored =
     \<lparr>getUnprocessedErrors = (\<lambda>flt w. (Inr stored, Suc w)),
      markAsProcessed = (\<lambda>i metadata w. (Inr (), Suc w)),
      updateErrorWithFixInfo = (\<lambda>i fixInfo w. (Inr (), Suc w))\<rparr>"

definition sampleOrchestrator ::
  "AuditLogError list \<Rightarrow> string list \<Rightarrow> string list \<Rightarrow> bool \<Rightarrow> bool \<Rightarrow> nat Orchestrator" where
  "sampleOrchestrator stored known broken searchFails ozOk =
     \<lparr>dynamoAdapter = sampleDynamo stored, devOpsAdapter = sampleDevOps,
      githubAdapter = sampleGitHub known broken searchFails, teamsAdapter = sampleTeams,
      ozAdapter = sampleOz ozOk, config = sampleConfig (Some ''Shop''),
      now = (\<lambda>w. (''2024-01-01T00:00:0'' @ digits_of (w mod 10) @ ''.000Z'', w))\<rparr>"

definition initialState :: "nat wstate" where
  "initialState = \<lparr>world = 0, calls = []\<rparr>"

text \<open>A batch of three errors: the first and the third carry the hint of a repository, the
  second carries none. And an orchestrator whose issue tracker rejects \<open>createBug\<close> with a
  given value.\<close>

definition sampleBatch :: "AuditLogError list" where
  "sampleBatch =
     [sampleError ''err-001'' ''user-service'' [] (Some ''myorg/user-service''),
      sampleError ''err-002'' ''svc'' [] None,
      sampleError ''err-003'' ''report-service'' [] (Some ''myorg/report-service'')]"

definition rejectingOrchestrator ::
  "AuditLogError list \<Rightarrow> string list \<Rightarrow> js_error \<Rightarrow> nat Orchestrator" where
  "rejectingOrchestrator stored known thrown =
     (sampleOrchestrator stored known [] False True)
       \<lparr>devOpsAdapter := sampleDevOps\<lparr>createBug := (\<lambda>input w. (Inl thrown, Suc w))\<rparr>\<rparr>"

section \<open>Properties\<close>

subsection \<open>Keyword lookup\<close>

lemma firstArea_first_match:
  "table = pre @ (k, a) # post \<Longrightarrow> \<forall>p\<in>set pre. \<not> includes_str lower (fst p) \<Longrightarrow>
   includes_str lower k \<Longrightarrow> firstArea table lower = Some a"
  by (induction pre arbitrary: table) auto

lemma firstArea_no_match:
  "\<forall>p\<in>set table. \<not> includes_str lower (fst p) \<Longrightarrow> firstArea table lower = None"
  by (induction table) auto

subsection \<open>Sequencing\<close>

lemma bindP_apply:
  "bindP m f s = (case m s of (Inl e, s') \<Rightarrow> (Inl e, s') | (Inr x, s') \<Rightarrow> f x s')"
  by (simp add: bindP_def)

lemma bindP_returnP [simp]: "bindP (returnP x) f = f x"
  by (simp add: bindP_def returnP_def)

lemma findRepository_chain:
  "findRepository gh maps error st =
     firstSuccess [hintLookup gh error, mappingLookup gh maps error,
                   findRepositoryFromStackTrace gh st, searchForRepository gh error st]"
  by (simp add: findRepository_def)

subsection \<open>Repository resolution: the calls it makes\<close>

lemma getRepositoryInfo_found:
  assumes "split_on CHR ''/'' full = ow # repo # segs" "ow \<noteq> []" "repo \<noteq> []"
    and "getRepository gh ow repo (world s) = (Inr (Some rd), w')"
  shows "getRepositoryInfo gh full s =
     (Inr (Some \<lparr>owner = ow, name = repo, fullName = rd_fullName rd, url = rd_url rd,
                  defaultBranch = rd_defaultBranch rd\<rparr>),
      \<lparr>world = w', calls = calls s @ [GetRepository ow repo (Inr (Some rd))]\<rparr>)"
  using assms by (simp add: getRepositoryInfo_def bindP_apply invoke_def returnP_def)

lemma getRepositoryInfo_malformed:
  assumes "case split_on CHR ''/'' full of ow # repo # segs \<Rightarrow> ow = [] \<or> repo = [] | short \<Rightarrow> True"
  shows "getRepositoryInfo gh full s = (Inr None, s)"
  using assms by (auto simp: getRepositoryInfo_def returnP_def split: list.splits)

lemma lookupsOnly_returnP: "lookupsOnly (returnP x)"
  by (simp add: lookupsOnly_def returnP_def lookupTrace_def)

lemma lookupsOnly_bindP:
  assumes "lookupsOnly m" "\<And>x. lookupsOnly (f x)"
  shows "lookupsOnly (bindP m f)"
  unfolding lookupsOnly_def
proof (intro allI impI)
  fix s res s'
  assume run: "bindP m f s = (res, s')"
  obtain r1 s1 where m: "m s = (r1, s1)" by (cases "m s")
  from assms(1) m obtain cs1 where c1: "calls s1 = calls s @ cs1" "lookupTrace r1 cs1"
    unfolding lookupsOnly_def by blast
  show "\<exists>cs. calls s' = calls s @ cs \<and> lookupTrace res cs"
  proof (cases r1)
    case (Inl e)
    with run m have "res = Inl e" "s' = s1" by (auto simp: bindP_apply)
    with c1 Inl show ?thesis by (auto simp: lookupTrace_def)
  next
    case (Inr x)
    with run m have "f x s1 = (res, s')" by (auto simp: bindP_apply)
    with assms(2) obtain cs2 where c2: "calls s' = calls s1 @ cs2" "lookupTrace res cs2"
      unfolding lookupsOnly_def by blast
    have "lookupTrace res (cs1 @ cs2)"
    proof (cases res)
      case (Inl e)
      with c2 obtain pre ow repo where "cs2 = pre @ [GetRepository ow repo (Inl e)]" "list_all quietLookup pre"
        by (auto simp: lookupTrace_def)
      with c1 Inr Inl show ?thesis
        by (auto simp: lookupTrace_def intro!: exI[of _ "cs1 @ pre"])
    next
      case (Inr v)
      with c1 c2 \<open>r1 = Inr x\<close> show ?thesis by (auto simp: lookupTrace_def)
    qed
    with c1 c2 show ?thesis by auto
  qed
qed

lemma lookupsOnly_getRepositoryInfo: "lookupsOnly (getRepositoryInfo gh full)"
  unfolding lookupsOnly_def
proof (intro allI impI)
  fix s res s'
  assume run: "getRepositoryInfo gh full s = (res, s')"
  show "\<exists>cs. calls s' = calls s @ cs \<and> lookupTrace res cs"
  proof (cases "case split_on CHR ''/'' full of ow # repo # segs \<Rightarrow> ow = [] \<or> repo = [] | short \<Rightarrow> True")
    case True
    from getRepositoryInfo_malformed[OF this, of gh s] run show ?thesis
      by (auto simp: lookupTrace_def)
  next
    case False
    then obtain ow repo segs where sp: "split_on CHR ''/'' full = ow # repo # segs" "ow \<noteq> []" "repo \<noteq> []"
      by (auto split: list.splits)
    obtain out w' where g: "getRepository gh ow repo (world s) = (out, w')"
      by (cases "getRepository gh ow repo (world s)")
    with sp run show ?thesis
      by (cases out)
        (auto simp: getRepositoryInfo_def bindP_apply invoke_def returnP_def lookupTrace_def
          split: option.splits)
  qed
qed


lemma lookupsOnly_hintLookup: "lookupsOnly (hintLookup gh error)"
  by (simp add: hintLookup_def lookupsOnly_returnP lookupsOnly_getRepositoryInfo split: option.splits)

lemma lookupsOnly_mappingLookup: "lookupsOnly (mappingLookup gh maps error)"
  by (simp add: mappingLookup_def lookupsOnly_returnP lookupsOnly_getRepositoryInfo split: option.splits)

lemma lookupsOnly_repoFromPath: "lookupsOnly (repoFromPath gh frame)"
  by (simp add: repoFromPath_def lookupsOnly_returnP lookupsOnly_getRepositoryInfo
      split: option.splits prod.splits)

lemma lookupsOnly_repoFromMetadata: "lookupsOnly (repoFromMetadata gh frame)"
  by (simp add: repoFromMetadata_def lookupsOnly_returnP lookupsOnly_getRepositoryInfo split: option.splits)

lemma lookupsOnly_first:
  assumes "lookupsOnly m" "lookupsOnly k"
  shows "lookupsOnly (bindP m (\<lambda>r. case r of Some x \<Rightarrow> returnP (Some x) | None \<Rightarrow> k))"
  using assms by (auto intro!: lookupsOnly_bindP simp: lookupsOnly_returnP split: option.splits)

lemma lookupsOnly_stackLoop: "lookupsOnly (stackLoop gh fs)"
proof (induction fs)
  case Nil
  show ?case by (simp add: lookupsOnly_returnP)
next
  case (Cons frame rest)
  have "lookupsOnly (bindP (repoFromMetadata gh frame)
          (\<lambda>r. case r of Some x \<Rightarrow> returnP (Some x) | None \<Rightarrow> stackLoop gh rest))"
    by (rule lookupsOnly_first [OF lookupsOnly_repoFromMetadata Cons.IH])
  from lookupsOnly_first [OF lookupsOnly_repoFromPath [of gh frame] this]
  show ?case by simp
qed

lemma lookupsOnly_fromStackTrace: "lookupsOnly (findRepositoryFromStackTrace gh st)"
  by (simp add: findRepositoryFromStackTrace_def lookupsOnly_stackLoop)

lemma lookupsOnly_firstSuccess:
  "(\<And>m. m \<in> set attempts \<Longrightarrow> lookupsOnly m) \<Longrightarrow> lookupsOnly (firstSuccess attempts)"
proof (induction attempts)
  case Nil
  show ?case by (simp add: lookupsOnly_returnP)
next
  case (Cons m attempts)
  then show ?case by (simp add: lookupsOnly_first)
qed

lemma firstSuccess_append:
  "firstSuccess (xs @ ys) =
     bindP (firstSuccess xs) (\<lambda>r. case r of Some x \<Rightarrow> returnP (Some x) | None \<Rightarrow> firstSuccess ys)"
proof (induction xs)
  case Nil
  show ?case by (simp add: bindP_def returnP_def)
next
  case (Cons m xs)
  have "\<And>s. firstSuccess ((m # xs) @ ys) s =
      bindP (firstSuccess (m # xs)) (\<lambda>r. case r of Some x \<Rightarrow> returnP (Some x) | None \<Rightarrow> firstSuccess ys) s"
    by (simp add: Cons.IH bindP_apply returnP_def split: prod.splits sum.splits option.splits)
  then show ?case by blast
qed

text \<open>The search step never fails: it makes no call, or one search call whose failure
  it turns into no result.\<close>

lemma searchForRepository_run:
  assumes "searchForRepository gh error st s = (res, s')"
  shows "(\<exists>v. res = Inr v \<and>
           (calls s' = calls s \<or>
            (\<exists>q out. calls s' = calls s @ [SearchRepositories q out] \<and>
                      (\<forall>e. out = Inl e \<longrightarrow> v = None))))"
proof (cases "searchTerms error st = []")
  case True
  with assms show ?thesis by (auto simp: searchForRepository_def returnP_def)
next
  case False
  obtain out w' where g: "searchRepositories gh (join '' '' (searchTerms error st)) (world s) = (out, w')"
    by (cases "searchRepositories gh (join '' '' (searchTerms error st)) (world s)")
  with False assms show ?thesis
    by (cases out)
      (auto simp: searchForRepository_def Let_def catchP_def bindP_apply invoke_def returnP_def
        split: list.splits)
qed


lemma quiet_no_failure:
  "list_all quietLookup cs \<Longrightarrow> GetRepository ow repo (Inl e) \<notin> set cs"
  by (induction cs) auto

lemma quiet_no_search:
  "list_all quietLookup cs \<Longrightarrow> SearchRepositories q out \<notin> set cs"
  by (induction cs) auto

lemma quiet_resolverCall:
  "list_all quietLookup cs \<Longrightarrow> list_all resolverCall cs"
proof (induction cs)
  case Nil
  show ?case by simp
next
  case (Cons c cs)
  then show ?case by (cases c) auto
qed

lemma findRepository_split:
  "findRepository gh maps error st =
     bindP (firstSuccess [hintLookup gh error, mappingLookup gh maps error,
                          findRepositoryFromStackTrace gh st])
       (\<lambda>r. case r of Some x \<Rightarrow> returnP (Some x)
                     | None \<Rightarrow> firstSuccess [searchForRepository gh error st])"
  using firstSuccess_append [of "[hintLookup gh error, mappingLookup gh maps error,
      findRepositoryFromStackTrace gh st]" "[searchForRepository gh error st]"]
  by (simp add: findRepository_chain)

lemma lookupsOnly_firstThree:
  "lookupsOnly (firstSuccess [hintLookup gh error, mappingLookup gh maps error,
                              findRepositoryFromStackTrace gh st])"
  by (rule lookupsOnly_firstSuccess)
    (auto simp: lookupsOnly_hintLookup lookupsOnly_mappingLookup lookupsOnly_fromStackTrace)

lemma findRepository_trace:
  assumes run: "findRepository gh maps error st s = (res, s')"
  shows "\<exists>cs. calls s' = calls s @ cs \<and> list_all resolverCall cs \<and>
      (\<forall>ow repo e. GetRepository ow repo (Inl e) \<in> set cs \<longrightarrow> res = Inl e) \<and>
      (\<forall>e. res = Inl e \<longrightarrow> (\<exists>pre ow repo. cs = pre @ [GetRepository ow repo (Inl e)])) \<and>
      (\<forall>q e. SearchRepositories q (Inl e) \<in> set cs \<longrightarrow> res = Inr None)"
proof -
  let ?three = "firstSuccess [hintLookup gh error, mappingLookup gh maps error,
      findRepositoryFromStackTrace gh st]"
  obtain r1 s1 where three: "?three s = (r1, s1)" by (cases "?three s")
  with lookupsOnly_firstThree [of gh error maps st]
  obtain cs1 where c1: "calls s1 = calls s @ cs1" "lookupTrace r1 cs1"
    unfolding lookupsOnly_def by blast
  show ?thesis
  proof (cases r1)
    case (Inl e)
    with run three have res: "res = Inl e" "s' = s1"
      by (auto simp: findRepository_split bindP_apply)
    from c1 Inl obtain pre ow repo where pre: "cs1 = pre @ [GetRepository ow repo (Inl e)]"
      "list_all quietLookup pre"
      by (auto simp: lookupTrace_def)
    have "list_all resolverCall cs1"
      using pre quiet_resolverCall [OF pre(2)] by simp
    moreover have "\<forall>ow' repo' e'. GetRepository ow' repo' (Inl e') \<in> set cs1 \<longrightarrow> res = Inl e'"
      using pre quiet_no_failure [OF pre(2)] res by auto
    moreover have "\<forall>q e'. SearchRepositories q (Inl e') \<in> set cs1 \<longrightarrow> res = Inr None"
      using pre quiet_no_search [OF pre(2)] by auto
    ultimately show ?thesis using c1 res pre by auto
  next
    case (Inr found)
    with c1 have quiet: "list_all quietLookup cs1" by (simp add: lookupTrace_def)
    show ?thesis
    proof (cases found)
      case (Some x)
      with Inr run three have res: "res = Inr (Some x)" "s' = s1"
        by (auto simp: findRepository_split bindP_apply returnP_def)
      with c1 quiet quiet_resolverCall [OF quiet] quiet_no_failure [OF quiet] quiet_no_search [OF quiet]
      show ?thesis by auto
    next
      case None
      obtain r2 s2 where search: "searchForRepository gh error st s1 = (r2, s2)"
        by (cases "searchForRepository gh error st s1")
      from searchForRepository_run [OF search] obtain v where
        v: "r2 = Inr v" "calls s2 = calls s1 \<or>
            (\<exists>q out. calls s2 = calls s1 @ [SearchRepositories q out] \<and> (\<forall>e. out = Inl e \<longrightarrow> v = None))"
        by blast
      from None Inr run three search v(1) have res: "res = Inr v" "s' = s2"
        by (auto simp: findRepository_split bindP_apply returnP_def split: option.splits)
      from v(2) show ?thesis
      proof
        assume "calls s2 = calls s1"
        with c1 res quiet quiet_resolverCall [OF quiet] quiet_no_failure [OF quiet]
          quiet_no_search [OF quiet]
        show ?thesis by auto
      next
        assume "\<exists>q out. calls s2 = calls s1 @ [SearchRepositories q out] \<and> (\<forall>e. out = Inl e \<longrightarrow> v = None)"
        then obtain q out where q: "calls s2 = calls s1 @ [SearchRepositories q out]"
          "\<forall>e. out = Inl e \<longrightarrow> v = None" by blast
        have "calls s' = calls s @ (cs1 @ [SearchRepositories q out])"
          using c1 q res by simp
        moreover have "list_all resolverCall (cs1 @ [SearchRepositories q out])"
          using quiet_resolverCall [OF quiet] by simp
        moreover have "\<forall>ow repo e. GetRepository ow repo (Inl e) \<in> set (cs1 @ [SearchRepositories q out])
            \<longrightarrow> res = Inl e"
          using quiet_no_failure [OF quiet] by auto
        moreover have "\<forall>q' e. SearchRepositories q' (Inl e) \<in> set (cs1 @ [SearchRepositories q out])
            \<longrightarrow> res = Inr None"
          using quiet_no_search [OF quiet] q(2) res by auto
        ultimately show ?thesis using res by blast
      qed
    qed
  qed
qed

subsection \<open>Repository resolution: the order of the lookups\<close>

lemma bindP_assoc: "bindP (bindP m f) g = bindP m (\<lambda>x. bindP (f x) g)"
  by (rule ext) (simp add: bindP_def split: prod.splits sum.splits)

lemma firstSuccess_done:
  "bindP m (\<lambda>r. case r of Some x \<Rightarrow> returnP (Some x) | None \<Rightarrow> returnP None) = m"
  by (rule ext) (simp add: bindP_def returnP_def split: prod.splits sum.splits option.splits)

lemma firstSuccess_single: "firstSuccess [m] = m"
  by (simp add: firstSuccess_done)

lemma firstSuccess_nested:
  "firstSuccess (firstSuccess xs # rest) = firstSuccess (xs @ rest)"
  by (simp add: firstSuccess_append)

lemma firstSuccess_nested_mid:
  "firstSuccess (xs @ firstSuccess ys # rest) = firstSuccess (xs @ ys @ rest)"
proof (induction xs)
  case Nil
  show ?case by (simp add: firstSuccess_append)
next
  case (Cons m xs)
  then show ?case by simp
qed

lemma firstSuccess_nested_last:
  "firstSuccess (xs @ [firstSuccess ys]) = firstSuccess (xs @ ys)"
  using firstSuccess_nested_mid [of xs ys "[]"] by simp

lemma hintLookup_targets:
  "hintLookup gh error = firstSuccess (map (getRepositoryInfo gh) (hintTargets error))"
  by (simp add: hintLookup_def hintTargets_def firstSuccess_done split: option.splits)

lemma mappingLookup_targets:
  "mappingLookup gh maps error = firstSuccess (map (getRepositoryInfo gh) (mappingTargets maps error))"
  by (simp add: mappingLookup_def mappingTargets_def firstSuccess_done split: option.splits)

lemma frame_targets:
  "firstSuccess [repoFromPath gh frame, repoFromMetadata gh frame] =
     firstSuccess (map (getRepositoryInfo gh) (frameTargets frame))"
  by (simp add: repoFromPath_def repoFromMetadata_def frameTargets_def firstSuccess_done
        split: option.splits prod.splits)

lemma stackLoop_step:
  "stackLoop gh (frame # rest) =
     firstSuccess (firstSuccess [repoFromPath gh frame, repoFromMetadata gh frame] # [stackLoop gh rest])"
  by (rule ext)
    (simp add: bindP_apply returnP_def split: prod.splits sum.splits option.splits)

lemma stackLoop_targets:
  "stackLoop gh fs = firstSuccess (map (getRepositoryInfo gh) (concat (map frameTargets fs)))"
proof (induction fs)
  case Nil
  show ?case by simp
next
  case (Cons frame rest)
  have "stackLoop gh (frame # rest) =
      firstSuccess (map (getRepositoryInfo gh) (frameTargets frame) @ [stackLoop gh rest])"
    by (simp only: stackLoop_step frame_targets firstSuccess_nested)
  also have "\<dots> = firstSuccess (map (getRepositoryInfo gh) (frameTargets frame) @
      [firstSuccess (map (getRepositoryInfo gh) (concat (map frameTargets rest)))])"
    by (simp only: Cons.IH)
  also have "\<dots> = firstSuccess (map (getRepositoryInfo gh) (concat (map frameTargets (frame # rest))))"
    by (simp add: firstSuccess_nested_last)
  finally show ?case .
qed

lemma findRepository_targets:
  "findRepository gh maps error st =
     firstSuccess (map (getRepositoryInfo gh) (lookupTargets maps error st) @
                   [searchForRepository gh error st])"
proof -
  let ?g = "getRepositoryInfo gh"
  let ?H = "map ?g (hintTargets error)"
  let ?M = "map ?g (mappingTargets maps error)"
  let ?S = "map ?g (stackTargets st)"
  let ?search = "searchForRepository gh error st"
  have "findRepository gh maps error st =
      firstSuccess (firstSuccess ?H # [firstSuccess ?M, firstSuccess ?S, ?search])"
    by (simp only: findRepository_chain hintLookup_targets mappingLookup_targets
          findRepositoryFromStackTrace_def stackLoop_targets stackTargets_def)
  also have "\<dots> = firstSuccess (?H @ firstSuccess ?M # [firstSuccess ?S, ?search])"
    by (rule firstSuccess_nested)
  also have "\<dots> = firstSuccess ((?H @ ?M) @ firstSuccess ?S # [?search])"
    by (simp only: firstSuccess_nested_mid append_assoc append_Cons append_Nil)
  also have "\<dots> = firstSuccess ((?H @ ?M) @ ?S @ [?search])"
    by (rule firstSuccess_nested_mid)
  also have "\<dots> = firstSuccess (map ?g (lookupTargets maps error st) @ [?search])"
    by (simp only: lookupTargets_def map_append append_assoc)
  finally show ?thesis .
qed


lemma getRepositoryInfo_null:
  assumes "split_on CHR ''/'' full = ow # repo # segs" "ow \<noteq> []" "repo \<noteq> []"
    and "getRepository gh ow repo (world s) = (Inr None, w')"
  shows "getRepositoryInfo gh full s =
     (Inr None, \<lparr>world = w', calls = calls s @ [GetRepository ow repo (Inr None)]\<rparr>)"
  using assms by (simp add: getRepositoryInfo_def bindP_apply invoke_def returnP_def)

lemma searchForRepository_no_terms:
  "searchTerms error st = [] \<Longrightarrow> searchForRepository gh error st s = (Inr None, s)"
  by (simp add: searchForRepository_def returnP_def)

lemma searchForRepository_found:
  assumes "searchTerms error st \<noteq> []"
    and "searchRepositories gh (join '' '' (searchTerms error st)) (world s) = (Inr (r # rs), w')"
  shows "searchForRepository gh error st s =
     (Inr (Some \<lparr>owner = sr_owner r, name = sr_name r, fullName = sr_fullName r, url = sr_url r,
                  defaultBranch = ''main''\<rparr>),
      \<lparr>world = w',
       calls = calls s @ [SearchRepositories (join '' '' (searchTerms error st)) (Inr (r # rs))]\<rparr>)"
  using assms
  by (simp add: searchForRepository_def Let_def catchP_def bindP_apply invoke_def returnP_def)

lemma searchForRepository_empty:
  assumes "searchTerms error st \<noteq> []"
    and "searchRepositories gh (join '' '' (searchTerms error st)) (world s) = (Inr [], w')"
  shows "searchForRepository gh error st s =
     (Inr None,
      \<lparr>world = w',
       calls = calls s @ [SearchRepositories (join '' '' (searchTerms error st)) (Inr [])]\<rparr>)"
  using assms
  by (simp add: searchForRepository_def Let_def catchP_def bindP_apply invoke_def returnP_def)

lemma firstSuccess_wins:
  assumes "firstSuccess pre s = (Inr None, s1)" and "m s1 = (Inr (Some x), s2)"
  shows "firstSuccess (pre @ m # post) s = (Inr (Some x), s2)"
  using assms by (simp add: firstSuccess_append bindP_apply returnP_def)

lemma firstSuccess_exhausted:
  assumes "firstSuccess pre s = (Inr None, s1)"
  shows "firstSuccess (pre @ [m]) s = m s1"
proof -
  have "firstSuccess [m] = m" by (simp add: firstSuccess_done)
  with assms show ?thesis by (simp only: firstSuccess_append bindP_apply) simp
qed

lemma searchTerms_source:
  "source error \<noteq> [] \<Longrightarrow> \<exists>others. searchTerms error st = source error # others"
proof -
  have grows: "\<exists>others. foldl (\<lambda>terms frame.
              case fileBaseName (filePath frame) of
                None \<Rightarrow> terms
              | Some fileName \<Rightarrow>
                  if fileName \<noteq> [] \<and> fileName \<notin> set terms then terms @ [fileName] else terms)
       (x # xs) fs = x # others" for x :: string and xs fs
  proof (induction fs arbitrary: xs)
    case Nil
    show ?case by simp
  next
    case (Cons f fs)
    show ?case using Cons.IH [of xs] Cons.IH [of "xs @ [the (fileBaseName (filePath f))]"]
      by (auto split: option.splits)
  qed
  assume "source error \<noteq> []"
  then show ?thesis using grows [of "source error" "[]"] by (simp add: searchTerms_def)
qed


subsection \<open>Repository resolution: precedence\<close>

text \<open>
  Claim C2. When the error record carries a repository hint whose owner and repository
  segments are both present and the direct lookup of it returns a repository record,
  resolution returns the descriptor built from that lookup, and the lookup is the only
  call it makes: the result does not depend on the mapping table or the stack trace, and
  no search is issued.

  In general the resolver tries the heuristics in the fixed order hint, mapping,
  stack-trace scan, search: \<open>findRepository\<close> is the first success of the direct lookups of
  \<open>lookupTargets\<close>, in that order, followed by the search. So the first name of the list
  whose lookup returns a record gives the result, and the state is the one that lookup
  leaves: nothing after it is consulted. When every lookup returns \<open>null\<close> the result is
  that of the search, run in the state the lookups leave.

  A direct lookup of a full name with both segments makes one call of \<open>getRepository\<close>,
  which is recorded: a record gives the descriptor built from it, \<open>null\<close> gives no match.
  A full name that lacks the owner or the repository segment is no match and no error: no
  call is made, the state is unchanged, and resolution goes on with the next step.

  The search makes no call when there is no search term, and the error's source, when it
  is not empty, is the first term; otherwise it makes one search call: the first result
  gives a descriptor with the default branch \<open>main\<close>, no result gives no match.
\<close>

theorem findRepository_precedence:
  "(repository error = Some hint \<and> split_on CHR ''/'' hint = ow # repo # segs \<and> ow \<noteq> [] \<and>
    repo \<noteq> [] \<and> getRepository gh ow repo (world s) = (Inr (Some rd), w') \<longrightarrow>
      findRepository gh maps error st s =
        (Inr (Some \<lparr>owner = ow, name = repo, fullName = rd_fullName rd, url = rd_url rd,
                     defaultBranch = rd_defaultBranch rd\<rparr>),
         \<lparr>world = w', calls = calls s @ [GetRepository ow repo (Inr (Some rd))]\<rparr>)) \<and>
   findRepository gh maps error st =
     firstSuccess (map (getRepositoryInfo gh) (lookupTargets maps error st) @
                   [searchForRepository gh error st]) \<and>
   (lookupTargets maps error st = pre @ t # post \<and>
    firstSuccess (map (getRepositoryInfo gh) pre) s = (Inr None, s1) \<and>
    getRepositoryInfo gh t s1 = (Inr (Some info), s2) \<longrightarrow>
      findRepository gh maps error st s = (Inr (Some info), s2)) \<and>
   (firstSuccess (map (getRepositoryInfo gh) (lookupTargets maps error st)) s = (Inr None, s1) \<longrightarrow>
      findRepository gh maps error st s = searchForRepository gh error st s1) \<and>
   (split_on CHR ''/'' full = ow # repo # segs \<and> ow \<noteq> [] \<and> repo \<noteq> [] \<and>
    getRepository gh ow repo (world s) = (Inr (Some rd), w') \<longrightarrow>
      getRepositoryInfo gh full s =
        (Inr (Some \<lparr>owner = ow, name = repo, fullName = rd_fullName rd, url = rd_url rd,
                     defaultBranch = rd_defaultBranch rd\<rparr>),
         \<lparr>world = w', calls = calls s @ [GetRepository ow repo (Inr (Some rd))]\<rparr>)) \<and>
   (split_on CHR ''/'' full = ow # repo # segs \<and> ow \<noteq> [] \<and> repo \<noteq> [] \<and>
    getRepository gh ow repo (world s) = (Inr None, w') \<longrightarrow>
      getRepositoryInfo gh full s =
        (Inr None, \<lparr>world = w', calls = calls s @ [GetRepository ow repo (Inr None)]\<rparr>)) \<and>
   ((case split_on CHR ''/'' full of a # b # extra \<Rightarrow> a = [] \<or> b = [] | short \<Rightarrow> True) \<longrightarrow>
      getRepositoryInfo gh full s = (Inr None, s) \<and>
      (repository error = Some full \<longrightarrow>
         findRepository gh maps error st s =
           firstSuccess (map (getRepositoryInfo gh) (mappingTargets maps error @ stackTargets st) @
                         [searchForRepository gh error st]) s)) \<and>
   (searchTerms error st = [] \<longrightarrow> searchForRepository gh error st s = (Inr None, s)) \<and>
   (source error \<noteq> [] \<longrightarrow> (\<exists>others. searchTerms error st = source error # others)) \<and>
   (searchTerms error st \<noteq> [] \<and>
    searchRepositories gh (join '' '' (searchTerms error st)) (world s) = (Inr (r # rs), w') \<longrightarrow>
      searchForRepository gh error st s =
        (Inr (Some \<lparr>owner = sr_owner r, name = sr_name r, fullName = sr_fullName r,
                     url = sr_url r, defaultBranch = ''main''\<rparr>),
         \<lparr>world = w',
          calls = calls s @
            [SearchRepositories (join '' '' (searchTerms error st)) (Inr (r # rs))]\<rparr>)) \<and>
   (searchTerms error st \<noteq> [] \<and>
    searchRepositories gh (join '' '' (searchTerms error st)) (world s) = (Inr [], w') \<longrightarrow>
      searchForRepository gh error st s =
        (Inr None,
         \<lparr>world = w',
          calls = calls s @ [SearchRepositories (join '' '' (searchTerms error st)) (Inr [])]\<rparr>))"
proof -
  let ?g = "getRepositoryInfo gh"
  note order = findRepository_targets [of gh maps error st]
  have hint_wins: "repository error = Some hint \<and> split_on CHR ''/'' hint = ow # repo # segs \<and>
      ow \<noteq> [] \<and> repo \<noteq> [] \<and> getRepository gh ow repo (world s) = (Inr (Some rd), w') \<longrightarrow>
      findRepository gh maps error st s =
        (Inr (Some \<lparr>owner = ow, name = repo, fullName = rd_fullName rd, url = rd_url rd,
                     defaultBranch = rd_defaultBranch rd\<rparr>),
         \<lparr>world = w', calls = calls s @ [GetRepository ow repo (Inr (Some rd))]\<rparr>)"
  proof (intro impI, elim conjE)
    assume h: "repository error = Some hint" "split_on CHR ''/'' hint = ow # repo # segs"
      "ow \<noteq> []" "repo \<noteq> []" "getRepository gh ow repo (world s) = (Inr (Some rd), w')"
    from h(2) have "hint \<noteq> []" by auto
    with h(1) have "hintLookup gh error s = getRepositoryInfo gh hint s"
      by (simp add: hintLookup_def)
    with getRepositoryInfo_found [OF h(2) h(3) h(4) h(5)] show "findRepository gh maps error st s =
        (Inr (Some \<lparr>owner = ow, name = repo, fullName = rd_fullName rd, url = rd_url rd,
                     defaultBranch = rd_defaultBranch rd\<rparr>),
         \<lparr>world = w', calls = calls s @ [GetRepository ow repo (Inr (Some rd))]\<rparr>)"
      by (simp add: findRepository_def bindP_apply returnP_def)
  qed
  have first_wins: "lookupTargets maps error st = pre @ t # post \<and>
      firstSuccess (map ?g pre) s = (Inr None, s1) \<and> ?g t s1 = (Inr (Some info), s2) \<longrightarrow>
      findRepository gh maps error st s = (Inr (Some info), s2)"
  proof (intro impI, elim conjE)
    assume a: "lookupTargets maps error st = pre @ t # post"
      "firstSuccess (map ?g pre) s = (Inr None, s1)" "?g t s1 = (Inr (Some info), s2)"
    have "firstSuccess (map ?g pre @ ?g t # (map ?g post @ [searchForRepository gh error st])) s =
        (Inr (Some info), s2)"
      using a(2) a(3)
      by (rule firstSuccess_wins [where m = "getRepositoryInfo gh t"])
    then show "findRepository gh maps error st s = (Inr (Some info), s2)"
      by (simp add: order a(1))
  qed
  have exhausted: "firstSuccess (map ?g (lookupTargets maps error st)) s = (Inr None, s1) \<longrightarrow>
      findRepository gh maps error st s = searchForRepository gh error st s1"
    by (simp only: order) (rule impI, rule firstSuccess_exhausted)
  have found: "split_on CHR ''/'' full = ow # repo # segs \<and> ow \<noteq> [] \<and> repo \<noteq> [] \<and>
      getRepository gh ow repo (world s) = (Inr (Some rd), w') \<longrightarrow>
      ?g full s =
        (Inr (Some \<lparr>owner = ow, name = repo, fullName = rd_fullName rd, url = rd_url rd,
                     defaultBranch = rd_defaultBranch rd\<rparr>),
         \<lparr>world = w', calls = calls s @ [GetRepository ow repo (Inr (Some rd))]\<rparr>)"
    by (intro impI, elim conjE) (rule getRepositoryInfo_found)
  have null: "split_on CHR ''/'' full = ow # repo # segs \<and> ow \<noteq> [] \<and> repo \<noteq> [] \<and>
      getRepository gh ow repo (world s) = (Inr None, w') \<longrightarrow>
      ?g full s = (Inr None, \<lparr>world = w', calls = calls s @ [GetRepository ow repo (Inr None)]\<rparr>)"
    by (intro impI, elim conjE) (rule getRepositoryInfo_null)
  have malformed:
    "(case split_on CHR ''/'' full of a # b # extra \<Rightarrow> a = [] \<or> b = [] | short \<Rightarrow> True) \<longrightarrow>
      ?g full s = (Inr None, s) \<and>
      (repository error = Some full \<longrightarrow>
         findRepository gh maps error st s =
           firstSuccess (map ?g (mappingTargets maps error @ stackTargets st) @
                         [searchForRepository gh error st]) s)"
  proof (intro impI conjI)
    assume m: "case split_on CHR ''/'' full of a # b # extra \<Rightarrow> a = [] \<or> b = [] | short \<Rightarrow> True"
    show none: "?g full s = (Inr None, s)"
      by (rule getRepositoryInfo_malformed [OF m])
    assume r: "repository error = Some full"
    show "findRepository gh maps error st s =
        firstSuccess (map ?g (mappingTargets maps error @ stackTargets st) @
                      [searchForRepository gh error st]) s"
    proof (cases "full = []")
      case True
      with r have "lookupTargets maps error st = mappingTargets maps error @ stackTargets st"
        by (simp add: lookupTargets_def hintTargets_def)
      then show ?thesis by (simp only: order)
    next
      case False
      with r have "lookupTargets maps error st =
          full # (mappingTargets maps error @ stackTargets st)"
        by (simp add: lookupTargets_def hintTargets_def)
      with none show ?thesis by (simp add: order bindP_apply)
    qed
  qed
  have no_terms: "searchTerms error st = [] \<longrightarrow> searchForRepository gh error st s = (Inr None, s)"
    by (rule impI) (rule searchForRepository_no_terms)
  have source_first: "source error \<noteq> [] \<longrightarrow> (\<exists>others. searchTerms error st = source error # others)"
    by (rule impI) (rule searchTerms_source)
  have search_found: "searchTerms error st \<noteq> [] \<and>
      searchRepositories gh (join '' '' (searchTerms error st)) (world s) = (Inr (r # rs), w') \<longrightarrow>
      searchForRepository gh error st s =
        (Inr (Some \<lparr>owner = sr_owner r, name = sr_name r, fullName = sr_fullName r,
                     url = sr_url r, defaultBranch = ''main''\<rparr>),
         \<lparr>world = w',
          calls = calls s @
            [SearchRepositories (join '' '' (searchTerms error st)) (Inr (r # rs))]\<rparr>)"
    by (intro impI, elim conjE) (rule searchForRepository_found)
  have search_empty: "searchTerms error st \<noteq> [] \<and>
      searchRepositories gh (join '' '' (searchTerms error st)) (world s) = (Inr [], w') \<longrightarrow>
      searchForRepository gh error st s =
        (Inr None,
         \<lparr>world = w',
          calls = calls s @ [SearchRepositories (join '' '' (searchTerms error st)) (Inr [])]\<rparr>)"
    by (intro impI, elim conjE) (rule searchForRepository_empty)
  show ?thesis
    apply (intro conjI)
              apply (rule hint_wins)
             apply (rule order)
            apply (rule first_wins)
           apply (rule exhausted)
          apply (rule found)
         apply (rule null)
        apply (rule malformed)
       apply (rule no_terms)
      apply (rule source_first)
     apply (rule search_found)
    apply (rule search_empty)
    done
qed


theorem findRepository_precedence_witness:
  "findRepository (sampleGitHub [''myorg/user-service''] [] True)
     (Some [''user-service'' \<mapsto> ''other/repo''])
     (sampleError ''err-001'' ''user-service'' [] (Some ''myorg/user-service''))
     (parse [] None) initialState =
     (Inr (Some \<lparr>owner = ''myorg'', name = ''user-service'', fullName = ''myorg/user-service'',
                  url = ''https://github.com/myorg/user-service'', defaultBranch = ''main''\<rparr>),
      \<lparr>world = 1,
       calls = [GetRepository ''myorg'' ''user-service''
                  (Inr (Some \<lparr>rd_defaultBranch = ''main'', rd_fullName = ''myorg/user-service'',
                               rd_url = ''https://github.com/myorg/user-service''\<rparr>))]\<rparr>) \<and>
   lookupTargets (Some [''user-service'' \<mapsto> ''myorg/user-service''])
     (sampleError ''err-002'' ''user-service'' [] (Some ''ghost/repo'')) scanTrace =
     [''ghost/repo'', ''myorg/user-service'', ''acme/shop''] \<and>
   findRepository (sampleGitHub [''myorg/user-service'', ''acme/shop''] [] True)
     (Some [''user-service'' \<mapsto> ''myorg/user-service''])
     (sampleError ''err-002'' ''user-service'' [] (Some ''ghost/repo'')) scanTrace initialState =
     (Inr (Some \<lparr>owner = ''myorg'', name = ''user-service'', fullName = ''myorg/user-service'',
                  url = ''https://github.com/myorg/user-service'', defaultBranch = ''main''\<rparr>),
      \<lparr>world = 2,
       calls = [GetRepository ''ghost'' ''repo'' (Inr None),
                GetRepository ''myorg'' ''user-service''
                  (Inr (Some \<lparr>rd_defaultBranch = ''main'', rd_fullName = ''myorg/user-service'',
                               rd_url = ''https://github.com/myorg/user-service''\<rparr>))]\<rparr>) \<and>
   findRepository (sampleGitHub [''acme/shop''] [] True)
     (Some [''user-service'' \<mapsto> ''myorg/user-service''])
     (sampleError ''err-002'' ''user-service'' [] (Some ''ghost/repo'')) scanTrace initialState =
     (Inr (Some \<lparr>owner = ''acme'', name = ''shop'', fullName = ''acme/shop'',
                  url = ''https://github.com/acme/shop'', defaultBranch = ''main''\<rparr>),
      \<lparr>world = 3,
       calls = [GetRepository ''ghost'' ''repo'' (Inr None),
                GetRepository ''myorg'' ''user-service'' (Inr None),
                GetRepository ''acme'' ''shop''
                  (Inr (Some \<lparr>rd_defaultBranch = ''main'', rd_fullName = ''acme/shop'',
                               rd_url = ''https://github.com/acme/shop''\<rparr>))]\<rparr>) \<and>
   getRepositoryInfo (sampleGitHub [''myorg/user-service''] [] True) ''/user-service'' initialState =
     (Inr None, initialState) \<and>
   findRepository (sampleGitHub [''myorg/user-service''] [] True)
     (Some [''user-service'' \<mapsto> ''myorg/user-service''])
     (sampleError ''err-003'' ''user-service'' [] (Some ''/user-service''))
     (parse [] None) initialState =
     (Inr (Some \<lparr>owner = ''myorg'', name = ''user-service'', fullName = ''myorg/user-service'',
                  url = ''https://github.com/myorg/user-service'', defaultBranch = ''main''\<rparr>),
      \<lparr>world = 1,
       calls = [GetRepository ''myorg'' ''user-service''
                  (Inr (Some \<lparr>rd_defaultBranch = ''main'', rd_fullName = ''myorg/user-service'',
                               rd_url = ''https://github.com/myorg/user-service''\<rparr>))]\<rparr>) \<and>
   searchTerms (sampleError ''err-004'' ''user-service'' [] None) scanTrace = [''user-service'', ''a''] \<and>
   findRepository
     (searchingGitHub []
        [\<lparr>sr_owner = ''found'', sr_name = ''svc'', sr_fullName = ''found/svc'',
          sr_url = ''https://github.com/found/svc''\<rparr>])
     None (sampleError ''err-004'' ''user-service'' [] None) scanTrace initialState =
     (Inr (Some \<lparr>owner = ''found'', name = ''svc'', fullName = ''found/svc'',
                  url = ''https://github.com/found/svc'', defaultBranch = ''main''\<rparr>),
      \<lparr>world = 2,
       calls = [GetRepository ''acme'' ''shop'' (Inr None),
                SearchRepositories ''user-service a''
                  (Inr [\<lparr>sr_owner = ''found'', sr_name = ''svc'', sr_fullName = ''found/svc'',
                         sr_url = ''https://github.com/found/svc''\<rparr>])]\<rparr>) \<and>
   findRepository (searchingGitHub [] []) None (sampleError ''err-004'' ''user-service'' [] None)
     scanTrace initialState =
     (Inr None,
      \<lparr>world = 2,
       calls = [GetRepository ''acme'' ''shop'' (Inr None),
                SearchRepositories ''user-service a'' (Inr [])]\<rparr>) \<and>
   findRepository (searchingGitHub [] []) None (sampleError ''err-005'' [] [] None)
     (parse [] None) initialState = (Inr None, initialState)"
proof -
  let ?rd = "\<lparr>rd_defaultBranch = ''main'', rd_fullName = ''myorg/user-service'',
              rd_url = ''https://github.com/myorg/user-service''\<rparr>"
  let ?shop = "\<lparr>rd_defaultBranch = ''main'', rd_fullName = ''acme/shop'',
              rd_url = ''https://github.com/acme/shop''\<rparr>"
  let ?hit = "\<lparr>sr_owner = ''found'', sr_name = ''svc'', sr_fullName = ''found/svc'',
               sr_url = ''https://github.com/found/svc''\<rparr>"
  let ?maps = "Some [''user-service'' \<mapsto> ''myorg/user-service'']"
  let ?s1 = "\<lparr>world = 1 :: nat, calls = [GetRepository ''ghost'' ''repo'' (Inr None)]\<rparr>"
  let ?s2 = "\<lparr>world = 2 :: nat, calls = [GetRepository ''ghost'' ''repo'' (Inr None),
                GetRepository ''myorg'' ''user-service'' (Inr None)]\<rparr>"
  let ?t1 = "\<lparr>world = 1 :: nat, calls = [GetRepository ''acme'' ''shop'' (Inr None)]\<rparr>"
  have scan: "stackTargets scanTrace = [''acme/shop'']"
    unfolding scanTrace_def by code_simp
  have terms: "searchTerms (sampleError ''err-004'' ''user-service'' [] None) scanTrace =
      [''user-service'', ''a'']"
    unfolding scanTrace_def by code_simp
  have empty_trace: "frames (parse [] None) = []"
    by code_simp

  text \<open>The hint is found: one call.\<close>
  let ?gh = "sampleGitHub [''myorg/user-service''] [] True"
  let ?good = "sampleError ''err-001'' ''user-service'' [] (Some ''myorg/user-service'')"
  have hint: "repository ?good = Some ''myorg/user-service'' \<and>
      split_on CHR ''/'' ''myorg/user-service'' = ''myorg'' # ''user-service'' # [] \<and>
      ''myorg'' \<noteq> [] \<and> ''user-service'' \<noteq> [] \<and>
      getRepository ?gh ''myorg'' ''user-service'' (world initialState) = (Inr (Some ?rd), 1)"
    by (simp add: sampleError_def sampleGitHub_def initialState_def)
  note first = findRepository_precedence
      [where error = "?good" and hint = "''myorg/user-service''" and ow = "''myorg''"
         and repo = "''user-service''" and segs = "[]" and gh = "?gh" and s = initialState
         and rd = "?rd" and w' = 1 and maps = "Some [''user-service'' \<mapsto> ''other/repo'']"
         and st = "parse [] None", THEN conjunct1, THEN mp, OF hint]

  text \<open>The hint is unknown, the mapped name is found.\<close>
  let ?gh2 = "sampleGitHub [''myorg/user-service'', ''acme/shop''] [] True"
  let ?ghost = "sampleError ''err-002'' ''user-service'' [] (Some ''ghost/repo'')"
  have targets: "lookupTargets ?maps ?ghost scanTrace =
      [''ghost/repo'', ''myorg/user-service'', ''acme/shop'']"
    by (simp add: lookupTargets_def hintTargets_def mappingTargets_def sampleError_def scan)
  have null_hint: "split_on CHR ''/'' ''ghost/repo'' = ''ghost'' # ''repo'' # [] \<and> ''ghost'' \<noteq> [] \<and>
      ''repo'' \<noteq> [] \<and> getRepository ?gh2 ''ghost'' ''repo'' (world initialState) = (Inr None, 1)"
    by (simp add: sampleGitHub_def initialState_def)
  note ghost = findRepository_precedence
      [where gh = "?gh2" and full = "''ghost/repo''" and ow = "''ghost''" and repo = "''repo''"
         and segs = "[]" and s = initialState and w' = 1,
         THEN conjunct2, THEN conjunct2, THEN conjunct2, THEN conjunct2, THEN conjunct2,
         THEN conjunct1, THEN mp, OF null_hint]
  have ghost_run: "getRepositoryInfo ?gh2 ''ghost/repo'' initialState = (Inr None, ?s1)"
    using ghost by (simp add: initialState_def)
  have mapped_hyp: "split_on CHR ''/'' ''myorg/user-service'' = ''myorg'' # ''user-service'' # [] \<and>
      ''myorg'' \<noteq> [] \<and> ''user-service'' \<noteq> [] \<and>
      getRepository ?gh2 ''myorg'' ''user-service'' (world ?s1) = (Inr (Some ?rd), 2)"
    by (simp add: sampleGitHub_def)
  note mapped = findRepository_precedence
      [where gh = "?gh2" and full = "''myorg/user-service''" and ow = "''myorg''"
         and repo = "''user-service''" and segs = "[]" and s = "?s1" and w' = 2 and rd = "?rd",
         THEN conjunct2, THEN conjunct2, THEN conjunct2, THEN conjunct2, THEN conjunct1,
         THEN mp, OF mapped_hyp]
  have order_hyp: "lookupTargets ?maps ?ghost scanTrace =
        [''ghost/repo''] @ ''myorg/user-service'' # [''acme/shop''] \<and>
      firstSuccess (map (getRepositoryInfo ?gh2) [''ghost/repo'']) initialState = (Inr None, ?s1) \<and>
      getRepositoryInfo ?gh2 ''myorg/user-service'' ?s1 =
        (Inr (Some \<lparr>owner = ''myorg'', name = ''user-service'', fullName = ''myorg/user-service'',
                  url = ''https://github.com/myorg/user-service'', defaultBranch = ''main''\<rparr>),
         \<lparr>world = 2, calls = [GetRepository ''ghost'' ''repo'' (Inr None),
                GetRepository ''myorg'' ''user-service'' (Inr (Some ?rd))]\<rparr>)"
    using mapped by (simp add: targets ghost_run bindP_apply returnP_def)
  note second = findRepository_precedence
      [where gh = "?gh2" and maps = "?maps" and error = "?ghost" and st = scanTrace
         and pre = "[''ghost/repo'']" and t = "''myorg/user-service''" and post = "[''acme/shop'']"
         and s = initialState and ?s1.0 = "?s1",
         THEN conjunct2, THEN conjunct2, THEN conjunct1, THEN mp, OF order_hyp]

  text \<open>Neither the hint nor the mapped name is known, the name in the frame's path is.\<close>
  let ?gh3 = "sampleGitHub [''acme/shop''] [] True"
  have null_hint3: "split_on CHR ''/'' ''ghost/repo'' = ''ghost'' # ''repo'' # [] \<and> ''ghost'' \<noteq> [] \<and>
      ''repo'' \<noteq> [] \<and> getRepository ?gh3 ''ghost'' ''repo'' (world initialState) = (Inr None, 1)"
    by (simp add: sampleGitHub_def initialState_def)
  note ghost3 = findRepository_precedence
      [where gh = "?gh3" and full = "''ghost/repo''" and ow = "''ghost''" and repo = "''repo''"
         and segs = "[]" and s = initialState and w' = 1,
         THEN conjunct2, THEN conjunct2, THEN conjunct2, THEN conjunct2, THEN conjunct2,
         THEN conjunct1, THEN mp, OF null_hint3]
  have ghost3_run: "getRepositoryInfo ?gh3 ''ghost/repo'' initialState = (Inr None, ?s1)"
    using ghost3 by (simp add: initialState_def)
  have null_mapped: "split_on CHR ''/'' ''myorg/user-service'' = ''myorg'' # ''user-service'' # [] \<and>
      ''myorg'' \<noteq> [] \<and> ''user-service'' \<noteq> [] \<and>
      getRepository ?gh3 ''myorg'' ''user-service'' (world ?s1) = (Inr None, 2)"
    by (simp add: sampleGitHub_def)
  note mapped3 = findRepository_precedence
      [where gh = "?gh3" and full = "''myorg/user-service''" and ow = "''myorg''"
         and repo = "''user-service''" and segs = "[]" and s = "?s1" and w' = 2,
         THEN conjunct2, THEN conjunct2, THEN conjunct2, THEN conjunct2, THEN conjunct2,
         THEN conjunct1, THEN mp, OF null_mapped]
  have shop_hyp: "split_on CHR ''/'' ''acme/shop'' = ''acme'' # ''shop'' # [] \<and>
      ''acme'' \<noteq> [] \<and> ''shop'' \<noteq> [] \<and>
      getRepository ?gh3 ''acme'' ''shop'' (world ?s2) = (Inr (Some ?shop), 3)"
    by (simp add: sampleGitHub_def)
  note shop = findRepository_precedence
      [where gh = "?gh3" and full = "''acme/shop''" and ow = "''acme''"
         and repo = "''shop''" and segs = "[]" and s = "?s2" and w' = 3 and rd = "?shop",
         THEN conjunct2, THEN conjunct2, THEN conjunct2, THEN conjunct2, THEN conjunct1,
         THEN mp, OF shop_hyp]
  have scan_hyp: "lookupTargets ?maps ?ghost scanTrace =
        [''ghost/repo'', ''myorg/user-service''] @ ''acme/shop'' # [] \<and>
      firstSuccess (map (getRepositoryInfo ?gh3) [''ghost/repo'', ''myorg/user-service''])
        initialState = (Inr None, ?s2) \<and>
      getRepositoryInfo ?gh3 ''acme/shop'' ?s2 =
        (Inr (Some \<lparr>owner = ''acme'', name = ''shop'', fullName = ''acme/shop'',
                  url = ''https://github.com/acme/shop'', defaultBranch = ''main''\<rparr>),
         \<lparr>world = 3, calls = [GetRepository ''ghost'' ''repo'' (Inr None),
                GetRepository ''myorg'' ''user-service'' (Inr None),
                GetRepository ''acme'' ''shop'' (Inr (Some ?shop))]\<rparr>)"
    using shop mapped3 by (simp add: targets ghost3_run bindP_apply returnP_def)
  note third = findRepository_precedence
      [where gh = "?gh3" and maps = "?maps" and error = "?ghost" and st = scanTrace
         and pre = "[''ghost/repo'', ''myorg/user-service'']" and t = "''acme/shop''"
         and post = "[]" and s = initialState and ?s1.0 = "?s2",
         THEN conjunct2, THEN conjunct2, THEN conjunct1, THEN mp, OF scan_hyp]

  text \<open>A hint without its owner segment: no call, and resolution goes on to the mapping.\<close>
  let ?bad = "sampleError ''err-003'' ''user-service'' [] (Some ''/user-service'')"
  have bad_segs: "case split_on CHR ''/'' ''/user-service'' of a # b # extra \<Rightarrow> a = [] \<or> b = []
                  | short \<Rightarrow> True"
    by simp
  note malformed = findRepository_precedence
      [where gh = "?gh" and full = "''/user-service''" and s = initialState and error = "?bad"
         and maps = "?maps" and st = "parse [] None",
         THEN conjunct2, THEN conjunct2, THEN conjunct2, THEN conjunct2, THEN conjunct2,
         THEN conjunct2, THEN conjunct1, THEN mp, OF bad_segs]
  have bad_hint: "repository ?bad = Some ''/user-service''"
    by (simp add: sampleError_def)
  note onward = malformed [THEN conjunct2, THEN mp, OF bad_hint]
  have mapped_first: "split_on CHR ''/'' ''myorg/user-service'' = ''myorg'' # ''user-service'' # [] \<and>
      ''myorg'' \<noteq> [] \<and> ''user-service'' \<noteq> [] \<and>
      getRepository ?gh ''myorg'' ''user-service'' (world initialState) = (Inr (Some ?rd), 1)"
    by (simp add: sampleGitHub_def initialState_def)
  note mapped_run = findRepository_precedence
      [where gh = "?gh" and full = "''myorg/user-service''" and ow = "''myorg''"
         and repo = "''user-service''" and segs = "[]" and s = initialState and w' = 1
         and rd = "?rd",
         THEN conjunct2, THEN conjunct2, THEN conjunct2, THEN conjunct2, THEN conjunct1,
         THEN mp, OF mapped_first]
  have fourth: "findRepository ?gh ?maps ?bad (parse [] None) initialState =
     (Inr (Some \<lparr>owner = ''myorg'', name = ''user-service'', fullName = ''myorg/user-service'',
                  url = ''https://github.com/myorg/user-service'', defaultBranch = ''main''\<rparr>),
      \<lparr>world = 1, calls = [GetRepository ''myorg'' ''user-service'' (Inr (Some ?rd))]\<rparr>)"
  proof -
    have "firstSuccess (map (getRepositoryInfo ?gh) (mappingTargets ?maps ?bad @
          stackTargets (parse [] None)) @ [searchForRepository ?gh ?bad (parse [] None)])
        initialState =
      (Inr (Some \<lparr>owner = ''myorg'', name = ''user-service'', fullName = ''myorg/user-service'',
                  url = ''https://github.com/myorg/user-service'', defaultBranch = ''main''\<rparr>),
       \<lparr>world = 1, calls = [GetRepository ''myorg'' ''user-service'' (Inr (Some ?rd))]\<rparr>)"
      using mapped_run
      by (simp add: mappingTargets_def stackTargets_def empty_trace sampleError_def bindP_apply
            returnP_def initialState_def)
    then show ?thesis by (simp only: onward)
  qed

  text \<open>No lookup finds anything: the search is issued, and its first result is taken.\<close>
  let ?sg = "searchingGitHub [] [?hit]"
  let ?plain = "sampleError ''err-004'' ''user-service'' [] None"
  have plain_targets: "lookupTargets None ?plain scanTrace = [''acme/shop'']"
    by (simp add: lookupTargets_def hintTargets_def mappingTargets_def sampleError_def scan)
  have sg_null: "split_on CHR ''/'' ''acme/shop'' = ''acme'' # ''shop'' # [] \<and>
      ''acme'' \<noteq> [] \<and> ''shop'' \<noteq> [] \<and>
      getRepository ?sg ''acme'' ''shop'' (world initialState) = (Inr None, 1)"
    by (simp add: searchingGitHub_def sampleGitHub_def initialState_def)
  note sg_lookup = findRepository_precedence
      [where gh = "?sg" and full = "''acme/shop''" and ow = "''acme''" and repo = "''shop''"
         and segs = "[]" and s = initialState and w' = 1,
         THEN conjunct2, THEN conjunct2, THEN conjunct2, THEN conjunct2, THEN conjunct2,
         THEN conjunct1, THEN mp, OF sg_null]
  have sg_exhausted: "firstSuccess (map (getRepositoryInfo ?sg) (lookupTargets None ?plain scanTrace))
      initialState = (Inr None, ?t1)"
    using sg_lookup by (simp add: plain_targets bindP_apply returnP_def initialState_def)
  note sg_search = findRepository_precedence
      [where gh = "?sg" and maps = None and error = "?plain" and st = scanTrace
         and s = initialState and ?s1.0 = "?t1",
         THEN conjunct2, THEN conjunct2, THEN conjunct2, THEN conjunct1, THEN mp,
         OF sg_exhausted]
  have sg_hyp: "searchTerms ?plain scanTrace \<noteq> [] \<and>
      searchRepositories ?sg (join '' '' (searchTerms ?plain scanTrace)) (world ?t1) =
        (Inr (?hit # []), 2)"
    by (simp add: terms searchingGitHub_def sampleGitHub_def)
  note sg_found = findRepository_precedence
      [where gh = "?sg" and error = "?plain" and st = scanTrace and s = "?t1" and w' = 2
         and r = "?hit" and rs = "[]",
         THEN conjunct2, THEN conjunct2, THEN conjunct2, THEN conjunct2, THEN conjunct2,
         THEN conjunct2, THEN conjunct2, THEN conjunct2, THEN conjunct2, THEN conjunct1,
         THEN mp, OF sg_hyp]
  have fifth: "findRepository ?sg None ?plain scanTrace initialState =
     (Inr (Some \<lparr>owner = ''found'', name = ''svc'', fullName = ''found/svc'',
                  url = ''https://github.com/found/svc'', defaultBranch = ''main''\<rparr>),
      \<lparr>world = 2,
       calls = [GetRepository ''acme'' ''shop'' (Inr None),
                SearchRepositories ''user-service a'' (Inr [?hit])]\<rparr>)"
  proof -
    have "searchForRepository ?sg ?plain scanTrace ?t1 =
       (Inr (Some \<lparr>owner = ''found'', name = ''svc'', fullName = ''found/svc'',
                    url = ''https://github.com/found/svc'', defaultBranch = ''main''\<rparr>),
        \<lparr>world = 2,
         calls = [GetRepository ''acme'' ''shop'' (Inr None),
                  SearchRepositories ''user-service a'' (Inr [?hit])]\<rparr>)"
      using sg_found by (simp add: terms)
    then show ?thesis by (simp only: sg_search)
  qed

  text \<open>The search finds nothing: not-found.\<close>
  let ?eg = "searchingGitHub [] []"
  have eg_null: "split_on CHR ''/'' ''acme/shop'' = ''acme'' # ''shop'' # [] \<and>
      ''acme'' \<noteq> [] \<and> ''shop'' \<noteq> [] \<and>
      getRepository ?eg ''acme'' ''shop'' (world initialState) = (Inr None, 1)"
    by (simp add: searchingGitHub_def sampleGitHub_def initialState_def)
  note eg_lookup = findRepository_precedence
      [where gh = "?eg" and full = "''acme/shop''" and ow = "''acme''" and repo = "''shop''"
         and segs = "[]" and s = initialState and w' = 1,
         THEN conjunct2, THEN conjunct2, THEN conjunct2, THEN conjunct2, THEN conjunct2,
         THEN conjunct1, THEN mp, OF eg_null]
  have eg_exhausted: "firstSuccess (map (getRepositoryInfo ?eg) (lookupTargets None ?plain scanTrace))
      initialState = (Inr None, ?t1)"
    using eg_lookup by (simp add: plain_targets bindP_apply returnP_def initialState_def)
  note eg_search = findRepository_precedence
      [where gh = "?eg" and maps = None and error = "?plain" and st = scanTrace
         and s = initialState and ?s1.0 = "?t1",
         THEN conjunct2, THEN conjunct2, THEN conjunct2, THEN conjunct1, THEN mp,
         OF eg_exhausted]
  have eg_hyp: "searchTerms ?plain scanTrace \<noteq> [] \<and>
      searchRepositories ?eg (join '' '' (searchTerms ?plain scanTrace)) (world ?t1) =
        (Inr [], 2)"
    by (simp add: terms searchingGitHub_def sampleGitHub_def)
  note eg_empty = findRepository_precedence
      [where gh = "?eg" and error = "?plain" and st = scanTrace and s = "?t1" and w' = 2,
         THEN conjunct2, THEN conjunct2, THEN conjunct2, THEN conjunct2, THEN conjunct2,
         THEN conjunct2, THEN conjunct2, THEN conjunct2, THEN conjunct2, THEN conjunct2,
         THEN mp, OF eg_hyp]
  have sixth: "findRepository ?eg None ?plain scanTrace initialState =
     (Inr None,
      \<lparr>world = 2,
       calls = [GetRepository ''acme'' ''shop'' (Inr None),
                SearchRepositories ''user-service a'' (Inr [])]\<rparr>)"
  proof -
    have "searchForRepository ?eg ?plain scanTrace ?t1 =
       (Inr None,
        \<lparr>world = 2,
         calls = [GetRepository ''acme'' ''shop'' (Inr None),
                  SearchRepositories ''user-service a'' (Inr [])]\<rparr>)"
      using eg_empty by (simp add: terms)
    then show ?thesis by (simp only: eg_search)
  qed

  text \<open>Nothing to look up and nothing to search for: not-found, and no call.\<close>
  let ?blank = "sampleError ''err-005'' [] [] None"
  have blank_targets: "lookupTargets None ?blank (parse [] None) = []"
    by (simp add: lookupTargets_def hintTargets_def mappingTargets_def stackTargets_def
          sampleError_def empty_trace)
  have blank_exhausted: "firstSuccess (map (getRepositoryInfo ?eg)
      (lookupTargets None ?blank (parse [] None))) initialState = (Inr None, initialState)"
    by (simp add: blank_targets returnP_def)
  note blank_search = findRepository_precedence
      [where gh = "?eg" and maps = None and error = "?blank" and st = "parse [] None"
         and s = initialState and ?s1.0 = initialState,
         THEN conjunct2, THEN conjunct2, THEN conjunct2, THEN conjunct1, THEN mp,
         OF blank_exhausted]
  have blank_terms: "searchTerms ?blank (parse [] None) = []"
    by (simp add: searchTerms_def sampleError_def empty_trace)
  note blank_none = findRepository_precedence
      [where gh = "?eg" and error = "?blank" and st = "parse [] None" and s = initialState,
         THEN conjunct2, THEN conjunct2, THEN conjunct2, THEN conjunct2, THEN conjunct2,
         THEN conjunct2, THEN conjunct2, THEN conjunct1, THEN mp, OF blank_terms]
  have seventh: "findRepository ?eg None ?blank (parse [] None) initialState =
      (Inr None, initialState)"
    by (simp only: blank_search blank_none)

  have one: "findRepository ?gh (Some [''user-service'' \<mapsto> ''other/repo'']) ?good
      (parse [] None) initialState =
     (Inr (Some \<lparr>owner = ''myorg'', name = ''user-service'', fullName = ''myorg/user-service'',
                  url = ''https://github.com/myorg/user-service'', defaultBranch = ''main''\<rparr>),
      \<lparr>world = 1, calls = [GetRepository ''myorg'' ''user-service'' (Inr (Some ?rd))]\<rparr>)"
    using first by (simp add: initialState_def)
  have bad_none: "getRepositoryInfo ?gh ''/user-service'' initialState = (Inr None, initialState)"
    by (rule malformed [THEN conjunct1])
  show ?thesis
    apply (intro conjI)
            apply (rule one)
           apply (rule targets)
          apply (rule second)
         apply (rule third)
        apply (rule bad_none)
       apply (rule fourth)
      apply (rule terms)
     apply (rule fifth)
    apply (rule sixth)
    apply (rule seventh)
    done
qed

subsection \<open>Severity mapping\<close>

text \<open>
  Claim C5, as amended. The severity-to-priority mapping used when creating the ticket is
  the fixed total function critical to 1, error to 2, warning to 3, info to 4, with the
  parallel labels 1 - Critical, 2 - High, 3 - Medium, 4 - Low; the ticket's priority and
  label are these two functions of the error's severity. The mapping rejects no value:
  every other severity, a text that is none of the four or \<open>undefined\<close>, takes the
  \<open>default\<close> branch and maps to priority 2 and label 2 - High.
\<close>

theorem severity_mapping_with_default:
  "mapErrorSeverityToBugPriority (Some ''critical'') = 1 \<and>
   mapErrorSeverityToBugPriority (Some ''error'') = 2 \<and>
   mapErrorSeverityToBugPriority (Some ''warning'') = 3 \<and>
   mapErrorSeverityToBugPriority (Some ''info'') = 4 \<and>
   mapErrorSeverityToBugSeverity (Some ''critical'') = ''1 - Critical'' \<and>
   mapErrorSeverityToBugSeverity (Some ''error'') = ''2 - High'' \<and>
   mapErrorSeverityToBugSeverity (Some ''warning'') = ''3 - Medium'' \<and>
   mapErrorSeverityToBugSeverity (Some ''info'') = ''4 - Low'' \<and>
   (\<forall>sev. sev \<notin> {Some ''critical'', Some ''error'', Some ''warning'', Some ''info''} \<longrightarrow>
      mapErrorSeverityToBugPriority sev = 2 \<and>
      mapErrorSeverityToBugSeverity sev = ''2 - High'') \<and>
   bug_priority (bugInput cfg error st repoInfo areaPath) =
     Some (mapErrorSeverityToBugPriority (severity error)) \<and>
   bug_severity (bugInput cfg error st repoInfo areaPath) =
     Some (mapErrorSeverityToBugSeverity (severity error))"
  by (simp add: mapErrorSeverityToBugPriority_def mapErrorSeverityToBugSeverity_def
        bugInput_def)

theorem severity_mapping_with_default_witness:
  "None \<notin> {Some ''critical'', Some ''error'', Some ''warning'', Some ''info''} \<and>
   mapErrorSeverityToBugPriority None = 2 \<and>
   mapErrorSeverityToBugSeverity None = ''2 - High'' \<and>
   Some ''CRITICAL'' \<notin> {Some ''critical'', Some ''error'', Some ''warning'', Some ''info''} \<and>
   mapErrorSeverityToBugPriority (Some ''CRITICAL'') = 2 \<and>
   mapErrorSeverityToBugSeverity (Some ''CRITICAL'') = ''2 - High''"
proof -
  note fallback =
    severity_mapping_with_default [where cfg = "sampleConfig None"
      and error = "sampleError ''e1'' ''svc'' [] None"
      and st = "parse [] None" and repoInfo = "sampleRepo ''acme'' ''shop''"
      and areaPath = None,
      THEN conjunct2, THEN conjunct2, THEN conjunct2, THEN conjunct2, THEN conjunct2,
      THEN conjunct2, THEN conjunct2, THEN conjunct2, THEN conjunct1]
  have absent: "None \<notin> {Some ''critical'', Some ''error'', Some ''warning'', Some ''info''}"
    by simp
  have upper: "Some ''CRITICAL'' \<notin> {Some ''critical'', Some ''error'', Some ''warning'', Some ''info''}"
    by simp
  from fallback [THEN spec, of None, THEN mp, OF absent]
    fallback [THEN spec, of "Some ''CRITICAL''", THEN mp, OF upper] absent upper
  show ?thesis by simp
qed

text \<open>The claim as the specification words it fails: the mapping accepts a severity that
  is none of the four, here the text \<open>fatal\<close>, and gives it a priority and a label.\<close>

theorem severity_mapping_accepts_other_counterexample:
  "Some ''fatal'' \<notin> {Some ''critical'', Some ''error'', Some ''warning'', Some ''info''} \<and>
   mapErrorSeverityToBugPriority (Some ''fatal'') = 2 \<and>
   mapErrorSeverityToBugSeverity (Some ''fatal'') = ''2 - High''"
  by (simp add: mapErrorSeverityToBugPriority_def mapErrorSeverityToBugSeverity_def)

subsection \<open>Area path\<close>

text \<open>
  Claim C8, as the code has it. With a project configured (present and not empty), the
  area path is the project, a backslash and the area of the first keyword of the table
  that the lower-cased source includes; when the source includes no keyword, the same
  with the lower-cased repository short name; when neither includes a keyword, the area
  path is the project itself (the project root), not undefined. The area path is
  undefined only when no project is configured.
\<close>

theorem determineAreaPath_first_match:
  "(devOpsProject cfg = None \<or> devOpsProject cfg = Some [] \<longrightarrow>
      determineAreaPath cfg error repoInfo = None) \<and>
   (devOpsProject cfg = Some project \<and> project \<noteq> [] \<longrightarrow>
      (sourceToArea = pre @ (k, a) # post \<and>
       (\<forall>p\<in>set pre. \<not> includes_str (toLowerCase (source error)) (fst p)) \<and>
       includes_str (toLowerCase (source error)) k \<longrightarrow>
         determineAreaPath cfg error repoInfo = Some (project @ [backslash] @ a)) \<and>
      ((\<forall>p\<in>set sourceToArea. \<not> includes_str (toLowerCase (source error)) (fst p)) \<and>
       sourceToArea = pre @ (k, a) # post \<and>
       (\<forall>p\<in>set pre. \<not> includes_str (toLowerCase (name repoInfo)) (fst p)) \<and>
       includes_str (toLowerCase (name repoInfo)) k \<longrightarrow>
         determineAreaPath cfg error repoInfo = Some (project @ [backslash] @ a)) \<and>
      ((\<forall>p\<in>set sourceToArea. \<not> includes_str (toLowerCase (source error)) (fst p)) \<and>
       (\<forall>p\<in>set sourceToArea. \<not> includes_str (toLowerCase (name repoInfo)) (fst p)) \<longrightarrow>
         determineAreaPath cfg error repoInfo = Some project))"
proof -
  have none: "devOpsProject cfg = None \<or> devOpsProject cfg = Some [] \<Longrightarrow>
      determineAreaPath cfg error repoInfo = None"
    by (auto simp: determineAreaPath_def)
  have src: "determineAreaPath cfg error repoInfo = Some (project @ [backslash] @ a)"
    if "devOpsProject cfg = Some project" "project \<noteq> []"
      "sourceToArea = pre @ (k, a) # post"
      "\<forall>p\<in>set pre. \<not> includes_str (toLowerCase (source error)) (fst p)"
      "includes_str (toLowerCase (source error)) k"
    using that firstArea_first_match [OF that(3) that(4) that(5)]
    by (simp add: determineAreaPath_def)
  have repo: "determineAreaPath cfg error repoInfo = Some (project @ [backslash] @ a)"
    if "devOpsProject cfg = Some project" "project \<noteq> []"
      "\<forall>p\<in>set sourceToArea. \<not> includes_str (toLowerCase (source error)) (fst p)"
      "sourceToArea = pre @ (k, a) # post"
      "\<forall>p\<in>set pre. \<not> includes_str (toLowerCase (name repoInfo)) (fst p)"
      "includes_str (toLowerCase (name repoInfo)) k"
    using that(1,2) firstArea_no_match [OF that(3)]
      firstArea_first_match [OF that(4) that(5) that(6)]
    by (simp add: determineAreaPath_def)
  have root: "determineAreaPath cfg error repoInfo = Some project"
    if "devOpsProject cfg = Some project" "project \<noteq> []"
      "\<forall>p\<in>set sourceToArea. \<not> includes_str (toLowerCase (source error)) (fst p)"
      "\<forall>p\<in>set sourceToArea. \<not> includes_str (toLowerCase (name repoInfo)) (fst p)"
    using that(1,2) firstArea_no_match [OF that(3)] firstArea_no_match [OF that(4)]
    by (simp add: determineAreaPath_def)
  show ?thesis using none src repo root by blast
qed

theorem determineAreaPath_first_match_witness:
  "determineAreaPath (sampleConfig None) (sampleError ''e1'' ''Web-Portal'' [] None)
     (sampleRepo ''myorg'' ''user-service-api'') = None \<and>
   determineAreaPath (sampleConfig (Some ''Shop'')) (sampleError ''e1'' ''Web-Portal'' [] None)
     (sampleRepo ''myorg'' ''user-service-api'') = Some (''Shop'' @ [backslash] @ ''Frontend'') \<and>
   determineAreaPath (sampleConfig (Some ''Shop'')) (sampleError ''e1'' ''Billing'' [] None)
     (sampleRepo ''myorg'' ''User-Service-Api'') = Some (''Shop'' @ [backslash] @ ''User Management'') \<and>
   determineAreaPath (sampleConfig (Some ''Shop'')) (sampleError ''e1'' ''Billing'' [] None)
     (sampleRepo ''myorg'' ''ledger'') = Some ''Shop''"
proof -
  let ?web = "sampleError ''e1'' ''Web-Portal'' [] None"
  let ?bill = "sampleError ''e1'' ''Billing'' [] None"
  let ?user = "sampleRepo ''myorg'' ''User-Service-Api''"
  have split_web: "sourceToArea = take 9 sourceToArea @ (''web'', ''Frontend'') # drop 10 sourceToArea"
    by (simp add: sourceToArea_def)
  have split_user: "sourceToArea = [] @ (''user-service'', ''User Management'') # drop 1 sourceToArea"
    by (simp add: sourceToArea_def)
  have web_first: "\<forall>p\<in>set (take 9 sourceToArea). \<not> includes_str (toLowerCase (source ?web)) (fst p)"
    by code_simp
  have web_hit: "includes_str (toLowerCase (source ?web)) ''web''"
    by code_simp
  have bill_none: "\<forall>p\<in>set sourceToArea. \<not> includes_str (toLowerCase (source ?bill)) (fst p)"
    by code_simp
  have user_hit: "includes_str (toLowerCase (name ?user)) ''user-service''"
    by code_simp
  have ledger_none:
    "\<forall>p\<in>set sourceToArea. \<not> includes_str (toLowerCase (name (sampleRepo ''myorg'' ''ledger''))) (fst p)"
    by code_simp
  have proj: "devOpsProject (sampleConfig (Some ''Shop'')) = Some ''Shop'' \<and> ''Shop'' \<noteq> []"
    by (simp add: sampleConfig_def)
  have noproj: "devOpsProject (sampleConfig None) = None"
    by (simp add: sampleConfig_def)
  show ?thesis
    using determineAreaPath_first_match
        [where cfg = "sampleConfig None" and error = "?web"
           and repoInfo = "sampleRepo ''myorg'' ''user-service-api''"]
      determineAreaPath_first_match
        [where cfg = "sampleConfig (Some ''Shop'')" and project = "''Shop''" and error = "?web"
           and repoInfo = "sampleRepo ''myorg'' ''user-service-api''"
           and pre = "take 9 sourceToArea" and k = "''web''" and a = "''Frontend''"
           and post = "drop 10 sourceToArea"]
      determineAreaPath_first_match
        [where cfg = "sampleConfig (Some ''Shop'')" and project = "''Shop''" and error = "?bill"
           and repoInfo = "?user" and pre = "[]" and k = "''user-service''"
           and a = "''User Management''" and post = "drop 1 sourceToArea"]
      determineAreaPath_first_match
        [where cfg = "sampleConfig (Some ''Shop'')" and project = "''Shop''" and error = "?bill"
           and repoInfo = "sampleRepo ''myorg'' ''ledger''"]
      split_web split_user web_first web_hit bill_none user_hit ledger_none proj noproj
    by simp
qed

text \<open>The claim as the specification words it fails: with a project configured and no
  keyword in the source or in the repository name, the area path is the project.\<close>

theorem determineAreaPath_no_match_counterexample:
  "firstArea sourceToArea (toLowerCase (source (sampleError ''e1'' ''Billing'' [] None))) = None \<and>
   firstArea sourceToArea (toLowerCase (name (sampleRepo ''myorg'' ''ledger''))) = None \<and>
   determineAreaPath (sampleConfig (Some ''Shop'')) (sampleError ''e1'' ''Billing'' [] None)
     (sampleRepo ''myorg'' ''ledger'') \<noteq> None"
  by code_simp

subsection \<open>The workflow: results\<close>

lemma bindP_InrE:
  assumes "bindP m f s = (Inr r, s')"
  obtains x s1 where "m s = (Inr x, s1)" "f x s1 = (Inr r, s')"
  using assms by (auto simp: bindP_apply split: prod.splits sum.splits)

lemma throwP_not_Inr: "throwP e s = (Inr r, s') \<Longrightarrow> P"
  by (simp add: throwP_def)

lemma tryBlock_result:
  assumes "tryBlock orch error st = (Inr r, st')"
  shows "success r \<and> errorId r = id_err error \<and> fr_errorMessage r = None"
  using assms unfolding tryBlock_def Let_def
  apply (elim bindP_InrE)
  apply (simp split: option.splits)
   apply (erule throwP_not_Inr)
  apply (elim bindP_InrE)
  apply (simp split: if_splits)
   apply (erule throwP_not_Inr)
  apply (elim bindP_InrE)
  apply (simp add: returnP_def)
  apply auto
  done

text \<open>The notification never fails, and it is sent when the message can be read.\<close>

lemma handleWorkflowError_run:
  "\<exists>s'. handleWorkflowError orch error stg err s = (Inr (), s') \<and>
     calls s' = calls s @
       (case readMessage err of
          Inl typeError \<Rightarrow> []
        | Inr msg \<Rightarrow> [SendErrorNotification (errorNotification orch error stg msg)])"
proof (cases "readMessage err")
  case (Inl typeError)
  then show ?thesis
    by (simp add: handleWorkflowError_def catchP_def throwP_def returnP_def)
next
  case (Inr msg)
  let ?note = "errorNotification orch error stg msg"
  obtain out w' where "sendErrorNotification (teamsAdapter orch) ?note (world s) = (out, w')"
    by (cases "sendErrorNotification (teamsAdapter orch) ?note (world s)")
  with Inr show ?thesis
    by (cases out) (simp_all add: handleWorkflowError_def catchP_def invoke_def returnP_def)
qed

lemma readClock_run: "\<exists>t s'. readClock orch s = (Inr t, s') \<and> calls s' = calls s"
  by (cases "now orch (world s)") (simp add: readClock_def)

text \<open>What \<open>processError\<close> does with the outcome of its \<open>try\<close> block.\<close>

lemma processError_cases:
  assumes clock: "readClock orch s = (Inr started, s0)"
    and body: "tryBlock orch error
        (\<lparr>stage = Initializing, progress = 0, status_message = ''Starting error processing'',
          startTime = started, endTime = None, status_error = None\<rparr>, s0) = (out, (status, s1))"
  shows "case out of
           Inr result \<Rightarrow> processError orch error s = (Inr result, s1)
         | Inl err \<Rightarrow>
             (\<exists>s2. handleWorkflowError orch error (stage_name (stage status)) err
                      (s1\<lparr>calls := calls s1 @ [LoggerError (id_err error) err (stage status)]\<rparr>) =
                      (Inr (), s2) \<and>
                (case readMessage err of
                   Inl typeError \<Rightarrow> processError orch error s = (Inl typeError, s2)
                 | Inr msg \<Rightarrow>
                     (\<exists>finished s3. readClock orch s2 = (Inr finished, s3) \<and>
                        processError orch error s = (Inr (failedResult error msg finished), s3))))"
proof (cases out)
  case (Inr result)
  with clock body show ?thesis
    by (simp add: processError_def bindP_apply Let_def)
next
  case (Inl err)
  let ?s1 = "s1\<lparr>calls := calls s1 @ [LoggerError (id_err error) err (stage status)]\<rparr>"
  obtain s2 where h: "handleWorkflowError orch error (stage_name (stage status)) err ?s1 = (Inr (), s2)"
    using handleWorkflowError_run [of orch error "stage_name (stage status)" err ?s1] by blast
  obtain finished s3 where c: "readClock orch s2 = (Inr finished, s3)"
    using readClock_run [of orch s2] by blast
  from Inl clock body h c show ?thesis
    by (cases "readMessage err")
      (simp_all add: processError_def bindP_apply Let_def returnP_def throwP_def)
qed

text \<open>A result that \<open>processError\<close> returns: it is the result of the error processed, a
  success carries no message, and a failure has no repository and no branch.\<close>

lemma processError_returns:
  assumes run: "processError orch error s = (Inr r, s')"
  shows "errorId r = id_err error \<and> (success r \<longrightarrow> fr_errorMessage r = None) \<and>
     (\<not> success r \<longrightarrow> fr_repository r = [] \<and> fr_branch r = [] \<and> modifiedFiles r = [] \<and>
        fixSummary r = [])"
proof -
  obtain started s0 where clock: "readClock orch s = (Inr started, s0)"
    using readClock_run [of orch s] by blast
  let ?status0 = "\<lparr>stage = Initializing, progress = 0, status_message = ''Starting error processing'',
      startTime = started, endTime = None, status_error = None\<rparr>"
  obtain out status s1 where body: "tryBlock orch error (?status0, s0) = (out, (status, s1))"
    by (cases "tryBlock orch error (?status0, s0)") auto
  note outcome = processError_cases [OF clock body]
  show ?thesis
  proof (cases out)
    case (Inr result)
    with outcome run have "r = result" by simp
    moreover from body Inr have "success result \<and> errorId result = id_err error \<and>
        fr_errorMessage result = None"
      using tryBlock_result by blast
    ultimately show ?thesis by simp
  next
    case (Inl err)
    with outcome run obtain msg finished where "r = failedResult error msg finished"
      by (cases "readMessage err") auto
    then show ?thesis by (simp add: failedResult_def)
  qed
qed

text \<open>\<open>processError\<close> rejects only with the \<open>TypeError\<close> of reading the message of
  \<open>undefined\<close> or \<open>null\<close>.\<close>

lemma processError_rejects:
  assumes run: "processError orch error s = (Inl t, s')"
  shows "\<exists>err. readMessage err = Inl t"
proof -
  obtain started s0 where clock: "readClock orch s = (Inr started, s0)"
    using readClock_run [of orch s] by blast
  let ?status0 = "\<lparr>stage = Initializing, progress = 0, status_message = ''Starting error processing'',
      startTime = started, endTime = None, status_error = None\<rparr>"
  obtain out status s1 where body: "tryBlock orch error (?status0, s0) = (out, (status, s1))"
    by (cases "tryBlock orch error (?status0, s0)") auto
  note outcome = processError_cases [OF clock body]
  show ?thesis
  proof (cases out)
    case (Inr result)
    with outcome run show ?thesis by simp
  next
    case (Inl err)
    with outcome run show ?thesis by (cases "readMessage err") auto
  qed
qed

subsection \<open>The workflow: stages\<close>

lemma stageEvents_append: "stageEvents (xs @ ys) = stageEvents xs @ stageEvents ys"
  by (induction xs rule: stageEvents.induct) auto

lemma stageEvents_resolverCalls: "list_all resolverCall cs \<Longrightarrow> stageEvents cs = []"
proof (induction cs)
  case Nil
  show ?case by simp
next
  case (Cons c cs)
  then show ?case by (cases c) auto
qed

lemma noStageCalls_invoke:
  "(\<And>out. stageEvents [ev out] = []) \<Longrightarrow> noStageCalls (invoke f ev)"
  unfolding noStageCalls_def invoke_def
  by (auto split: prod.splits)

lemma noStageCalls_readClock: "noStageCalls (readClock orch)"
  unfolding noStageCalls_def readClock_def by (auto split: prod.splits)

lemma noStageCalls_findRepository: "noStageCalls (findRepository gh maps error st)"
  unfolding noStageCalls_def
proof (intro allI impI)
  fix s out s'
  assume "findRepository gh maps error st s = (out, s')"
  from findRepository_trace [OF this] obtain cs where "calls s' = calls s @ cs" "list_all resolverCall cs"
    by (elim exE conjE)
  then show "\<exists>cs. calls s' = calls s @ cs \<and> stageEvents cs = []"
    using stageEvents_resolverCalls by blast
qed

lemma endsAtStage_return: "lo \<le> k \<Longrightarrow> k \<le> 7 \<Longrightarrow> endsAtStage base (returnP x) k lo"
  unfolding endsAtStage_def returnP_def by auto

lemma endsAtStage_throw: "lo \<le> k \<Longrightarrow> k \<le> 7 \<Longrightarrow> endsAtStage base (throwP e) k lo"
  unfolding endsAtStage_def throwP_def by auto

lemma endsAtStage_setStatus:
  assumes "k < 7" "workflowStages ! k = stg" "\<And>x. endsAtStage base (f x) (Suc k) lo"
  shows "endsAtStage base (bindP (setStatus stg p msg) f) k lo"
  unfolding endsAtStage_def
proof (intro allI impI)
  fix st out st'
  assume at: "atStage base k st" and run: "bindP (setStatus stg p msg) f st = (out, st')"
  obtain status s where st: "st = (status, s)" by (cases st)
  let ?st1 = "(status\<lparr>stage := stg, progress := p, status_message := msg\<rparr>,
      s\<lparr>calls := calls s @ [LoggerDebug stg p msg]\<rparr>)"
  from run st have f: "f () ?st1 = (out, st')"
    by (simp add: bindP_apply setStatus_def updateStatus_def)
  from at st obtain cs where cs: "calls s = base @ cs" "stageEvents cs = map StageSet (take k workflowStages)"
    by (auto simp: atStage_def)
  have len: "k < length workflowStages"
    using assms(1) by (simp add: workflowStages_def)
  have "take (Suc k) workflowStages = take k workflowStages @ [stg]"
    using take_Suc_conv_app_nth [OF len] assms(2) by simp
  then have "stageEvents (cs @ [LoggerDebug stg p msg]) = map StageSet (take (Suc k) workflowStages)"
    using cs(2) by (simp add: stageEvents_append)
  with cs(1) assms(2) have "atStage base (Suc k) ?st1"
    by (auto simp: atStage_def)
  with assms(3) f show "\<exists>j. lo \<le> j \<and> j \<le> 7 \<and> atStage base j st'"
    unfolding endsAtStage_def by blast
qed

lemma endsAtStage_step:
  assumes "lo \<le> k" "k \<le> 7" "noStageCalls m" "\<And>x. endsAtStage base (f x) k lo"
  shows "endsAtStage base (bindP (step m) f) k lo"
  unfolding endsAtStage_def
proof (intro allI impI)
  fix st out st'
  assume at: "atStage base k st" and run: "bindP (step m) f st = (out, st')"
  obtain status s where st: "st = (status, s)" by (cases st)
  obtain r1 s1 where m: "m s = (r1, s1)" by (cases "m s")
  from assms(3) m obtain cs1 where cs1: "calls s1 = calls s @ cs1" "stageEvents cs1 = []"
    unfolding noStageCalls_def by blast
  from at st cs1 have at1: "atStage base k (status, s1)"
    by (auto simp: atStage_def stageEvents_append)
  show "\<exists>j. lo \<le> j \<and> j \<le> 7 \<and> atStage base j st'"
  proof (cases r1)
    case (Inl e)
    with run st m have "st' = (status, s1)"
      by (simp add: bindP_apply step_def)
    with at1 assms(1,2) show ?thesis by blast
  next
    case (Inr x)
    with run st m have "f x (status, s1) = (out, st')"
      by (simp add: bindP_apply step_def)
    with assms(4) at1 show ?thesis
      unfolding endsAtStage_def by blast
  qed
qed

lemma tryBlock_stages: "endsAtStage base (tryBlock orch error) 0 1"
  unfolding tryBlock_def Let_def
  apply (rule endsAtStage_setStatus, simp, simp add: workflowStages_def)
  apply (rule endsAtStage_step, simp, simp, rule noStageCalls_findRepository)
  apply (simp split: option.split, intro conjI allI impI)
   apply (rule endsAtStage_throw, simp, simp)
  apply (rule endsAtStage_setStatus, simp, simp add: workflowStages_def)
  apply (rule endsAtStage_step, simp, simp, rule noStageCalls_invoke, simp)
  apply (rule endsAtStage_setStatus, simp, simp add: workflowStages_def)
  apply (rule endsAtStage_step, simp, simp, rule noStageCalls_invoke, simp)
  apply (rule endsAtStage_setStatus, simp, simp add: workflowStages_def)
  apply (rule endsAtStage_step, simp, simp, rule noStageCalls_invoke, simp)
  apply (simp split: if_split, intro conjI allI impI)
   apply (rule endsAtStage_throw, simp, simp)
  apply (rule endsAtStage_setStatus, simp, simp add: workflowStages_def)
  apply (rule endsAtStage_step, simp, simp, rule noStageCalls_invoke, simp)
  apply (rule endsAtStage_step, simp, simp, rule noStageCalls_invoke, simp)
  apply (rule endsAtStage_step, simp, simp, rule noStageCalls_invoke, simp)
  apply (rule endsAtStage_setStatus, simp, simp add: workflowStages_def)
  apply (rule endsAtStage_step, simp, simp, rule noStageCalls_invoke, simp)
  apply (rule endsAtStage_setStatus, simp, simp add: workflowStages_def)
  apply (rule endsAtStage_step, simp, simp, rule noStageCalls_invoke, simp)
  apply (rule endsAtStage_step, simp, simp, rule noStageCalls_readClock)
  apply (rule endsAtStage_step, simp, simp, rule noStageCalls_invoke, simp)
  apply (rule endsAtStage_step, simp, simp, rule noStageCalls_readClock)
  apply (rule endsAtStage_return, simp, simp)
  done


text \<open>A run sets the stages in order; when it fails it logs the stage set last, and names
  that stage in the notification it sends.\<close>

lemma processError_stages:
  assumes run: "processError orch error s = (res, s')"
  shows "\<exists>cs j. calls s' = calls s @ cs \<and> 1 \<le> j \<and> j \<le> 7 \<and>
     (stageEvents cs = map StageSet (take j workflowStages) \<or>
      stageEvents cs = map StageSet (take j workflowStages) @
        [StageLogged ((Initializing # workflowStages) ! j)] \<or>
      stageEvents cs = map StageSet (take j workflowStages) @
        [StageLogged ((Initializing # workflowStages) ! j),
         StageNotified (stage_name ((Initializing # workflowStages) ! j))])"
proof -
  obtain started s0 where clock: "readClock orch s = (Inr started, s0)" "calls s0 = calls s"
    using readClock_run [of orch s] by blast
  let ?status0 = "\<lparr>stage = Initializing, progress = 0, status_message = ''Starting error processing'',
      startTime = started, endTime = None, status_error = None\<rparr>"
  obtain out status s1 where body: "tryBlock orch error (?status0, s0) = (out, (status, s1))"
    by (cases "tryBlock orch error (?status0, s0)") auto
  have "atStage (calls s) 0 (?status0, s0)"
    using clock(2) by (simp add: atStage_def)
  with tryBlock_stages [of "calls s" orch error] body
  obtain j where j: "1 \<le> j \<and> j \<le> 7" "atStage (calls s) j (status, s1)"
    unfolding endsAtStage_def by blast
  then obtain cs where cs: "calls s1 = calls s @ cs"
    "stageEvents cs = map StageSet (take j workflowStages)"
    "stage status = (Initializing # workflowStages) ! j"
    by (auto simp: atStage_def)
  note outcome = processError_cases [OF clock(1) body]
  show ?thesis
  proof (cases out)
    case (Inr result)
    with outcome run have "s' = s1" by simp
    with cs j(1) show ?thesis by blast
  next
    case (Inl err)
    let ?s1 = "s1\<lparr>calls := calls s1 @ [LoggerError (id_err error) err (stage status)]\<rparr>"
    from Inl outcome obtain s2 where
      h: "handleWorkflowError orch error (stage_name (stage status)) err ?s1 = (Inr (), s2)"
      and rest: "case readMessage err of
                   Inl typeError \<Rightarrow> processError orch error s = (Inl typeError, s2)
                 | Inr msg \<Rightarrow>
                     (\<exists>finished s3. readClock orch s2 = (Inr finished, s3) \<and>
                        processError orch error s = (Inr (failedResult error msg finished), s3))"
      by auto
    from handleWorkflowError_run [of orch error "stage_name (stage status)" err ?s1] h
    have n: "calls s2 = calls ?s1 @
       (case readMessage err of
          Inl typeError \<Rightarrow> []
        | Inr msg \<Rightarrow> [SendErrorNotification
                         (errorNotification orch error (stage_name (stage status)) msg)])"
      by auto
    show ?thesis
    proof (cases "readMessage err")
      case (Inl typeError)
      with rest run have "s' = s2" by simp
      with n Inl cs(1) have "calls s' = calls s @ (cs @ [LoggerError (id_err error) err (stage status)])"
        by simp
      moreover have "stageEvents (cs @ [LoggerError (id_err error) err (stage status)]) =
          map StageSet (take j workflowStages) @ [StageLogged ((Initializing # workflowStages) ! j)]"
        using cs(2,3) by (simp add: stageEvents_append)
      ultimately show ?thesis using j(1) by blast
    next
      case (Inr msg)
      let ?notice = "errorNotification orch error (stage_name (stage status)) msg"
      from Inr rest run obtain finished where c: "readClock orch s2 = (Inr finished, s')"
        by auto
      from readClock_run [of orch s2] c have "calls s' = calls s2" by auto
      with n Inr cs(1) have "calls s' = calls s @
          (cs @ [LoggerError (id_err error) err (stage status), SendErrorNotification ?notice])"
        by simp
      moreover have "stageEvents (cs @ [LoggerError (id_err error) err (stage status),
            SendErrorNotification ?notice]) =
          map StageSet (take j workflowStages) @
            [StageLogged ((Initializing # workflowStages) ! j),
             StageNotified (stage_name ((Initializing # workflowStages) ! j))]"
        using cs(2,3) by (simp add: stageEvents_append errorNotification_def)
      ultimately show ?thesis using j(1) by blast
    qed
  qed
qed

lemma resolutionStart_eq:
  "readClock orch s = (Inr started, s0) \<Longrightarrow>
   s0\<lparr>calls := calls s0 @ [LoggerDebug ParsingError 10 ''Parsing stack trace'']\<rparr> = resolutionStart orch s"
  by (cases "now orch (world s)") (auto simp: readClock_def resolutionStart_def)

text \<open>A run whose resolution fails or finds nothing: the failure is logged with the stage
  set last, \<open>parsing_error\<close>, the notification names that stage, and the run ends.\<close>

lemma processError_unresolved:
  assumes find: "findRepository (githubAdapter orch) None error
        (parse (stackTrace error) (Some (message error))) (resolutionStart orch s) = (out, s1)"
    and out: "out = Inr None \<and> err = JsError (''Could not identify repository for error '' @ id_err error)
              \<or> out = Inl err"
  shows "\<exists>res s3.
      processError orch error s = (res, s3) \<and>
      calls s3 = calls s1 @ LoggerError (id_err error) err ParsingError #
        (case readMessage err of
           Inl typeError \<Rightarrow> []
         | Inr msg \<Rightarrow> [SendErrorNotification (errorNotification orch error ''parsing_error'' msg)]) \<and>
      (case readMessage err of
         Inl typeError \<Rightarrow> res = Inl typeError
       | Inr msg \<Rightarrow> (\<exists>finished. res = Inr (failedResult error msg finished)))"
proof -
  obtain started s0 where clock: "readClock orch s = (Inr started, s0)"
    using readClock_run [of orch s] by blast
  let ?status0 = "\<lparr>stage = Initializing, progress = 0, status_message = ''Starting error processing'',
      startTime = started, endTime = None, status_error = None\<rparr>"
  let ?status1 = "?status0\<lparr>stage := ParsingError, progress := 10, status_message := ''Parsing stack trace''\<rparr>"
  let ?s1 = "s1\<lparr>calls := calls s1 @ [LoggerError (id_err error) err ParsingError]\<rparr>"
  note start = resolutionStart_eq [OF clock]
  have body: "tryBlock orch error (?status0, s0) = (Inl err, (?status1, s1))"
    using find out
    by (auto simp: tryBlock_def Let_def bindP_apply setStatus_def updateStatus_def step_def start throwP_def)
  from processError_cases [OF clock body]
  obtain s2 where
    h: "handleWorkflowError orch error (stage_name (stage ?status1)) err ?s1 = (Inr (), s2)"
    and rest: "case readMessage err of
                   Inl typeError \<Rightarrow> processError orch error s = (Inl typeError, s2)
                 | Inr msg \<Rightarrow>
                     (\<exists>finished s3. readClock orch s2 = (Inr finished, s3) \<and>
                        processError orch error s = (Inr (failedResult error msg finished), s3))"
    by auto
  from handleWorkflowError_run [of orch error "stage_name (stage ?status1)" err ?s1] h
  have a: "calls s2 = calls s1 @ LoggerError (id_err error) err ParsingError #
        (case readMessage err of
           Inl typeError \<Rightarrow> []
         | Inr msg \<Rightarrow> [SendErrorNotification (errorNotification orch error ''parsing_error'' msg)])"
    by (cases "readMessage err") auto
  show ?thesis
  proof (cases "readMessage err")
    case (Inl typeError)
    with rest a show ?thesis by auto
  next
    case (Inr msg)
    with rest obtain finished s3 where c: "readClock orch s2 = (Inr finished, s3)"
      and p: "processError orch error s = (Inr (failedResult error msg finished), s3)"
      by auto
    from readClock_run [of orch s2] c have "calls s3 = calls s2" by auto
    with a p Inr show ?thesis by auto
  qed
qed

subsection \<open>The workflow: what it rejects with\<close>

lemma rejectsWithErrors_returnP: "rejectsWithErrors (returnP x)"
  by (simp add: rejectsWithErrors_def returnP_def)

lemma rejectsWithErrors_throwP: "rejectsWithErrors (throwP (JsError m))"
  by (simp add: rejectsWithErrors_def throwP_def)

lemma rejectsWithErrors_bindP:
  assumes "rejectsWithErrors m" "\<And>x. rejectsWithErrors (f x)"
  shows "rejectsWithErrors (bindP m f)"
  unfolding rejectsWithErrors_def
proof (intro allI impI)
  fix s e s'
  assume run: "bindP m f s = (Inl e, s')"
  obtain r1 s1 where m: "m s = (r1, s1)" by (cases "m s")
  show "isErrorObject e"
  proof (cases r1)
    case (Inl e1)
    with run m have "e = e1" by (simp add: bindP_apply)
    with assms(1) m Inl show ?thesis unfolding rejectsWithErrors_def by blast
  next
    case (Inr x)
    with run m have "f x s1 = (Inl e, s')" by (simp add: bindP_apply)
    with assms(2) [of x] show ?thesis unfolding rejectsWithErrors_def by blast
  qed
qed

lemma rejectsWithErrors_invoke: "rejectsWithErrors f \<Longrightarrow> rejectsWithErrors (invoke f ev)"
  unfolding rejectsWithErrors_def invoke_def by (auto split: prod.splits)

lemma rejectsWithErrors_step: "rejectsWithErrors m \<Longrightarrow> rejectsWithErrors (step m)"
  unfolding rejectsWithErrors_def step_def by (auto split: prod.splits)

lemma rejectsWithErrors_setStatus: "rejectsWithErrors (setStatus stg p msg)"
  unfolding rejectsWithErrors_def setStatus_def updateStatus_def by (auto split: prod.splits)

lemma rejectsWithErrors_readClock: "rejectsWithErrors (readClock orch)"
  unfolding rejectsWithErrors_def readClock_def by (auto split: prod.splits)

lemma rejectsWithErrors_getRepositoryInfo:
  assumes "\<And>ow repo. rejectsWithErrors (getRepository gh ow repo)"
  shows "rejectsWithErrors (getRepositoryInfo gh full)"
  unfolding getRepositoryInfo_def
  by (auto split: list.splits option.splits
        intro!: rejectsWithErrors_returnP rejectsWithErrors_bindP rejectsWithErrors_invoke assms)

lemma rejectsWithErrors_searchForRepository: "rejectsWithErrors (searchForRepository gh error st)"
  using searchForRepository_run [of gh error st]
  unfolding rejectsWithErrors_def by fastforce

lemma rejectsWithErrors_firstSuccess:
  "(\<And>m. m \<in> set attempts \<Longrightarrow> rejectsWithErrors m) \<Longrightarrow> rejectsWithErrors (firstSuccess attempts)"
proof (induction attempts)
  case Nil
  show ?case by (simp add: rejectsWithErrors_returnP)
next
  case (Cons m attempts)
  show ?case
    unfolding firstSuccess.simps
  proof (rule rejectsWithErrors_bindP)
    show "rejectsWithErrors m" using Cons.prems by simp
    show "rejectsWithErrors (case x of None \<Rightarrow> firstSuccess attempts
                             | Some y \<Rightarrow> returnP (Some y))" for x
      using Cons by (cases x) (simp_all add: rejectsWithErrors_returnP)
  qed
qed

lemma rejectsWithErrors_findRepository:
  assumes "\<And>ow repo. rejectsWithErrors (getRepository gh ow repo)"
  shows "rejectsWithErrors (findRepository gh maps error st)"
  unfolding findRepository_targets
  by (rule rejectsWithErrors_firstSuccess)
    (auto intro: rejectsWithErrors_getRepositoryInfo [OF assms] rejectsWithErrors_searchForRepository)

lemma errorRejections_tryBlock:
  assumes ok: "errorRejections orch"
  shows "rejectsWithErrors (tryBlock orch error)"
  using ok unfolding tryBlock_def Let_def errorRejections_def
  apply (elim conjE)
  apply (rule rejectsWithErrors_bindP, rule rejectsWithErrors_setStatus)
  apply (rule rejectsWithErrors_bindP, rule rejectsWithErrors_step,
      rule rejectsWithErrors_findRepository, simp)
  apply (simp split: option.split, intro conjI allI impI)
   apply (rule rejectsWithErrors_throwP)
  apply (rule rejectsWithErrors_bindP, rule rejectsWithErrors_setStatus)
  apply (rule rejectsWithErrors_bindP, rule rejectsWithErrors_step,
      rule rejectsWithErrors_invoke, simp)
  apply (rule rejectsWithErrors_bindP, rule rejectsWithErrors_setStatus)
  apply (rule rejectsWithErrors_bindP, rule rejectsWithErrors_step,
      rule rejectsWithErrors_invoke, simp)
  apply (rule rejectsWithErrors_bindP, rule rejectsWithErrors_setStatus)
  apply (rule rejectsWithErrors_bindP, rule rejectsWithErrors_step,
      rule rejectsWithErrors_invoke, simp)
  apply (simp split: if_split, intro conjI allI impI)
   apply (rule rejectsWithErrors_throwP)
  apply (rule rejectsWithErrors_bindP, rule rejectsWithErrors_setStatus)
  apply (rule rejectsWithErrors_bindP, rule rejectsWithErrors_step,
      rule rejectsWithErrors_invoke, simp)
  apply (rule rejectsWithErrors_bindP, rule rejectsWithErrors_step,
      rule rejectsWithErrors_invoke, simp)
  apply (rule rejectsWithErrors_bindP, rule rejectsWithErrors_step,
      rule rejectsWithErrors_invoke, simp)
  apply (rule rejectsWithErrors_bindP, rule rejectsWithErrors_setStatus)
  apply (rule rejectsWithErrors_bindP, rule rejectsWithErrors_step,
      rule rejectsWithErrors_invoke, simp)
  apply (rule rejectsWithErrors_bindP, rule rejectsWithErrors_setStatus)
  apply (rule rejectsWithErrors_bindP, rule rejectsWithErrors_step,
      rule rejectsWithErrors_invoke, simp)
  apply (rule rejectsWithErrors_bindP, rule rejectsWithErrors_step,
      rule rejectsWithErrors_readClock)
  apply (rule rejectsWithErrors_bindP, rule rejectsWithErrors_step,
      rule rejectsWithErrors_invoke, simp)
  apply (rule rejectsWithErrors_bindP, rule rejectsWithErrors_step,
      rule rejectsWithErrors_readClock)
  apply (rule rejectsWithErrors_returnP)
  done

text \<open>With such collaborators \<open>processError\<close> returns, and a failed result carries a
  message.\<close>

lemma processError_reliable:
  assumes ok: "errorRejections orch"
  shows "\<exists>r s'. processError orch error s = (Inr r, s') \<and>
     (\<not> success r \<longrightarrow> (\<exists>m. fr_errorMessage r = Some m))"
proof -
  obtain started s0 where clock: "readClock orch s = (Inr started, s0)"
    using readClock_run [of orch s] by blast
  let ?status0 = "\<lparr>stage = Initializing, progress = 0, status_message = ''Starting error processing'',
      startTime = started, endTime = None, status_error = None\<rparr>"
  obtain out status s1 where body: "tryBlock orch error (?status0, s0) = (out, (status, s1))"
    by (cases "tryBlock orch error (?status0, s0)") auto
  note outcome = processError_cases [OF clock body]
  show ?thesis
  proof (cases out)
    case (Inr result)
    with outcome have "processError orch error s = (Inr result, s1)" by simp
    moreover from body Inr have "success result"
      using tryBlock_result by blast
    ultimately show ?thesis by simp
  next
    case (Inl err)
    with body errorRejections_tryBlock [OF ok, of error] have "isErrorObject err"
      unfolding rejectsWithErrors_def by blast
    then obtain m where m: "err = JsError m" by (cases err) simp_all
    with Inl outcome obtain finished s3 where
      "processError orch error s = (Inr (failedResult error (Some m) finished), s3)"
      by auto
    then show ?thesis by (simp add: failedResult_def)
  qed
qed

subsection \<open>The workflow: the batch\<close>

text \<open>One run sets the stage \<open>parsing_error\<close> once, and never notifies with the stage
  \<open>processing\<close>, which is the loop's.\<close>

lemma stage_name_not_processing: "stage_name b \<noteq> ''processing''"
  by (cases b) simp_all

lemma count_stages_set:
  assumes "1 \<le> j" "j \<le> 7"
  shows "count_list (map StageSet (take j workflowStages)) (StageSet ParsingError) = 1 \<and>
     count_list (map StageSet (take j workflowStages)) (StageNotified x) = 0"
proof -
  from assms have "j = 1 \<or> j = 2 \<or> j = 3 \<or> j = 4 \<or> j = 5 \<or> j = 6 \<or> j = 7" by arith
  then show ?thesis by (elim disjE) (simp_all add: workflowStages_def)
qed

lemma processError_events:
  assumes run: "processError orch error s = (res, s')"
  shows "\<exists>cs. calls s' = calls s @ cs \<and>
     count_list (stageEvents cs) (StageSet ParsingError) = 1 \<and>
     count_list (stageEvents cs) (StageNotified ''processing'') = 0"
proof -
  from processError_stages [OF run] obtain cs j where
    cs: "calls s' = calls s @ cs" and j: "1 \<le> j" "j \<le> 7" and
    ev: "stageEvents cs = map StageSet (take j workflowStages) \<or>
      stageEvents cs = map StageSet (take j workflowStages) @
        [StageLogged ((Initializing # workflowStages) ! j)] \<or>
      stageEvents cs = map StageSet (take j workflowStages) @
        [StageLogged ((Initializing # workflowStages) ! j),
         StageNotified (stage_name ((Initializing # workflowStages) ! j))]"
    by (elim exE conjE)
  note counts = count_stages_set [OF j, of "''processing''"]
  from ev have "count_list (stageEvents cs) (StageSet ParsingError) = 1 \<and>
     count_list (stageEvents cs) (StageNotified ''processing'') = 0"
    using counts by (elim disjE) (simp_all add: stage_name_not_processing)
  with cs show ?thesis by blast
qed

text \<open>The loop goes through the whole batch: it starts a run for every error, keeps the
  results in the order of the errors, and notifies with the stage \<open>processing\<close> for every
  error whose run rejected.\<close>

lemma processLoop_total:
  "\<exists>kept s' cs. processLoop orch errors acc s = (Inr (acc @ kept), s') \<and>
     calls s' = calls s @ cs \<and>
     count_list (stageEvents cs) (StageSet ParsingError) = length errors \<and>
     length kept + count_list (stageEvents cs) (StageNotified ''processing'') = length errors \<and>
     subseq (map errorId kept) (map id_err errors) \<and>
     (\<forall>r\<in>set kept.
        (success r \<longrightarrow> fr_errorMessage r = None) \<and>
        (\<not> success r \<longrightarrow> fr_repository r = [] \<and> fr_branch r = []))"
proof (induction errors arbitrary: acc s)
  case Nil
  show ?case by (simp add: returnP_def)
next
  case (Cons error errors)
  obtain out s1 where pe: "processError orch error s = (out, s1)"
    by (cases "processError orch error s")
  from processError_events [OF pe] obtain cs1 where
    cs1: "calls s1 = calls s @ cs1" "count_list (stageEvents cs1) (StageSet ParsingError) = 1"
      "count_list (stageEvents cs1) (StageNotified ''processing'') = 0"
    by (elim exE conjE)
  show ?case
  proof (cases out)
    case (Inr r)
    note facts = processError_returns [OF pe [unfolded Inr]]
    obtain kept s' cs where rest: "processLoop orch errors (acc @ [r]) s1 = (Inr ((acc @ [r]) @ kept), s')"
      "calls s' = calls s1 @ cs"
      "count_list (stageEvents cs) (StageSet ParsingError) = length errors"
      "length kept + count_list (stageEvents cs) (StageNotified ''processing'') = length errors"
      "subseq (map errorId kept) (map id_err errors)"
      "\<forall>x\<in>set kept. (success x \<longrightarrow> fr_errorMessage x = None) \<and>
         (\<not> success x \<longrightarrow> fr_repository x = [] \<and> fr_branch x = [])"
      using Cons.IH [of "acc @ [r]" s1] by blast
    have "processLoop orch (error # errors) acc s = (Inr (acc @ r # kept), s')"
      using pe Inr rest(1) by simp
    moreover have "calls s' = calls s @ (cs1 @ cs)"
      using cs1(1) rest(2) by simp
    moreover have "count_list (stageEvents (cs1 @ cs)) (StageSet ParsingError) =
        length (error # errors)"
      using cs1(2) rest(3) by (simp add: stageEvents_append)
    moreover have "length (r # kept) +
        count_list (stageEvents (cs1 @ cs)) (StageNotified ''processing'') = length (error # errors)"
      using cs1(3) rest(4) by (simp add: stageEvents_append)
    moreover have "subseq (map errorId (r # kept)) (map id_err (error # errors))"
      using rest(5) facts by simp
    moreover have "\<forall>x\<in>set (r # kept). (success x \<longrightarrow> fr_errorMessage x = None) \<and>
         (\<not> success x \<longrightarrow> fr_repository x = [] \<and> fr_branch x = [])"
      using rest(6) facts by simp
    ultimately show ?thesis by blast
  next
    case (Inl t)
    from processError_rejects [OF pe [unfolded Inl]] obtain err where "readMessage err = Inl t"
      by blast
    then obtain m where t: "readMessage t = Inr (Some m)"
      by (cases err) auto
    let ?notice = "errorNotification orch error ''processing'' (Some m)"
    obtain s2 where h: "handleWorkflowError orch error ''processing'' t s1 = (Inr (), s2)"
      and c2: "calls s2 = calls s1 @ [SendErrorNotification ?notice]"
      using handleWorkflowError_run [of orch error "''processing''" t s1] t by auto
    obtain kept s' cs where rest: "processLoop orch errors acc s2 = (Inr (acc @ kept), s')"
      "calls s' = calls s2 @ cs"
      "count_list (stageEvents cs) (StageSet ParsingError) = length errors"
      "length kept + count_list (stageEvents cs) (StageNotified ''processing'') = length errors"
      "subseq (map errorId kept) (map id_err errors)"
      "\<forall>x\<in>set kept. (success x \<longrightarrow> fr_errorMessage x = None) \<and>
         (\<not> success x \<longrightarrow> fr_repository x = [] \<and> fr_branch x = [])"
      using Cons.IH [of acc s2] by blast
    let ?cs = "cs1 @ SendErrorNotification ?notice # cs"
    have "processLoop orch (error # errors) acc s = (Inr (acc @ kept), s')"
      using pe Inl h rest(1) by (simp add: bindP_apply)
    moreover have "calls s' = calls s @ ?cs"
      using cs1(1) c2 rest(2) by simp
    moreover have "count_list (stageEvents ?cs) (StageSet ParsingError) = length (error # errors)"
      using cs1(2) rest(3) by (simp add: stageEvents_append)
    moreover have "length kept + count_list (stageEvents ?cs) (StageNotified ''processing'') =
        length (error # errors)"
      using cs1(3) rest(4) by (simp add: stageEvents_append errorNotification_def)
    moreover have "subseq (map errorId kept) (map id_err (error # errors))"
      using rest(5) by (simp add: list_emb_Cons)
    ultimately show ?thesis using rest(6) by blast
  qed
qed

text \<open>With collaborators that reject with \<open>Error\<close> objects every error has its result.\<close>

lemma processLoop_reliable:
  assumes ok: "errorRejections orch"
    and run: "processLoop orch errors acc s = (Inr (acc @ kept), s')"
  shows "map errorId kept = map id_err errors \<and>
     (\<forall>r\<in>set kept. \<not> success r \<longrightarrow> (\<exists>m. fr_errorMessage r = Some m))"
  using run
proof (induction errors arbitrary: acc s kept s')
  case Nil
  then show ?case by (simp add: returnP_def)
next
  case (Cons error errors)
  from processError_reliable [OF ok, of error s] obtain r s1 where
    pe: "processError orch error s = (Inr r, s1)"
    and msg: "\<not> success r \<longrightarrow> (\<exists>m. fr_errorMessage r = Some m)"
    by blast
  note facts = processError_returns [OF pe]
  from processLoop_total [of orch errors "acc @ [r]" s1] obtain more s2 where
    rest: "processLoop orch errors (acc @ [r]) s1 = (Inr ((acc @ [r]) @ more), s2)"
    by blast
  from Cons.prems pe rest have kept: "kept = r # more" by simp
  from Cons.IH [OF rest] have "map errorId more = map id_err errors \<and>
     (\<forall>x\<in>set more. \<not> success x \<longrightarrow> (\<exists>m. fr_errorMessage x = Some m))" .
  with kept facts msg show ?case by simp
qed

subsection \<open>Repository resolution: failures\<close>

text \<open>
  Claim C6, as the code has it. Resolution makes lookups and at most one search, and
  nothing else. It fails only with the failure a lookup raised, unchanged, and that lookup
  is then the last call it made: so the not-found outcome is never a failure, and every
  failure of a lookup propagates as it is. A failure of the search call does not propagate:
  the resolver catches it and returns not-found.
\<close>

theorem findRepository_failures:
  "findRepository gh maps error st s = (res, s') \<longrightarrow>
     (\<exists>cs. calls s' = calls s @ cs \<and> list_all resolverCall cs \<and>
        (\<forall>ow repo e. GetRepository ow repo (Inl e) \<in> set cs \<longrightarrow> res = Inl e) \<and>
        (\<forall>e. res = Inl e \<longrightarrow> (\<exists>pre ow repo. cs = pre @ [GetRepository ow repo (Inl e)])) \<and>
        (\<forall>q e. SearchRepositories q (Inl e) \<in> set cs \<longrightarrow> res = Inr None))"
  by (rule impI) (rule findRepository_trace)

theorem findRepository_failures_witness:
  "fst (findRepository (sampleGitHub [] [''down/repo''] False) None
          (sampleError ''err-9'' ''svc'' [] (Some ''down/repo'')) (parse [] None) initialState) =
     Inl (JsError ''Service Unavailable'') \<and>
   (\<exists>cs. calls (snd (findRepository (sampleGitHub [] [''down/repo''] False) None
                        (sampleError ''err-9'' ''svc'' [] (Some ''down/repo'')) (parse [] None)
                        initialState)) = calls initialState @ cs \<and>
          list_all resolverCall cs \<and>
          (\<exists>pre ow repo. cs = pre @ [GetRepository ow repo (Inl (JsError ''Service Unavailable''))]))"
proof -
  let ?run = "findRepository (sampleGitHub [] [''down/repo''] False) None
      (sampleError ''err-9'' ''svc'' [] (Some ''down/repo'')) (parse [] None) initialState"
  have out: "fst ?run = Inl (JsError ''Service Unavailable'')"
    by code_simp
  then obtain s1 where run: "?run = (Inl (JsError ''Service Unavailable''), s1)"
    by (cases ?run) simp
  have "\<exists>cs. calls s1 = calls initialState @ cs \<and> list_all resolverCall cs \<and>
        (\<forall>ow repo e. GetRepository ow repo (Inl e) \<in> set cs \<longrightarrow>
           (Inl (JsError ''Service Unavailable'') :: js_error + RepositoryInfo option) = Inl e) \<and>
        (\<forall>e. (Inl (JsError ''Service Unavailable'') :: js_error + RepositoryInfo option) = Inl e \<longrightarrow>
           (\<exists>pre ow repo. cs = pre @ [GetRepository ow repo (Inl e)])) \<and>
        (\<forall>q e. SearchRepositories q (Inl e) \<in> set cs \<longrightarrow>
           (Inl (JsError ''Service Unavailable'') :: js_error + RepositoryInfo option) = Inr None)"
    by (rule findRepository_failures [THEN mp, OF run])
  then obtain cs where a: "calls s1 = calls initialState @ cs" and b: "list_all resolverCall cs"
    and d: "\<forall>e. (Inl (JsError ''Service Unavailable'') :: js_error + RepositoryInfo option) = Inl e \<longrightarrow>
           (\<exists>pre ow repo. cs = pre @ [GetRepository ow repo (Inl e)])"
    by (elim exE conjE)
  from d have c: "\<exists>pre ow repo. cs = pre @ [GetRepository ow repo (Inl (JsError ''Service Unavailable''))]"
    by simp
  have s1: "snd ?run = s1" by (simp add: run)
  have "\<exists>cs. calls (snd ?run) = calls initialState @ cs \<and> list_all resolverCall cs \<and>
          (\<exists>pre ow repo. cs = pre @ [GetRepository ow repo (Inl (JsError ''Service Unavailable''))])"
    unfolding s1 using a b c by - (rule exI [of _ cs], simp)
  with out show ?thesis by (rule conjI)
qed

text \<open>The claim as the specification words it fails for the search call: its failure is
  swallowed, and resolution returns not-found.\<close>

theorem search_failure_swallowed_counterexample:
  "searchRepositories (sampleGitHub [] [] True) ''svc'' 0 = (Inl (JsError ''search failed''), 1) \<and>
   findRepository (sampleGitHub [] [] True) None (sampleError ''err-2'' ''svc'' [] None)
     (parse [] None) initialState =
     (Inr None,
      \<lparr>world = 1, calls = [SearchRepositories ''svc'' (Inl (JsError ''search failed''))]\<rparr>)"
  by code_simp

end
